(* ===== verification/Prelude.thy ===== *)
theory Prelude
  imports Main
begin

text \<open>
  Shared vocabulary of the development: the JavaScript string and truthiness
  operations the backend applies to request fields (\<open>String.prototype.trim\<close>,
  \<open>toLowerCase\<close>, \<open>!x\<close>), the list operations by which the document store
  answers queries (first match, update of the first match, deletion of the
  first match), and the lemmas about them that the component theories share.
  The collection \<open>js_simps\<close> gathers the evaluation rules of the JavaScript
  helpers, \<open>query_simps\<close> the rules of the list queries.
\<close>

named_theorems js_simps "evaluation rules of the modelled JavaScript built-ins"
named_theorems query_simps "rules of first-match queries over a collection"

section \<open>JavaScript values in request bodies\<close>

text \<open>
  A field of a parsed JSON body is a string or absent: \<open>None\<close> is
  \<open>undefined\<close> (or \<open>null\<close>). \<open>truthy\<close> is JavaScript's \<open>!!x\<close> on such a
  field: the empty string and \<open>undefined\<close> are falsy.
\<close>

type_synonym field = "string option"

text \<open>The value of a field the controller has found truthy.\<close>

definition field_str :: "field \<Rightarrow> string" where
  "field_str f = (case f of None \<Rightarrow> [] | Some x \<Rightarrow> x)"

text \<open>A document identifier (a MongoDB ObjectId) is a number below \<open>16 ^ 24\<close>.\<close>

type_synonym oid = nat

definition truthy :: "field \<Rightarrow> bool" where
  "truthy f = (case f of None \<Rightarrow> False | Some s \<Rightarrow> s \<noteq> [])"

text \<open>
  The white space that \<open>String.prototype.trim\<close> removes, restricted to the
  ASCII characters (tab, line feed, vertical tab, form feed, carriage return,
  space); the Unicode spaces beyond ASCII are not modelled.
\<close>

definition js_ws :: "char \<Rightarrow> bool" where
  "js_ws c = ((of_char c :: nat) \<in> {9, 10, 11, 12, 13, 32})"

definition js_trim :: "string \<Rightarrow> string" where
  "js_trim s = rev (dropWhile js_ws (rev (dropWhile js_ws s)))"

text \<open>\<open>String.prototype.toLowerCase\<close> on ASCII letters.\<close>

definition js_lower_char :: "char \<Rightarrow> char" where
  "js_lower_char c =
     (let n = (of_char c :: nat) in if 65 \<le> n \<and> n \<le> 90 then char_of (n + 32) else c)"

definition js_lower :: "string \<Rightarrow> string" where
  "js_lower s = map js_lower_char s"

section \<open>First-match queries over a collection\<close>

text \<open>
  A collection is a list of documents in insertion (natural) order. A
  \<open>findOne\<close> answers the first document matching the filter, a
  \<open>findOneAndUpdate\<close> rewrites that document, a \<open>findOneAndDelete\<close> removes it.
\<close>

primrec update_first :: "('a \<Rightarrow> bool) \<Rightarrow> ('a \<Rightarrow> 'a) \<Rightarrow> 'a list \<Rightarrow> 'a list" where
  "update_first P f [] = []"
| "update_first P f (x # xs) = (if P x then f x # xs else x # update_first P f xs)"

primrec delete_first :: "('a \<Rightarrow> bool) \<Rightarrow> 'a list \<Rightarrow> 'a list" where
  "delete_first P [] = []"
| "delete_first P (x # xs) = (if P x then xs else x # delete_first P xs)"

section \<open>Errors\<close>

text \<open>
  Every \<open>throw\<close> and every early \<open>res.json({ error })\<close> of the backend is a
  constructor here. The first group are the errors the document store raises
  (Mongoose's \<open>ValidationError\<close>, \<open>CastError\<close>, \<open>DocumentNotFoundError\<close> and
  MongoDB's duplicate-key error E11000); the second group are the errors the
  services throw with a literal message; the third group are the early returns of
  the controllers; the last is the authentication middleware's refusal.
  \<open>error_message\<close> gives the literal message of the source where it has one.
\<close>

datatype error =
    EValidation | ECast | EDuplicateKey | EDocumentNotFound
  | ETodoNotFound | EUsernameTaken | ECreateFailed | EUserNotFound | EInvalidPassword
  | EMissingFields | EMissingId | EUsernameMissingFromToken
  | EMissingUsername | EMissingPassword | EMissingFullname | EMissingUsernameParam
  | EUnauthorized | EInvalidChatFormat | EInternal

fun error_message :: "error \<Rightarrow> string option" where
  "error_message ETodoNotFound = Some ''Todo not found or access denied''"
| "error_message EUsernameTaken = Some ''Username already taken''"
| "error_message ECreateFailed = Some ''Failed to create user. Please try again.''"
| "error_message EUserNotFound = Some ''UserNotFound''"
| "error_message EInvalidPassword = Some ''InvalidPassword''"
| "error_message EMissingFields = Some ''Missing required fields''"
| "error_message EMissingId = Some ''Missing id''"
| "error_message EUsernameMissingFromToken = Some ''Username missing from token''"
| "error_message EMissingUsername = Some ''missing username''"
| "error_message EMissingPassword = Some ''missing password''"
| "error_message EMissingFullname = Some ''missing fullname''"
| "error_message EMissingUsernameParam = Some ''missing username param''"
| "error_message EInvalidChatFormat = Some ''Invalid format: todoList and chats must be arrays''"
| "error_message EInternal = Some ''Internal server error''"
| "error_message _ = None"

section \<open>Lemmas on the JavaScript helpers\<close>

lemma truthy_simps [simp, js_simps]:
  "truthy None = False" "truthy (Some s) = (s \<noteq> [])"
  by (simp_all add: truthy_def)

lemma dropWhile_rev_dropWhile_rev:
  assumes "xs = [] \<or> \<not> P (hd xs)"
  shows "dropWhile P (rev (dropWhile P (rev xs))) = rev (dropWhile P (rev xs))"
proof (cases "rev (dropWhile P (rev xs))")
  case Nil
  then show ?thesis by (simp only: Nil dropWhile.simps)
next
  case (Cons y ys)
  have "rev (dropWhile P (rev xs)) @ rev (takeWhile P (rev xs)) = xs"
    by (metis rev_append rev_rev_ident takeWhile_dropWhile_id)
  with Cons have xs: "xs = y # (ys @ rev (takeWhile P (rev xs)))" by simp
  then have "\<not> P y" using assms by (metis list.distinct(1) list.sel(1))
  with Cons show ?thesis by simp
qed

lemma js_trim_idem [simp, js_simps]: "js_trim (js_trim s) = js_trim s"
proof -
  let ?t = "dropWhile js_ws s"
  have hd: "?t = [] \<or> \<not> js_ws (hd ?t)"
    by (metis dropWhile_eq_Nil_conv hd_dropWhile)
  then have "dropWhile js_ws (rev (dropWhile js_ws (rev ?t))) = rev (dropWhile js_ws (rev ?t))"
    by (rule dropWhile_rev_dropWhile_rev)
  then show ?thesis
    by (simp add: js_trim_def)
qed

lemma js_trim_Nil [simp, js_simps]: "js_trim [] = []"
  by (simp add: js_trim_def)

lemma js_lower_idem [simp, js_simps]: "js_lower (js_lower s) = js_lower s"
proof -
  have "js_lower_char (js_lower_char c) = js_lower_char c" for c
    by (simp add: js_lower_char_def Let_def)
  then show ?thesis by (simp add: js_lower_def comp_def)
qed

lemma js_ws_lower [simp]: "js_ws (js_lower_char c) = js_ws c"
  by (auto simp: js_ws_def js_lower_char_def Let_def)

lemma js_trim_lower [js_simps]: "js_trim (js_lower s) = js_lower (js_trim s)"
proof -
  have "js_ws \<circ> js_lower_char = js_ws" by (simp add: comp_def)
  then show ?thesis
    by (simp add: js_trim_def js_lower_def dropWhile_map rev_map)
qed

section \<open>Lemmas on first-match queries\<close>

lemma find_append [query_simps]:
  "find P (xs @ ys) = (case find P xs of None \<Rightarrow> find P ys | Some x \<Rightarrow> Some x)"
  by (induction xs) auto

lemma update_first_find [query_simps]:
  "find P xs = None \<Longrightarrow> update_first P f xs = xs"
  by (induction xs) auto

lemma delete_first_find [query_simps]:
  "find P xs = None \<Longrightarrow> delete_first P xs = xs"
  by (induction xs) auto

lemma length_update_first [simp, query_simps]: "length (update_first P f xs) = length xs"
  by (induction xs) auto

lemma map_update_first [query_simps]:
  "(\<And>x. P x \<Longrightarrow> g (f x) = g x) \<Longrightarrow> map g (update_first P f xs) = map g xs"
  by (induction xs) auto

lemma set_update_first [query_simps]:
  "set (update_first P f xs) \<subseteq> set xs \<union> f ` {x \<in> set xs. P x}"
  by (induction xs) auto

lemma set_update_first_find [query_simps]:
  "find P xs = Some x \<Longrightarrow> set (update_first P f xs) \<subseteq> insert (f x) (set xs)"
  by (induction xs) (auto split: if_splits)

lemma set_delete_first [query_simps]: "set (delete_first P xs) \<subseteq> set xs"
  by (induction xs) auto

lemma filter_update_first_other [query_simps]:
  "(\<And>x. P x \<Longrightarrow> Q (f x) = Q x \<and> \<not> Q x) \<Longrightarrow>
   filter Q (update_first P f xs) = filter Q xs"
  by (induction xs) auto

lemma filter_delete_first_other [query_simps]:
  "(\<And>x. P x \<Longrightarrow> \<not> Q x) \<Longrightarrow> filter Q (delete_first P xs) = filter Q xs"
  by (induction xs) auto

lemma find_Some_in [query_simps]: "find P xs = Some x \<Longrightarrow> x \<in> set xs \<and> P x"
  by (induction xs) (auto split: if_splits)

lemma delete_first_distinct [query_simps]:
  "distinct (map g xs) \<Longrightarrow> distinct (map g (delete_first P xs))"
proof (induction xs)
  case Nil
  then show ?case by simp
next
  case (Cons x xs)
  have "g ` set (delete_first P xs) \<subseteq> g ` set xs"
    using set_delete_first by (rule image_mono)
  with Cons show ?case by auto
qed

lemma update_first_cong [query_simps]:
  "(\<And>x. x \<in> set xs \<Longrightarrow> P x = Q x) \<Longrightarrow> update_first P f xs = update_first Q f xs"
  by (induction xs) auto

lemma find_update_first [query_simps]:
  "find P xs = Some x \<Longrightarrow> P (f x) \<Longrightarrow> find P (update_first P f xs) = Some (f x)"
  by (induction xs) (auto split: if_splits)

lemma update_first_update_first [query_simps]:
  "find P xs = Some x \<Longrightarrow> P (f x) \<Longrightarrow>
   update_first P g (update_first P f xs) = update_first P (g \<circ> f) xs"
  by (induction xs) (auto split: if_splits)

lemma update_first_id [query_simps]:
  "find P xs = Some x \<Longrightarrow> f x = x \<Longrightarrow> update_first P f xs = xs"
  by (induction xs) (auto split: if_splits)

lemma find_Some_unique [query_simps]:
  assumes "distinct (map k xs)" and "x \<in> set xs"
  shows "find (\<lambda>y. k y = k x \<and> Q y) xs = (if Q x then Some x else None)"
proof -
  from assms(1) have inj: "inj_on k (set xs)" by (simp add: distinct_map)
  have agree: "y = x" if "y \<in> set xs" and "k y = k x" for y
    using inj assms(2) that by (auto dest: inj_onD)
  show ?thesis
  proof (cases "Q x")
    case True
    with assms(2) have "find (\<lambda>y. k y = k x \<and> Q y) xs \<noteq> None"
      by (auto simp: find_None_iff)
    then obtain z where z: "find (\<lambda>y. k y = k x \<and> Q y) xs = Some z" by blast
    then have "z \<in> set xs" and "k z = k x" by (auto simp: find_Some_iff)
    then have "z = x" by (rule agree)
    with z True show ?thesis by simp
  next
    case False
    have "\<not> (k y = k x \<and> Q y)" if "y \<in> set xs" for y
      using agree [OF that] False by blast
    with False show ?thesis by (simp add: find_None_iff)
  qed
qed

text \<open>
  With distinct keys, a collection denotes a finite map from keys to documents;
  updating or deleting the first match is updating or deleting its key.
\<close>

lemma map_of_update_first [query_simps]:
  assumes "distinct (map k xs)" and "find P xs = Some x" and "\<And>y. k (f y) = k y"
  shows "map_of (map (\<lambda>t. (k t, t)) (update_first P f xs)) =
           (map_of (map (\<lambda>t. (k t, t)) xs))(k x \<mapsto> f x)"
  using assms
proof (induction xs)
  case Nil
  then show ?case by simp
next
  case (Cons y ys)
  show ?case
  proof (cases "P y")
    case True
    with Cons.prems show ?thesis by (auto simp: fun_eq_iff)
  next
    case False
    with Cons.prems have "x \<in> set ys" by (auto dest: find_Some_in)
    with Cons.prems(1) have "k x \<noteq> k y" by (force simp: image_iff)
    with False Cons show ?thesis by (auto simp: fun_upd_twist)
  qed
qed

lemma map_of_delete_first [query_simps]:
  assumes "distinct (map k xs)" and "find P xs = Some x"
  shows "map_of (map (\<lambda>t. (k t, t)) (delete_first P xs)) =
           (map_of (map (\<lambda>t. (k t, t)) xs))(k x := None)"
  using assms
proof (induction xs)
  case Nil
  then show ?case by simp
next
  case (Cons y ys)
  show ?case
  proof (cases "P y")
    case True
    with Cons.prems have "k y \<notin> k ` set ys" and "x = y" by auto
    then have "map_of (map (\<lambda>t. (k t, t)) ys) (k x) = None"
      by (simp add: map_of_eq_None_iff image_image)
    with True \<open>x = y\<close> show ?thesis by (auto simp: fun_eq_iff)
  next
    case False
    with Cons.prems have "x \<in> set ys" by (auto dest: find_Some_in)
    with Cons.prems(1) have "k x \<noteq> k y" by (force simp: image_iff)
    with False Cons show ?thesis by (auto simp: fun_upd_twist)
  qed
qed

text \<open>
  Seen through a filter, updating or deleting the first match of a key is mapping or
  filtering by that key.
\<close>

lemma filter_update_first_key [query_simps]:
  assumes "distinct (map k xs)" and "find P xs = Some x" and "\<And>y. P y \<Longrightarrow> k y = k x"
    and "Q x" and "Q (f x)"
  shows "filter Q (update_first P f xs) = map (\<lambda>y. if k y = k x then f x else y) (filter Q xs)"
  using assms(1,2)
proof (induction xs)
  case Nil
  then show ?case by simp
next
  case (Cons y ys)
  show ?case
  proof (cases "P y")
    case True
    with Cons.prems have "y = x" by simp
    moreover have "map (\<lambda>z. if k z = k x then f x else z) (filter Q ys) = filter Q ys"
      using Cons.prems(1) \<open>y = x\<close> by (intro map_idI) (auto simp: image_iff)
    ultimately show ?thesis using True assms(4,5) by simp
  next
    case False
    with Cons.prems have find: "find P ys = Some x" by simp
    then have "x \<in> set ys" by (auto dest: find_Some_in)
    with Cons.prems(1) have "k y \<noteq> k x" by (force simp: image_iff)
    with False find Cons show ?thesis by simp
  qed
qed

lemma filter_delete_first_key [query_simps]:
  assumes "distinct (map k xs)" and "find P xs = Some x" and "\<And>y. P y \<Longrightarrow> k y = k x"
  shows "filter Q (delete_first P xs) = filter (\<lambda>y. k y \<noteq> k x) (filter Q xs)"
  using assms(1,2)
proof (induction xs)
  case Nil
  then show ?case by simp
next
  case (Cons y ys)
  show ?case
  proof (cases "P y")
    case True
    with Cons.prems have "y = x" by simp
    with Cons.prems(1) have "filter (\<lambda>z. k z \<noteq> k x) (filter Q ys) = filter Q ys"
      by (auto intro!: filter_cong simp: image_iff)
    with True \<open>y = x\<close> show ?thesis by simp
  next
    case False
    with Cons.prems have find: "find P ys = Some x" by simp
    then have "x \<in> set ys" by (auto dest: find_Some_in)
    with Cons.prems(1) have "k y \<noteq> k x" by (force simp: image_iff)
    with False find Cons show ?thesis by simp
  qed
qed

lemma list_all_update_first [query_simps]:
  "list_all Q xs \<Longrightarrow> (\<And>x. x \<in> set xs \<Longrightarrow> Q x \<Longrightarrow> Q (f x)) \<Longrightarrow> list_all Q (update_first P f xs)"
  by (induction xs) auto

lemma list_all_delete_first [query_simps]: "list_all Q xs \<Longrightarrow> list_all Q (delete_first P xs)"
  by (induction xs) auto

text \<open>Appending as a function, for results under \<open>map_option\<close>.\<close>

lemma append_singleton_fun: "(@) [x] = (#) x"
  by (rule ext) simp

lemma append_append_fun: "(@) (xs @ ys) = (\<lambda>r. xs @ ys @ r)"
  by (rule ext) simp


lemma length_filter_remove_less:
  "m \<in> set xs \<Longrightarrow> P m \<Longrightarrow> length (filter (\<lambda>x. x \<noteq> m \<and> P x) xs) < length (filter P xs)"
proof (induction xs)
  case Nil
  then show ?case by simp
next
  case (Cons y xs)
  have "length (filter (\<lambda>x. x \<noteq> m \<and> P x) xs) \<le> length (filter P xs)"
    by (induction xs) auto
  with Cons show ?case by (cases "y = m") auto
qed

lemma map_add_idem [simp]: "f ++ f = f"
  by (rule ext) (simp add: map_add_def split: option.splits)

end
