(* ===== verification/Password.thy ===== *)
theory Password
  imports Prelude
begin

text \<open>
  The password hasher: \<open>src/backend-todo/src/utils/password-bcrypt.js\<close>, the
  wrappers \<open>generatePassword\<close> and \<open>verifyPassword\<close> around the bcrypt library.
  The library itself is not part of the repository; it is modelled from its
  documented behaviour as a symbolic (ideal) hash: a digest records its cost
  factor, its salt and the hashed secret, and nothing can be computed from a digest
  but a comparison. bcrypt hashes only the first 72 bytes of its input, which the
  model keeps (\<open>bcrypt_max_len\<close>). A character stands for a byte. The salt is the
  library's random choice; the model takes it as an argument.
\<close>

type_synonym salt = nat

datatype digest = Bcrypt nat salt string

definition bcrypt_max_len :: nat where
  "bcrypt_max_len = 72"

definition bcrypt_hash :: "string \<Rightarrow> nat \<Rightarrow> salt \<Rightarrow> digest" where
  "bcrypt_hash pw cost s = Bcrypt cost s (take bcrypt_max_len pw)"

definition bcrypt_compare :: "string \<Rightarrow> digest \<Rightarrow> bool" where
  "bcrypt_compare pw d = (case d of Bcrypt cost s h \<Rightarrow> take bcrypt_max_len pw = h)"

text \<open>The encoded form \<open>$2b$10$...\<close> of every bcrypt digest has 60 characters.\<close>

definition digest_length :: "digest \<Rightarrow> nat" where
  "digest_length d = 60"

text \<open>The repository's wrappers: cost factor 10.\<close>

definition generatePassword :: "string \<Rightarrow> salt \<Rightarrow> digest" where
  "generatePassword plaintext s = bcrypt_hash plaintext 10 s"

definition verifyPassword :: "string \<Rightarrow> digest \<Rightarrow> bool" where
  "verifyPassword plaintext hashed = bcrypt_compare plaintext hashed"

lemma verifyPassword_generatePassword_iff [simp]:
  "verifyPassword pw' (generatePassword pw s) \<longleftrightarrow>
     take bcrypt_max_len pw' = take bcrypt_max_len pw"
  by (simp add: verifyPassword_def generatePassword_def bcrypt_compare_def bcrypt_hash_def)

lemma verifyPassword_generatePassword [simp]:
  "verifyPassword pw (generatePassword pw s)"
  by (simp add: verifyPassword_def generatePassword_def bcrypt_compare_def bcrypt_hash_def)

end
