(* ===== verification/Token.thy ===== *)
theory Token
  imports Prelude
begin

text \<open>
  The token service and the session verifier. \<open>loginService\<close> in
  \<open>src/backend-todo/src/services/authentication.js\<close> signs a payload
  \<open>{id, username}\<close> with \<open>jwt.sign(payload, JWT_SECRET)\<close>, where
  \<open>JWT_SECRET = process.env.JWT_SECRET || "your-dev-secret"\<close>; the library adds the
  issue time \<open>iat\<close>. The middleware \<open>middlewares/decode-token\<close> that every
  protected route names is not among the repository's sources: it is modelled from
  the specification (extract the bearer token, verify it, refuse with
  \<open>Unauthorized\<close> otherwise, expose the claims as \<open>req.user\<close>).

  A token is symbolic: its claims and an HMAC tag that records the key it was made
  with (an ideal MAC: a tag under a key is obtained only by signing with that key).
  The token carries no expiry claim and the verifier checks none.
\<close>

record claims =
  claim_id :: oid
  claim_username :: string
  claim_iat :: nat

datatype tag = Hmac string claims

datatype token = JWT claims tag

definition dev_secret :: string where
  "dev_secret = ''your-dev-secret''"

text \<open>\<open>process.env.JWT_SECRET || "your-dev-secret"\<close>: an unset or empty variable
  falls back to the literal.\<close>

definition jwt_secret :: "string option \<Rightarrow> string" where
  "jwt_secret v = (case v of None \<Rightarrow> dev_secret | Some s \<Rightarrow> if s = [] then dev_secret else s)"

definition jwt_sign :: "oid \<Rightarrow> string \<Rightarrow> nat \<Rightarrow> string \<Rightarrow> token" where
  "jwt_sign i u now secret =
     (let c = \<lparr>claim_id = i, claim_username = u, claim_iat = now\<rparr> in JWT c (Hmac secret c))"

fun jwt_verify :: "token \<Rightarrow> string \<Rightarrow> claims option" where
  "jwt_verify (JWT c (Hmac k c')) secret = (if k = secret \<and> c' = c then Some c else None)"

text \<open>
  The session verifier: the \<open>Authorization\<close> header, \<open>None\<close> when it is absent
  or not of the form \<open>Bearer <token>\<close>.
\<close>

definition decode_token :: "token option \<Rightarrow> string \<Rightarrow> error + claims" where
  "decode_token hdr secret =
     (case hdr of
        None \<Rightarrow> Inl EUnauthorized
      | Some t \<Rightarrow> (case jwt_verify t secret of None \<Rightarrow> Inl EUnauthorized | Some c \<Rightarrow> Inr c))"

lemma jwt_verify_sign [simp]:
  "jwt_verify (jwt_sign i u now secret) secret =
     Some \<lparr>claim_id = i, claim_username = u, claim_iat = now\<rparr>"
  by (simp add: jwt_sign_def Let_def)

lemma jwt_verify_Some:
  "jwt_verify t secret = Some c \<Longrightarrow> t = JWT c (Hmac secret c)"
  by (erule jwt_verify.elims) (auto split: if_splits)

lemma decode_token_Inr:
  "decode_token hdr secret = Inr c \<longleftrightarrow> hdr = Some (JWT c (Hmac secret c))"
  by (auto simp: decode_token_def dest: jwt_verify_Some split: option.splits)

end
