(* ===== verification/Store.thy ===== *)
theory Store
  imports Password Token
begin

text \<open>
  The document store as the backend sees it: the two Mongoose models of
  \<open>src/backend-todo/src/models/user.js\<close> and \<open>models/todo.js\<close> (their fields,
  setters, validators and the unique index on \<open>username\<close>) and the collection
  operations the services call (\<open>findOne\<close>, \<open>create\<close>, \<open>findOneAndUpdate\<close>,
  \<open>findOneAndDelete\<close>, \<open>find\<close>, \<open>document.save\<close>). Mongoose and MongoDB are
  libraries; their behaviour is modelled from their documentation: setters run on
  documents, on query filters and on updates; validators run on \<open>create\<close> and
  \<open>save\<close> but not on \<open>findOneAndUpdate\<close> (no \<open>runValidators\<close> option is given);
  a filter value that cannot be cast to an ObjectId or a date raises a cast error.
  Fresh ObjectIds come from a counter. The timestamps \<open>createdAt\<close> and
  \<open>updatedAt\<close> are not modelled.
\<close>

section \<open>ObjectIds as strings\<close>

text \<open>
  A client sees an ObjectId as 24 hexadecimal digits (the \<open>toJSON\<close> transform of
  both models copies \<open>_id\<close> to \<open>id\<close>) and sends it back as a string, which
  Mongoose casts to an ObjectId in every filter on \<open>_id\<close>.
\<close>

definition hex_char :: "nat \<Rightarrow> char" where
  "hex_char d = char_of (if d < 10 then 48 + d else 87 + d)"

definition hex_digit_val :: "char \<Rightarrow> nat option" where
  "hex_digit_val c =
     (let n = (of_char c :: nat) in
      if 48 \<le> n \<and> n \<le> 57 then Some (n - 48)
      else if 97 \<le> n \<and> n \<le> 102 then Some (n - 87)
      else if 65 \<le> n \<and> n \<le> 70 then Some (n - 55)
      else None)"

definition hex_step :: "nat option \<Rightarrow> char \<Rightarrow> nat option" where
  "hex_step acc c =
     (case acc of None \<Rightarrow> None | Some a \<Rightarrow> map_option (\<lambda>d. 16 * a + d) (hex_digit_val c))"

definition hex_val :: "string \<Rightarrow> nat option" where
  "hex_val s = foldl hex_step (Some 0) s"

primrec hex_digits :: "nat \<Rightarrow> nat \<Rightarrow> string" where
  "hex_digits 0 n = []"
| "hex_digits (Suc w) n = hex_digits w (n div 16) @ [hex_char (n mod 16)]"

definition oid_hex :: "oid \<Rightarrow> string" where
  "oid_hex i = hex_digits 24 i"

definition cast_oid :: "string \<Rightarrow> oid option" where
  "cast_oid s = (if length s = 24 then hex_val s else None)"

section \<open>Documents and the database\<close>

text \<open>\<open>userSchema\<close>: \<open>username\<close>, \<open>password\<close> (the digest), \<open>fullname\<close>.\<close>

record user_doc =
  user_id :: oid
  user_name :: string
  password :: digest
  fullname :: string

text \<open>\<open>todoSchema\<close>; the owner is the field \<open>username\<close>, the due date a time in
  milliseconds.\<close>

record todo_doc =
  todo_id :: oid
  title :: string
  description :: string
  urgency :: string
  dueDate :: int
  completed :: bool
  owner :: string

record db =
  users :: "user_doc list"
  todos :: "todo_doc list"
  next_oid :: oid

text \<open>Casting a date string to a \<open>Date\<close> (JavaScript's date parser) is a parameter
  of the model: \<open>None\<close> is an invalid date.\<close>

type_synonym date_parser = "string \<Rightarrow> int option"

section \<open>The User model\<close>

text \<open>The setters \<open>trim\<close> and \<open>lowercase\<close> of \<open>username\<close>, applied to documents
  and to query filters alike.\<close>

definition cast_username :: "string \<Rightarrow> string" where
  "cast_username u = js_lower (js_trim u)"

text \<open>The validators: three required strings, and \<open>minlength: 6\<close> on the stored
  password, which is the digest.\<close>

definition user_valid :: "user_doc \<Rightarrow> bool" where
  "user_valid d \<longleftrightarrow> user_name d \<noteq> [] \<and> 6 \<le> digest_length (password d) \<and> fullname d \<noteq> []"

definition user_findOne :: "db \<Rightarrow> string \<Rightarrow> user_doc option" where
  "user_findOne s u = find (\<lambda>d. user_name d = cast_username u) (users s)"

text \<open>\<open>User.create\<close>: cast, validate, then the insert, which the unique index on
  \<open>username\<close> refuses when the name is taken.\<close>

definition user_create :: "db \<Rightarrow> string \<Rightarrow> digest \<Rightarrow> string \<Rightarrow> error + (user_doc \<times> db)" where
  "user_create s u h fn =
     (let d = \<lparr>user_id = next_oid s, user_name = cast_username u, password = h,
               fullname = js_trim fn\<rparr>
      in if \<not> user_valid d then Inl EValidation
         else if list_ex (\<lambda>d'. user_name d' = user_name d) (users s) then Inl EDuplicateKey
         else Inr (d, s\<lparr>users := users s @ [d], next_oid := Suc (next_oid s)\<rparr>))"

section \<open>The Todo model\<close>

definition urgency_values :: "string list" where
  "urgency_values = [''important'', ''normal'', ''not important'']"

text \<open>The validators: \<open>title\<close> and \<open>username\<close> required (a required string
  must be non-empty), \<open>urgency\<close> in the enumeration.\<close>

definition todo_valid :: "todo_doc \<Rightarrow> bool" where
  "todo_valid t \<longleftrightarrow> title t \<noteq> [] \<and> urgency t \<in> set urgency_values \<and> owner t \<noteq> []"

text \<open>\<open>Todo.create({username, title, description, urgency, dueDate, completed})\<close>:
  the \<open>trim\<close> setters, the date cast (whose failure Mongoose reports as a
  validation error of the document), validation, insertion.\<close>

definition todo_create ::
  "date_parser \<Rightarrow> db \<Rightarrow> string \<Rightarrow> string \<Rightarrow> string \<Rightarrow> string \<Rightarrow> string \<Rightarrow> bool \<Rightarrow>
   error + (todo_doc \<times> db)" where
  "todo_create pd s u ti de ur dd c =
     (case pd dd of
        None \<Rightarrow> Inl EValidation
      | Some due \<Rightarrow>
          (let t = \<lparr>todo_id = next_oid s, title = js_trim ti, description = js_trim de,
                    urgency = ur, dueDate = due, completed = c, owner = u\<rparr>
           in if todo_valid t then Inr (t, s\<lparr>todos := todos s @ [t], next_oid := Suc (next_oid s)\<rparr>)
              else Inl EValidation))"

text \<open>The filter \<open>{ _id: todoId, username }\<close> of the services.\<close>

definition todo_match :: "oid \<Rightarrow> string \<Rightarrow> todo_doc \<Rightarrow> bool" where
  "todo_match i u t \<longleftrightarrow> todo_id t = i \<and> owner t = u"

definition todo_findOne :: "db \<Rightarrow> string \<Rightarrow> string \<Rightarrow> error + todo_doc option" where
  "todo_findOne s sid u =
     (case cast_oid sid of
        None \<Rightarrow> Inl ECast
      | Some i \<Rightarrow> Inr (find (todo_match i u) (todos s)))"

text \<open>The update \<open>{ title, description, urgency, dueDate }\<close>: setters run, validators
  do not.\<close>

definition todo_set_fields :: "string \<Rightarrow> string \<Rightarrow> string \<Rightarrow> int \<Rightarrow> todo_doc \<Rightarrow> todo_doc" where
  "todo_set_fields ti de ur due t =
     t\<lparr>title := js_trim ti, description := js_trim de, urgency := ur, dueDate := due\<rparr>"

definition todo_findOneAndUpdate ::
  "date_parser \<Rightarrow> db \<Rightarrow> string \<Rightarrow> string \<Rightarrow> string \<Rightarrow> string \<Rightarrow> string \<Rightarrow> string \<Rightarrow>
   error + (todo_doc option \<times> db)" where
  "todo_findOneAndUpdate pd s sid u ti de ur dd =
     (case cast_oid sid of
        None \<Rightarrow> Inl ECast
      | Some i \<Rightarrow>
          (case pd dd of
             None \<Rightarrow> Inl ECast
           | Some due \<Rightarrow>
               (case find (todo_match i u) (todos s) of
                  None \<Rightarrow> Inr (None, s)
                | Some t \<Rightarrow>
                    Inr (Some (todo_set_fields ti de ur due t),
                         s\<lparr>todos := update_first (todo_match i u) (todo_set_fields ti de ur due) (todos s)\<rparr>))))"

definition todo_findOneAndDelete :: "db \<Rightarrow> string \<Rightarrow> string \<Rightarrow> error + (todo_doc option \<times> db)" where
  "todo_findOneAndDelete s sid u =
     (case cast_oid sid of
        None \<Rightarrow> Inl ECast
      | Some i \<Rightarrow>
          (case find (todo_match i u) (todos s) of
             None \<Rightarrow> Inr (None, s)
           | Some t \<Rightarrow> Inr (Some t, s\<lparr>todos := delete_first (todo_match i u) (todos s)\<rparr>)))"

text \<open>\<open>document.save()\<close> of a loaded document whose \<open>completed\<close> was modified:
  the whole document is validated, then \<open>updateOne({ _id }, { $set: { completed } })\<close>
  is sent; no document with that \<open>_id\<close> is a \<open>DocumentNotFoundError\<close>.\<close>

definition todo_save :: "db \<Rightarrow> todo_doc \<Rightarrow> error + db" where
  "todo_save s t =
     (if \<not> todo_valid t then Inl EValidation
      else (case find (\<lambda>d. todo_id d = todo_id t) (todos s) of
              None \<Rightarrow> Inl EDocumentNotFound
            | Some _ \<Rightarrow>
                Inr (s\<lparr>todos := update_first (\<lambda>d. todo_id d = todo_id t)
                                  (\<lambda>d. d\<lparr>completed := completed t\<rparr>) (todos s)\<rparr>)))"

definition todo_find :: "db \<Rightarrow> string \<Rightarrow> todo_doc list" where
  "todo_find s u = filter (\<lambda>t. owner t = u) (todos s)"

section \<open>Well-formedness and the abstract view\<close>

text \<open>
  The store's invariant: ObjectIds are unique across both collections and below
  the allocation counter, and the unique index keeps user names distinct.
  \<open>todo_map\<close> is the abstract view of the todo collection, a finite map from
  ObjectIds to documents.
\<close>

definition all_ids :: "db \<Rightarrow> oid list" where
  "all_ids s = map user_id (users s) @ map todo_id (todos s)"

definition db_wf :: "db \<Rightarrow> bool" where
  "db_wf s \<longleftrightarrow> distinct (all_ids s) \<and> list_all (\<lambda>i. i < next_oid s) (all_ids s)
     \<and> distinct (map user_name (users s))"

definition todo_map :: "db \<Rightarrow> oid \<rightharpoonup> todo_doc" where
  "todo_map s = map_of (map (\<lambda>t. (todo_id t, t)) (todos s))"

section \<open>ObjectId strings: the round trip\<close>

lemma length_hex_digits [simp]: "length (hex_digits w n) = w"
  by (induction w arbitrary: n) auto

lemma hex_digit_val_hex_char [simp]: "d < 16 \<Longrightarrow> hex_digit_val (hex_char d) = Some d"
  by (auto simp: hex_char_def hex_digit_val_def Let_def)

lemma hex_val_snoc: "hex_val (xs @ [c]) = hex_step (hex_val xs) c"
  by (simp add: hex_val_def)

lemma hex_val_hex_digits: "hex_val (hex_digits w n) = Some (n mod 16 ^ w)"
proof (induction w arbitrary: n)
  case 0
  then show ?case by (simp add: hex_val_def)
next
  case (Suc w)
  have "n mod 16 ^ Suc w = 16 * (n div 16 mod 16 ^ w) + n mod 16"
    by (simp add: mod_mult2_eq)
  with Suc show ?case by (simp add: hex_val_snoc hex_step_def)
qed

lemma cast_oid_oid_hex: "i < 16 ^ 24 \<Longrightarrow> cast_oid (oid_hex i) = Some i"
  by (simp add: cast_oid_def oid_hex_def hex_val_hex_digits)

lemma oid_hex_inj: "i < 16 ^ 24 \<Longrightarrow> j < 16 ^ 24 \<Longrightarrow> oid_hex i = oid_hex j \<longleftrightarrow> i = j"
  by (metis cast_oid_oid_hex option.inject)

text \<open>The characters of an ObjectId string, and the strings \<open>cast_oid\<close> accepts.\<close>

lemma hex_chars_lower: "list_all (\<lambda>d. hex_char d \<in> set ''0123456789abcdef'') [0..<16]"
  by code_simp

lemma hex_char_lower: "d < 16 \<Longrightarrow> hex_char d \<in> set ''0123456789abcdef''"
  using hex_chars_lower by (simp add: list_all_iff del: insert_iff)

lemma hex_digits_lower: "list_all (\<lambda>c. c \<in> set ''0123456789abcdef'') (hex_digits w n)"
  by (induction w arbitrary: n) (simp_all add: hex_char_lower del: insert_iff set_simps)

lemma hex_step_None: "foldl hex_step None s = None"
  by (induction s) (simp_all add: hex_step_def)

lemma hex_val_Some_iff: "hex_val s \<noteq> None \<longleftrightarrow> list_all (\<lambda>c. hex_digit_val c \<noteq> None) s"
  by (induction s rule: rev_induct) (auto simp: hex_val_snoc hex_step_def hex_step_None split: option.splits, simp add: hex_val_def)

lemma hex_digit_val_iff: "hex_digit_val c \<noteq> None \<longleftrightarrow> c \<in> set ''0123456789abcdefABCDEF''"
proof -
  have "c \<in> set ''0123456789abcdefABCDEF'' \<longleftrightarrow>
      (of_char c :: nat) \<in> of_char ` set ''0123456789abcdefABCDEF''"
    by (rule inj_image_mem_iff [OF inj_of_char, symmetric])
  also have "\<dots> \<longleftrightarrow> (48 \<le> (of_char c :: nat) \<and> (of_char c :: nat) \<le> 57) \<or>
      (97 \<le> (of_char c :: nat) \<and> (of_char c :: nat) \<le> 102) \<or>
      (65 \<le> (of_char c :: nat) \<and> (of_char c :: nat) \<le> 70)"
    by simp arith
  finally show ?thesis by (simp add: hex_digit_val_def Let_def)
qed

text \<open>Every ObjectId string is 24 lowercase hexadecimal digits.\<close>

lemma oid_hex_lower:
  "length (oid_hex i) = 24 \<and> list_all (\<lambda>c. c \<in> set ''0123456789abcdef'') (oid_hex i)"
  by (simp only: oid_hex_def length_hex_digits hex_digits_lower)

text \<open>A string casts to an ObjectId exactly when it has 24 characters, each a
  hexadecimal digit of either case. (The repository pins no version of Mongoose; the
  12-byte string form that older versions of its ObjectId also accept is not
  modelled.)\<close>

lemma cast_oid_Some_iff:
  "cast_oid s \<noteq> None \<longleftrightarrow> length s = 24 \<and> list_all (\<lambda>c. c \<in> set ''0123456789abcdefABCDEF'') s"
proof -
  have "hex_val s \<noteq> None \<longleftrightarrow> list_all (\<lambda>c. c \<in> set ''0123456789abcdefABCDEF'') s"
    by (simp only: hex_val_Some_iff hex_digit_val_iff)
  then show ?thesis by (simp add: cast_oid_def)
qed

section \<open>Lemmas on the User model\<close>

lemma db_wf_fresh:
  "db_wf s \<Longrightarrow> next_oid s \<notin> set (all_ids s)"
  by (auto simp: db_wf_def list_all_iff)

lemma user_create_Inr:
  "user_create s u h fn = Inr (d, s') \<longleftrightarrow>
     d = \<lparr>user_id = next_oid s, user_name = cast_username u, password = h, fullname = js_trim fn\<rparr>
     \<and> user_valid d \<and> \<not> list_ex (\<lambda>d'. user_name d' = cast_username u) (users s)
     \<and> s' = s\<lparr>users := users s @ [d], next_oid := Suc (next_oid s)\<rparr>"
  by (auto simp: user_create_def Let_def)

lemma user_create_wf:
  assumes "db_wf s" and "user_create s u h fn = Inr (d, s')"
  shows "db_wf s'"
proof -
  from assms(2) have d: "user_id d = next_oid s" "user_name d = cast_username u"
    and fresh: "\<not> list_ex (\<lambda>d'. user_name d' = cast_username u) (users s)"
    and s': "s' = s\<lparr>users := users s @ [d], next_oid := Suc (next_oid s)\<rparr>"
    by (auto simp: user_create_Inr)
  from assms(1) have "next_oid s \<notin> set (all_ids s)" by (rule db_wf_fresh)
  with assms(1) d fresh s' show ?thesis
    by (auto simp: db_wf_def all_ids_def list_all_iff list_ex_iff less_Suc_eq)
qed

lemma user_findOne_Some:
  "user_findOne s u = Some d \<Longrightarrow> d \<in> set (users s) \<and> user_name d = cast_username u"
  by (auto simp: user_findOne_def dest: find_Some_in)

lemma user_findOne_None:
  "user_findOne s u = None \<longleftrightarrow> \<not> list_ex (\<lambda>d. user_name d = cast_username u) (users s)"
  by (auto simp: user_findOne_def find_None_iff list_ex_iff)

section \<open>Lemmas on the Todo model\<close>

lemma todo_create_Inr:
  "todo_create pd s u ti de ur dd c = Inr (t, s') \<longleftrightarrow>
     (\<exists>due. pd dd = Some due \<and>
        t = \<lparr>todo_id = next_oid s, title = js_trim ti, description = js_trim de,
             urgency = ur, dueDate = due, completed = c, owner = u\<rparr>
        \<and> todo_valid t \<and> s' = s\<lparr>todos := todos s @ [t], next_oid := Suc (next_oid s)\<rparr>)"
  by (auto simp: todo_create_def Let_def split: option.splits)

lemma todo_create_wf:
  assumes "db_wf s" and "todo_create pd s u ti de ur dd c = Inr (t, s')"
  shows "db_wf s'"
proof -
  from assms(2) have t: "todo_id t = next_oid s"
    and s': "s' = s\<lparr>todos := todos s @ [t], next_oid := Suc (next_oid s)\<rparr>"
    by (auto simp: todo_create_Inr)
  from assms(1) have "next_oid s \<notin> set (all_ids s)" by (rule db_wf_fresh)
  with assms(1) t s' show ?thesis
    by (auto simp: db_wf_def all_ids_def list_all_iff less_Suc_eq)
qed

text \<open>Rewriting the todo collection without changing its list of ObjectIds
  keeps the invariant.\<close>

lemma db_wf_same_todo_ids:
  "map todo_id xs = map todo_id (todos s) \<Longrightarrow> db_wf (s\<lparr>todos := xs\<rparr>) = db_wf s"
  by (simp add: db_wf_def all_ids_def)

lemma todo_findOneAndUpdate_wf:
  assumes "db_wf s" and "todo_findOneAndUpdate pd s sid u ti de ur dd = Inr (r, s')"
  shows "db_wf s'"
proof -
  have "map todo_id (update_first P (todo_set_fields ti de ur due) xs) = map todo_id xs"
    for P due xs
    by (rule map_update_first) (simp add: todo_set_fields_def)
  with assms show ?thesis
    by (auto simp: todo_findOneAndUpdate_def db_wf_same_todo_ids split: option.splits)
qed

lemma todo_findOneAndDelete_wf:
  assumes "db_wf s" and "todo_findOneAndDelete s sid u = Inr (r, s')"
  shows "db_wf s'"
proof -
  have sub: "set (map todo_id (delete_first P xs)) \<subseteq> set (map todo_id xs)" for P xs
    using set_delete_first by (metis image_mono list.set_map)
  have "distinct (map todo_id xs) \<Longrightarrow> distinct (map todo_id (delete_first P xs))" for P xs
    by (rule delete_first_distinct)
  with sub assms show ?thesis
    by (fastforce simp: todo_findOneAndDelete_def db_wf_def all_ids_def list_all_iff
        split: option.splits)
qed

lemma todo_save_wf:
  assumes "db_wf s" and "todo_save s t = Inr s'"
  shows "db_wf s'"
proof -
  let ?xs = "update_first (\<lambda>d. todo_id d = todo_id t) (\<lambda>d. d\<lparr>completed := completed t\<rparr>) (todos s)"
  from assms(2) have s': "s' = s\<lparr>todos := ?xs\<rparr>"
    by (auto simp: todo_save_def split: option.splits if_splits)
  have "map todo_id ?xs = map todo_id (todos s)"
    by (rule map_update_first) simp
  with s' assms(1) show ?thesis by (simp add: db_wf_same_todo_ids)
qed

lemma todo_findOne_Some:
  "todo_findOne s sid u = Inr (Some t) \<Longrightarrow>
     t \<in> set (todos s) \<and> owner t = u \<and> cast_oid sid = Some (todo_id t)"
  by (auto simp: todo_findOne_def todo_match_def split: option.splits dest: find_Some_in)

end
