(* ===== verification/Todos.thy ===== *)
theory Todos
  imports Store
begin

text \<open>
  The task service and its controller:
  \<open>src/backend-todo/src/services/user-todo.js\<close> (\<open>createTodoService\<close>,
  \<open>updateTodoService\<close>, \<open>deleteTodoService\<close>, \<open>toggleCompletion\<close>,
  \<open>getUserTodos\<close>) and \<open>src/backend-todo/src/controllers/todo-controller.js\<close>
  (\<open>createTodo\<close>, \<open>updateTodo\<close>, \<open>deleteTodo\<close>, \<open>toggleTodoCompletion\<close>,
  \<open>getTodos\<close>). A service returns the error it throws or its result with the new
  database; a controller turns a thrown error into \<open>{ error: e.message }\<close>.

  \<open>toggleCompletion\<close> awaits the store twice: \<open>findOne\<close>, then \<open>save\<close>. Its two
  halves are \<open>toggle_read\<close> and \<open>toggle_write\<close>, and the service is their
  composition, so that the server model can interleave other requests between them.
\<close>

section \<open>Services\<close>

text \<open>\<open>description?.trim() || ""\<close>\<close>

definition trim_or_empty :: "field \<Rightarrow> string" where
  "trim_or_empty d = (case d of None \<Rightarrow> [] | Some x \<Rightarrow> js_trim x)"

definition createTodoService ::
  "date_parser \<Rightarrow> db \<Rightarrow> string \<Rightarrow> string \<Rightarrow> string \<Rightarrow> string \<Rightarrow> field \<Rightarrow> error + (todo_doc \<times> db)" where
  "createTodoService pd s username title0 existing urgency0 description0 =
     todo_create pd s username (js_trim title0) (trim_or_empty description0) urgency0 existing False"

definition updateTodoService ::
  "date_parser \<Rightarrow> db \<Rightarrow> string \<Rightarrow> string \<Rightarrow> string \<Rightarrow> string \<Rightarrow> string \<Rightarrow> field \<Rightarrow>
   error + (todo_doc \<times> db)" where
  "updateTodoService pd s username todoId title0 existing urgency0 description0 =
     (case todo_findOneAndUpdate pd s todoId username (js_trim title0) (trim_or_empty description0)
             urgency0 existing of
        Inl e \<Rightarrow> Inl e
      | Inr (None, _) \<Rightarrow> Inl ETodoNotFound
      | Inr (Some t, s') \<Rightarrow> Inr (t, s'))"

definition deleteTodoService :: "db \<Rightarrow> string \<Rightarrow> string \<Rightarrow> error + (todo_doc \<times> db)" where
  "deleteTodoService s username todoId =
     (case todo_findOneAndDelete s todoId username of
        Inl e \<Rightarrow> Inl e
      | Inr (None, _) \<Rightarrow> Inl ETodoNotFound
      | Inr (Some t, s') \<Rightarrow> Inr (t, s'))"

text \<open>Lines 60--66: \<open>findOne\<close>, the not-found check, the flip in memory.\<close>

definition toggle_read :: "db \<Rightarrow> string \<Rightarrow> string \<Rightarrow> error + todo_doc" where
  "toggle_read s username todoId =
     (case todo_findOne s todoId username of
        Inl e \<Rightarrow> Inl e
      | Inr None \<Rightarrow> Inl ETodoNotFound
      | Inr (Some t) \<Rightarrow> Inr (t\<lparr>completed := \<not> completed t\<rparr>))"

text \<open>Lines 67--68: \<open>await todo.save(); return todo\<close>.\<close>

definition toggle_write :: "db \<Rightarrow> todo_doc \<Rightarrow> error + (todo_doc \<times> db)" where
  "toggle_write s t =
     (case todo_save s t of Inl e \<Rightarrow> Inl e | Inr s' \<Rightarrow> Inr (t, s'))"

definition toggleCompletion :: "db \<Rightarrow> string \<Rightarrow> string \<Rightarrow> error + (todo_doc \<times> db)" where
  "toggleCompletion s username todoId =
     (case toggle_read s username todoId of
        Inl e \<Rightarrow> Inl e
      | Inr t \<Rightarrow> toggle_write s t)"

definition getUserTodos :: "db \<Rightarrow> string \<Rightarrow> todo_doc list" where
  "getUserTodos s username = todo_find s username"

section \<open>Controllers\<close>

text \<open>The fields of \<open>req.body\<close> the controllers read.\<close>

record todo_body =
  body_title :: field
  body_description :: field
  body_urgency :: field
  body_dueDate :: field
  body_id :: field

text \<open>The JSON a controller answers: \<open>{ data }\<close>, \<open>{ success: true }\<close> or
  \<open>{ error }\<close>.\<close>

datatype todo_reply =
    TodoData todo_doc
  | TodosData "todo_doc list"
  | TodoSuccess
  | TodoError error

definition createTodo :: "date_parser \<Rightarrow> db \<Rightarrow> claims \<Rightarrow> todo_body \<Rightarrow> todo_reply \<times> db" where
  "createTodo pd s user b =
     (if \<not> truthy (body_title b) \<or> \<not> truthy (body_urgency b) \<or> \<not> truthy (body_dueDate b)
      then (TodoError EMissingFields, s)
      else (case createTodoService pd s (claim_username user) (field_str (body_title b))
                   (field_str (body_dueDate b)) (field_str (body_urgency b)) (body_description b) of
              Inl e \<Rightarrow> (TodoError e, s)
            | Inr (t, s') \<Rightarrow> (TodoData t, s')))"

definition updateTodo :: "date_parser \<Rightarrow> db \<Rightarrow> claims \<Rightarrow> todo_body \<Rightarrow> todo_reply \<times> db" where
  "updateTodo pd s user b =
     (if \<not> truthy (body_id b) \<or> \<not> truthy (body_title b) \<or> \<not> truthy (body_urgency b)
         \<or> \<not> truthy (body_dueDate b)
      then (TodoError EMissingFields, s)
      else (case updateTodoService pd s (claim_username user) (field_str (body_id b))
                   (field_str (body_title b)) (field_str (body_dueDate b)) (field_str (body_urgency b))
                   (body_description b) of
              Inl e \<Rightarrow> (TodoError e, s)
            | Inr (t, s') \<Rightarrow> (TodoData t, s')))"

definition deleteTodo :: "db \<Rightarrow> claims \<Rightarrow> todo_body \<Rightarrow> todo_reply \<times> db" where
  "deleteTodo s user b =
     (if \<not> truthy (body_id b) then (TodoError EMissingId, s)
      else (case deleteTodoService s (claim_username user) (field_str (body_id b)) of
              Inl e \<Rightarrow> (TodoError e, s)
            | Inr (_, s') \<Rightarrow> (TodoSuccess, s')))"

definition toggleTodoCompletion :: "db \<Rightarrow> claims \<Rightarrow> todo_body \<Rightarrow> todo_reply \<times> db" where
  "toggleTodoCompletion s user b =
     (if \<not> truthy (body_id b) then (TodoError EMissingId, s)
      else (case toggleCompletion s (claim_username user) (field_str (body_id b)) of
              Inl e \<Rightarrow> (TodoError e, s)
            | Inr (t, s') \<Rightarrow> (TodoData t, s')))"

definition getTodos :: "db \<Rightarrow> claims \<Rightarrow> todo_reply" where
  "getTodos s user =
     (if claim_username user = [] then TodoError EUsernameMissingFromToken
      else TodosData (getUserTodos s (claim_username user)))"

section \<open>What each service does\<close>

lemma db_wf_distinct_todo_ids: "db_wf s \<Longrightarrow> distinct (map todo_id (todos s))"
  by (simp add: db_wf_def all_ids_def)

lemma todo_match_fun: "todo_match i u = (\<lambda>y. todo_id y = i \<and> owner y = u)"
  by (simp add: todo_match_def fun_eq_iff)

text \<open>With unique ObjectIds, the filter \<open>{ _id, username }\<close> on a document's id
  finds that document exactly when the caller owns it.\<close>

lemma todo_match_unique:
  assumes "db_wf s" and "t \<in> set (todos s)"
  shows "find (todo_match (todo_id t) u) (todos s) = (if owner t = u then Some t else None)"
  unfolding todo_match_fun
  using db_wf_distinct_todo_ids [OF assms(1)] assms(2) by (rule find_Some_unique)

text \<open>The filter on \<open>_id\<close> alone that \<open>save\<close> sends agrees with the service's
  filter on every document of the collection.\<close>

lemma todo_match_agree:
  assumes "db_wf s" and "find (todo_match i u) (todos s) = Some t"
  shows "\<And>d. d \<in> set (todos s) \<Longrightarrow> (todo_id d = todo_id t) = todo_match i u d"
proof -
  fix d assume d: "d \<in> set (todos s)"
  from assms(2) have t: "t \<in> set (todos s)" "todo_match i u t" by (auto dest: find_Some_in)
  have "todo_id d = todo_id t \<longleftrightarrow> d = t"
    using db_wf_distinct_todo_ids [OF assms(1)] d t(1) by (metis distinct_map inj_on_eq_iff)
  with t(2) show "(todo_id d = todo_id t) = todo_match i u d"
    by (auto simp: todo_match_def)
qed

lemma updateTodoService_Inr:
  "updateTodoService pd s u sid ti dd ur de = Inr (t', s') \<longleftrightarrow>
     (\<exists>i due t. cast_oid sid = Some i \<and> pd dd = Some due \<and> find (todo_match i u) (todos s) = Some t
        \<and> t' = todo_set_fields (js_trim ti) (trim_or_empty de) ur due t
        \<and> s' = s\<lparr>todos := update_first (todo_match i u)
                   (todo_set_fields (js_trim ti) (trim_or_empty de) ur due) (todos s)\<rparr>)"
  by (auto simp: updateTodoService_def todo_findOneAndUpdate_def split: option.splits sum.splits)

lemma deleteTodoService_Inr:
  "deleteTodoService s u sid = Inr (t, s') \<longleftrightarrow>
     (\<exists>i. cast_oid sid = Some i \<and> find (todo_match i u) (todos s) = Some t
        \<and> s' = s\<lparr>todos := delete_first (todo_match i u) (todos s)\<rparr>)"
  by (auto simp: deleteTodoService_def todo_findOneAndDelete_def split: option.splits sum.splits)

lemma toggle_read_Inr:
  "toggle_read s u sid = Inr t' \<longleftrightarrow>
     (\<exists>i t. cast_oid sid = Some i \<and> find (todo_match i u) (todos s) = Some t
        \<and> t' = t\<lparr>completed := \<not> completed t\<rparr>)"
  by (auto simp: toggle_read_def todo_findOne_def split: option.splits sum.splits)

lemma toggle_write_Inr:
  "toggle_write s t = Inr (t', s') \<longleftrightarrow>
     t' = t \<and> todo_valid t \<and> find (\<lambda>d. todo_id d = todo_id t) (todos s) \<noteq> None
     \<and> s' = s\<lparr>todos := update_first (\<lambda>d. todo_id d = todo_id t)
                (\<lambda>d. d\<lparr>completed := completed t\<rparr>) (todos s)\<rparr>"
  by (auto simp: toggle_write_def todo_save_def split: option.splits sum.splits)

lemma toggleCompletion_Inr:
  "toggleCompletion s u sid = Inr (t', s') \<longleftrightarrow>
     (\<exists>t0. toggle_read s u sid = Inr t0 \<and> toggle_write s t0 = Inr (t', s'))"
  by (auto simp: toggleCompletion_def split: sum.splits)

lemma todo_valid_completed [simp]: "todo_valid (t\<lparr>completed := c\<rparr>) = todo_valid t"
  by (simp add: todo_valid_def)

lemma js_trim_trim_or_empty [simp]: "js_trim (trim_or_empty d) = trim_or_empty d"
  by (simp add: trim_or_empty_def split: option.splits)

lemma todo_map_lookup:
  "db_wf s \<Longrightarrow> t \<in> set (todos s) \<Longrightarrow> todo_map s (todo_id t) = Some t"
  by (auto simp: todo_map_def comp_def intro: map_of_is_SomeI dest: db_wf_distinct_todo_ids)

lemma todo_map_update_first:
  assumes "db_wf s" and "find P (todos s) = Some t" and "\<And>y. todo_id (f y) = todo_id y"
  shows "todo_map (s\<lparr>todos := update_first P f (todos s)\<rparr>) = (todo_map s)(todo_id t \<mapsto> f t)"
  using db_wf_distinct_todo_ids [OF assms(1)] assms(2,3)
  unfolding todo_map_def by (simp add: map_of_update_first)

lemma db_wf_update_first:
  assumes "db_wf s" and "\<And>y. todo_id (f y) = todo_id y"
  shows "db_wf (s\<lparr>todos := update_first P f (todos s)\<rparr>)"
proof -
  have "map todo_id (update_first P f (todos s)) = map todo_id (todos s)"
    by (rule map_update_first) (simp add: assms(2))
  with assms(1) show ?thesis by (simp add: db_wf_same_todo_ids)
qed

section \<open>Every controller keeps the store well formed\<close>

lemma updateTodoService_wf:
  "db_wf s \<Longrightarrow> updateTodoService pd s u sid ti dd ur de = Inr (t, s') \<Longrightarrow> db_wf s'"
  by (auto simp: updateTodoService_def split: sum.splits option.splits
      intro: todo_findOneAndUpdate_wf)

lemma deleteTodoService_wf:
  "db_wf s \<Longrightarrow> deleteTodoService s u sid = Inr (t, s') \<Longrightarrow> db_wf s'"
  by (auto simp: deleteTodoService_def split: sum.splits option.splits
      intro: todo_findOneAndDelete_wf)

lemma toggle_write_wf: "db_wf s \<Longrightarrow> toggle_write s t = Inr (t', s') \<Longrightarrow> db_wf s'"
  by (auto simp: toggle_write_def split: sum.splits intro: todo_save_wf)

lemma createTodoService_wf:
  "db_wf s \<Longrightarrow> createTodoService pd s u ti dd ur de = Inr (t, s') \<Longrightarrow> db_wf s'"
  by (auto simp: createTodoService_def intro: todo_create_wf)

lemma todo_controllers_wf:
  assumes "db_wf s"
  shows "createTodo pd s c b = (a, s') \<Longrightarrow> db_wf s'"
    and "updateTodo pd s c b = (a, s') \<Longrightarrow> db_wf s'"
    and "deleteTodo s c b = (a, s') \<Longrightarrow> db_wf s'"
    and "toggleTodoCompletion s c b = (a, s') \<Longrightarrow> db_wf s'"
  using assms
  by (auto simp: createTodo_def updateTodo_def deleteTodo_def toggleTodoCompletion_def
      toggleCompletion_def split: if_splits sum.splits
      intro: createTodoService_wf updateTodoService_wf deleteTodoService_wf toggle_write_wf)

section \<open>Ownership isolation\<close>

text \<open>
  C1. A task is out of reach of every caller but its owner: when the caller is not
  the owner of the task whose ObjectId the request names, the delete and the toggle
  services throw \<open>"Todo not found or access denied"\<close>, and so does the update
  service once its due date casts; none of them returns a new database.
\<close>

theorem todo_isolation:
  assumes "db_wf s" and "t \<in> set (todos s)" and "owner t \<noteq> u"
    and "cast_oid sid = Some (todo_id t)"
  shows "deleteTodoService s u sid = Inl ETodoNotFound
       \<and> toggleCompletion s u sid = Inl ETodoNotFound
       \<and> updateTodoService pd s u sid ti dd ur de =
           (case pd dd of None \<Rightarrow> Inl ECast | Some _ \<Rightarrow> Inl ETodoNotFound)"
proof -
  from assms(1-3) have nf: "find (todo_match (todo_id t) u) (todos s) = None"
    by (simp add: todo_match_unique)
  with assms(4) show ?thesis
    by (simp add: deleteTodoService_def todo_findOneAndDelete_def toggleCompletion_def
        toggle_read_def todo_findOne_def updateTodoService_def todo_findOneAndUpdate_def
        split: option.splits)
qed

section \<open>The services refine operations on a finite map\<close>

text \<open>
  C9. A successful update rewrites, in the map from ObjectIds to tasks, exactly the
  caller's task that the request names (the task whose ObjectId the request's \<open>id\<close>
  casts to): its title, description, urgency and due date become the trimmed request
  values, its id, owner and \<open>completed\<close> flag are kept.
\<close>

theorem updateTodoService_refines:
  assumes "db_wf s" and "updateTodoService pd s u sid ti dd ur de = Inr (t', s')"
  shows "\<exists>t due. todo_map s (todo_id t') = Some t \<and> owner t = u \<and> cast_oid sid = Some (todo_id t)
           \<and> pd dd = Some due
           \<and> t' = t\<lparr>title := js_trim ti, description := trim_or_empty de, urgency := ur,
                     dueDate := due\<rparr>
           \<and> todo_map s' = (todo_map s)(todo_id t' \<mapsto> t') \<and> db_wf s'"
proof -
  from assms(2) obtain i due t where sid: "cast_oid sid = Some i" and
    find: "find (todo_match i u) (todos s) = Some t" and due: "pd dd = Some due" and
    t': "t' = todo_set_fields (js_trim ti) (trim_or_empty de) ur due t" and
    s': "s' = s\<lparr>todos := update_first (todo_match i u)
                   (todo_set_fields (js_trim ti) (trim_or_empty de) ur due) (todos s)\<rparr>"
    by (auto simp: updateTodoService_Inr)
  have ids: "\<And>y. todo_id (todo_set_fields (js_trim ti) (trim_or_empty de) ur due y) = todo_id y"
    by (simp add: todo_set_fields_def)
  from find have t: "t \<in> set (todos s)" "todo_match i u t" by (auto dest: find_Some_in)
  have "todo_map s' = (todo_map s)(todo_id t' \<mapsto> t')"
    using todo_map_update_first [OF assms(1) find ids] s' t' ids by simp
  moreover have "db_wf s'" using db_wf_update_first [OF assms(1) ids] s' by simp
  moreover have "todo_map s (todo_id t') = Some t"
    using todo_map_lookup [OF assms(1) t(1)] t' ids by simp
  ultimately show ?thesis
    using t(2) sid due t' by (auto simp: todo_match_def todo_set_fields_def)
qed

text \<open>
  C10. A successful delete removes exactly the caller's task that the request names
  from the map from ObjectIds to tasks.
\<close>

theorem deleteTodoService_refines:
  assumes "db_wf s" and "deleteTodoService s u sid = Inr (t, s')"
  shows "owner t = u \<and> cast_oid sid = Some (todo_id t) \<and> todo_map s (todo_id t) = Some t
       \<and> todo_map s' = (todo_map s)(todo_id t := None) \<and> db_wf s'"
proof -
  from assms(2) obtain i where sid: "cast_oid sid = Some i"
    and find: "find (todo_match i u) (todos s) = Some t"
    and s': "s' = s\<lparr>todos := delete_first (todo_match i u) (todos s)\<rparr>"
    by (auto simp: deleteTodoService_Inr)
  from find have t: "t \<in> set (todos s)" "todo_match i u t" by (auto dest: find_Some_in)
  have "todo_map s' = (todo_map s)(todo_id t := None)"
    using db_wf_distinct_todo_ids [OF assms(1)] find s'
    by (simp add: todo_map_def map_of_delete_first)
  moreover have "todo_findOneAndDelete s sid u = Inr (Some t, s')"
    using sid find s' by (simp add: todo_findOneAndDelete_def)
  then have "db_wf s'" using assms(1) by (blast intro: todo_findOneAndDelete_wf)
  ultimately show ?thesis
    using t sid todo_map_lookup [OF assms(1) t(1)] by (auto simp: todo_match_def)
qed

text \<open>
  C11. A successful toggle flips the \<open>completed\<close> flag of exactly the caller's task
  that the request names and leaves every other field of it, and every other task,
  as it was.
\<close>

theorem toggleCompletion_refines:
  assumes "db_wf s" and "toggleCompletion s u sid = Inr (t', s')"
  shows "\<exists>t. todo_map s (todo_id t') = Some t \<and> owner t = u \<and> cast_oid sid = Some (todo_id t)
           \<and> t' = t\<lparr>completed := \<not> completed t\<rparr>
           \<and> todo_map s' = (todo_map s)(todo_id t' \<mapsto> t') \<and> db_wf s'"
proof -
  from assms(2) obtain i t where sid: "cast_oid sid = Some i"
    and find: "find (todo_match i u) (todos s) = Some t"
    and t': "t' = t\<lparr>completed := \<not> completed t\<rparr>"
    and s': "s' = s\<lparr>todos := update_first (\<lambda>d. todo_id d = todo_id t')
                  (\<lambda>d. d\<lparr>completed := completed t'\<rparr>) (todos s)\<rparr>"
    by (auto simp: toggleCompletion_Inr toggle_read_Inr toggle_write_Inr)
  from find have t: "t \<in> set (todos s)" "todo_match i u t" by (auto dest: find_Some_in)
  have agree: "\<And>d. d \<in> set (todos s) \<Longrightarrow> (todo_id d = todo_id t') = todo_match i u d"
    using todo_match_agree [OF assms(1) find] t' by simp
  let ?f = "\<lambda>d. d\<lparr>completed := completed t'\<rparr>"
  have "update_first (\<lambda>d. todo_id d = todo_id t') ?f (todos s) =
        update_first (todo_match i u) ?f (todos s)"
    by (rule update_first_cong) (rule agree)
  with s' have s'': "s' = s\<lparr>todos := update_first (todo_match i u) ?f (todos s)\<rparr>" by simp
  have ids: "\<And>y. todo_id (?f y) = todo_id y" by simp
  have "todo_map s' = (todo_map s)(todo_id t \<mapsto> ?f t)"
    using todo_map_update_first [OF assms(1) find ids] s'' by simp
  moreover have "db_wf s'" using db_wf_update_first [OF assms(1) ids] s'' by simp
  ultimately show ?thesis
    using t sid t' todo_map_lookup [OF assms(1) t(1)] by (auto simp: todo_match_def)
qed

section \<open>Toggling twice\<close>

text \<open>
  C3. Toggling is an involution when the two requests follow one another: the second
  toggle of the same task by the same caller succeeds, answers the task as it was
  before the first, and restores the database exactly.
\<close>

theorem toggle_involution:
  assumes "db_wf s" and "toggleCompletion s u sid = Inr (t', s')"
  shows "toggleCompletion s' u sid = Inr (t'\<lparr>completed := \<not> completed t'\<rparr>, s)"
proof -
  from assms(2) obtain i t where sid: "cast_oid sid = Some i"
    and find: "find (todo_match i u) (todos s) = Some t"
    and t': "t' = t\<lparr>completed := \<not> completed t\<rparr>"
    and valid: "todo_valid t'"
    and s': "s' = s\<lparr>todos := update_first (\<lambda>d. todo_id d = todo_id t')
                  (\<lambda>d. d\<lparr>completed := completed t'\<rparr>) (todos s)\<rparr>"
    by (auto simp: toggleCompletion_Inr toggle_read_Inr toggle_write_Inr)
  let ?P = "todo_match i u"
  let ?f = "\<lambda>d. d\<lparr>completed := completed t'\<rparr>"
  let ?g = "\<lambda>d. d\<lparr>completed := completed t\<rparr>"
  from find have P: "?P t" "t \<in> set (todos s)" by (auto dest: find_Some_in)
  have agree: "\<And>d. d \<in> set (todos s) \<Longrightarrow> (todo_id d = todo_id t') = ?P d"
    using todo_match_agree [OF assms(1) find] t' by simp
  have "update_first (\<lambda>d. todo_id d = todo_id t') ?f (todos s) = update_first ?P ?f (todos s)"
    by (rule update_first_cong) (rule agree)
  with s' have xs': "todos s' = update_first ?P ?f (todos s)" by simp
  have Pf: "?P (?f t)" using P by (simp add: todo_match_def)
  have find': "find ?P (todos s') = Some t'"
    using find_update_first [of ?P "todos s" t ?f, OF find Pf] xs' t' by simp
  have agree': "\<And>d. d \<in> set (todos s') \<Longrightarrow> (todo_id d = todo_id t) = ?P d"
  proof -
    fix d assume "d \<in> set (todos s')"
    then have "d \<in> set (todos s) \<or> d = ?f t"
      using set_update_first_find [of ?P "todos s" t ?f, OF find] xs' by auto
    then show "(todo_id d = todo_id t) = ?P d"
      using agree t' Pf by auto
  qed
  have flipped: "t'\<lparr>completed := \<not> completed t'\<rparr> = t" using t' by simp
  have "update_first (\<lambda>d. todo_id d = todo_id t) ?g (todos s') = update_first ?P ?g (todos s')"
    by (rule update_first_cong) (rule agree')
  also have "\<dots> = update_first ?P (?g \<circ> ?f) (todos s)"
    using update_first_update_first [of ?P "todos s" t ?f ?g, OF find Pf] xs' by simp
  also have "\<dots> = todos s"
    by (rule update_first_id [OF find]) simp
  finally have restore: "update_first (\<lambda>d. todo_id d = todo_id t) ?g (todos s') = todos s" .
  have "find (\<lambda>d. todo_id d = todo_id t) (todos s') \<noteq> None"
    using find' t' by (auto simp: find_None_iff todo_match_def dest: find_Some_in)
  moreover have "todo_valid t" using valid t' by simp
  moreover have "toggle_read s' u sid = Inr t"
    using sid find' flipped by (auto simp: toggle_read_Inr)
  ultimately show ?thesis
    using restore s' flipped by (auto simp: toggleCompletion_Inr toggle_write_Inr)
qed

text \<open>
  C4. Toggling is not atomic. \<open>toggleCompletion\<close> reads the task, flips the flag in
  memory, and writes the flag back with a second store call. When two toggles of the
  same task both read before either writes (two browser tabs, or a double click), the
  second write stores the same value as the first: the two requests together leave
  the database exactly as one toggle leaves it, and the second toggle is lost.
\<close>

theorem toggle_lost_update:
  assumes "toggle_read s u sid = Inr a" and "toggle_read s u sid = Inr b"
    and "toggle_write s a = Inr (a', s1)" and "toggle_write s1 b = Inr (b', s2)"
  shows "s2 = s1 \<and> b' = a' \<and> toggleCompletion s u sid = Inr (a', s1)"
proof -
  from assms(1,2) have ab: "b = a" by simp
  let ?Q = "\<lambda>d. todo_id d = todo_id a"
  let ?f = "\<lambda>d. d\<lparr>completed := completed a\<rparr>"
  from assms(3) obtain x where x: "find ?Q (todos s) = Some x"
    and a': "a' = a"
    and s1: "s1 = s\<lparr>todos := update_first ?Q ?f (todos s)\<rparr>"
    by (auto simp: toggle_write_Inr)
  from x have Qfx: "?Q (?f x)" by (auto dest: find_Some_in)
  from assms(4) ab have b': "b' = a" and s2: "s2 = s1\<lparr>todos := update_first ?Q ?f (todos s1)\<rparr>"
    by (auto simp: toggle_write_Inr)
  have "update_first ?Q ?f (update_first ?Q ?f (todos s)) = update_first ?Q (?f \<circ> ?f) (todos s)"
    by (rule update_first_update_first [of ?Q "todos s" x ?f ?f, OF x Qfx])
  then have "update_first ?Q ?f (todos s1) = todos s1"
    using s1 by (simp add: comp_def)
  with s2 have "s2 = s1" by simp
  moreover have "toggleCompletion s u sid = Inr (a', s1)"
    using assms(1,3) a' by (auto simp: toggleCompletion_def)
  ultimately show ?thesis using a' b' by simp
qed

section \<open>Creation\<close>

text \<open>
  C12. A created task belongs to the caller, is not completed, carries the trimmed
  title and description, an urgency of the enumeration and the cast due date, and
  is added under a fresh ObjectId to the map from ObjectIds to tasks.
\<close>

theorem createTodoService_functional:
  assumes "db_wf s" and "createTodoService pd s u ti dd ur de = Inr (t, s')"
  shows "completed t = False \<and> owner t = u \<and> title t = js_trim ti
       \<and> description t = trim_or_empty de \<and> urgency t = ur \<and> pd dd = Some (dueDate t)
       \<and> urgency t \<in> set urgency_values \<and> todo_map s (todo_id t) = None
       \<and> todo_map s' = (todo_map s)(todo_id t \<mapsto> t) \<and> db_wf s'"
proof -
  from assms(2) have c: "todo_create pd s u (js_trim ti) (trim_or_empty de) ur dd False = Inr (t, s')"
    by (simp add: createTodoService_def)
  then obtain due where due: "pd dd = Some due"
    and t: "t = \<lparr>todo_id = next_oid s, title = js_trim ti, description = trim_or_empty de,
                 urgency = ur, dueDate = due, completed = False, owner = u\<rparr>"
    and v: "todo_valid t"
    and s': "s' = s\<lparr>todos := todos s @ [t], next_oid := Suc (next_oid s)\<rparr>"
    by (auto simp: todo_create_Inr)
  from db_wf_fresh [OF assms(1)] have "next_oid s \<notin> todo_id ` set (todos s)"
    by (simp add: all_ids_def)
  then have fresh: "todo_map s (todo_id t) = None"
    using t by (simp add: todo_map_def map_of_eq_None_iff image_image)
  have "todo_map s' = (todo_map s)(todo_id t \<mapsto> t)"
    using s' fresh by (auto simp: todo_map_def map_add_def fun_eq_iff split: option.splits)
  moreover have "db_wf s'" using todo_create_wf [OF assms(1) c] .
  ultimately show ?thesis using t v due fresh by (simp add: todo_valid_def)
qed

section \<open>Updates bypass the schema's validators\<close>

text \<open>
  C13. \<open>findOneAndUpdate\<close> runs no validators, so the update service stores an urgency
  that the schema's enumeration refuses, where the create service with the same
  request fails with a validation error. The stored task then fails the validation
  that \<open>save\<close> runs, so the owner can no longer toggle it.
\<close>

theorem update_skips_validation:
  assumes "db_wf s" and "t \<in> set (todos s)" and "owner t = u"
    and "cast_oid sid = Some (todo_id t)" and "pd dd = Some due"
    and "ur \<notin> set urgency_values"
  shows "createTodoService pd s u ti dd ur de = Inl EValidation
       \<and> (\<exists>t' s'. updateTodoService pd s u sid ti dd ur de = Inr (t', s')
            \<and> urgency t' = ur \<and> \<not> todo_valid t' \<and> toggleCompletion s' u sid = Inl EValidation)"
proof -
  have create: "createTodoService pd s u ti dd ur de = Inl EValidation"
    using assms(5,6) by (simp add: createTodoService_def todo_create_def todo_valid_def)
  let ?f = "todo_set_fields (js_trim ti) (trim_or_empty de) ur due"
  let ?s' = "s\<lparr>todos := update_first (todo_match (todo_id t) u) ?f (todos s)\<rparr>"
  from assms(1-3) have find: "find (todo_match (todo_id t) u) (todos s) = Some t"
    by (simp add: todo_match_unique)
  have upd: "updateTodoService pd s u sid ti dd ur de = Inr (?f t, ?s')"
    using assms(4,5) find by (simp add: updateTodoService_Inr)
  have Pf: "todo_match (todo_id t) u (?f t)"
    using assms(3) by (simp add: todo_match_def todo_set_fields_def)
  have find': "find (todo_match (todo_id t) u) (todos ?s') = Some (?f t)"
    using find_update_first [of _ "todos s" t ?f, OF find Pf] by simp
  have invalid: "\<not> todo_valid (?f t)"
    using assms(6) by (simp add: todo_valid_def todo_set_fields_def)
  have "toggleCompletion ?s' u sid = Inl EValidation"
    using assms(4) find' invalid
    by (simp add: toggleCompletion_def toggle_read_def todo_findOne_def toggle_write_def
        todo_save_def)
  with create upd invalid show ?thesis
    by (auto simp: todo_set_fields_def)
qed

section \<open>ObjectId strings of the services\<close>

text \<open>
  C33 (roundtrip): the ids the list answers name their tasks back. For every task the
  list service answers a user, the \<open>id\<close> the browser gets (the ObjectId written out
  by \<open>toJSON\<close>), sent back by that user, is the delete of exactly that task and the
  toggle's read of exactly that task. This needs the ObjectIds below \<open>16 ^ 24\<close>,
  the ones with 24 hexadecimal digits.
\<close>

theorem list_ids_roundtrip:
  assumes "db_wf s" and "next_oid s \<le> 16 ^ 24" and "t \<in> set (getUserTodos s u)"
  shows "deleteTodoService s u (oid_hex (todo_id t)) =
           Inr (t, s\<lparr>todos := delete_first (todo_match (todo_id t) u) (todos s)\<rparr>)
    \<and> toggle_read s u (oid_hex (todo_id t)) = Inr (t\<lparr>completed := \<not> completed t\<rparr>)"
proof -
  from assms(3) have t: "t \<in> set (todos s)" "owner t = u"
    by (auto simp: getUserTodos_def todo_find_def)
  have "todo_id t < next_oid s"
    using assms(1) t(1) by (auto simp: db_wf_def all_ids_def list_all_iff)
  with assms(2) have "cast_oid (oid_hex (todo_id t)) = Some (todo_id t)"
    by (simp add: cast_oid_oid_hex)
  moreover have "find (todo_match (todo_id t) u) (todos s) = Some t"
    using todo_match_unique [OF assms(1) t(1)] t(2) by simp
  ultimately show ?thesis by (auto simp: deleteTodoService_Inr toggle_read_Inr)
qed

text \<open>
  C34 (error): the delete and the toggle services throw Mongoose's cast error exactly
  when the task id of the request is not 24 hexadecimal digits; a well-formed id that
  names no task of the caller is \<open>"Todo not found or access denied"\<close> instead.
\<close>

theorem malformed_id_cast_error:
  "(deleteTodoService s u sid = Inl ECast \<longleftrightarrow>
      \<not> (length sid = 24 \<and> list_all (\<lambda>c. c \<in> set ''0123456789abcdefABCDEF'') sid)) \<and>
   (toggleCompletion s u sid = Inl ECast \<longleftrightarrow>
      \<not> (length sid = 24 \<and> list_all (\<lambda>c. c \<in> set ''0123456789abcdefABCDEF'') sid))"
proof (cases "cast_oid sid")
  case None
  then have "\<not> (length sid = 24 \<and> list_all (\<lambda>c. c \<in> set ''0123456789abcdefABCDEF'') sid)"
    using cast_oid_Some_iff [of sid] by simp
  with None show ?thesis
    by (simp add: deleteTodoService_def todo_findOneAndDelete_def toggleCompletion_def
        toggle_read_def todo_findOne_def)
next
  case (Some i)
  then have "length sid = 24 \<and> list_all (\<lambda>c. c \<in> set ''0123456789abcdefABCDEF'') sid"
    using cast_oid_Some_iff [of sid] by simp
  with Some show ?thesis
    by (auto simp: deleteTodoService_def todo_findOneAndDelete_def toggleCompletion_def
        toggle_read_def todo_findOne_def toggle_write_def todo_save_def
        split: option.splits sum.splits)
qed

end
