(* ===== verification/Auth.thy ===== *)
theory Auth
  imports Store
begin

text \<open>
  The credential service and its controller:
  \<open>src/backend-todo/src/services/authentication.js\<close> (\<open>signupService\<close>,
  \<open>loginService\<close>, \<open>getUserService\<close>) and
  \<open>src/backend-todo/src/controllers/auth-controller.js\<close> (\<open>signup\<close>, \<open>login\<close>,
  \<open>getUser\<close>). The services take the value of \<open>process.env.JWT_SECRET\<close>
  (\<open>None\<close> when unset), the clock that \<open>jwt.sign\<close> reads for \<open>iat\<close>, and, for
  signup, the salt bcrypt draws.
\<close>

section \<open>Services\<close>

text \<open>\<open>{ id, username, fullname }\<close>, and with the token for login and signup.\<close>

record user_info =
  info_id :: oid
  info_username :: string
  info_fullname :: string

record auth_user = user_info +
  auth_token :: token

definition user_profile :: "user_doc \<Rightarrow> user_info" where
  "user_profile d = \<lparr>info_id = user_id d, info_username = user_name d, info_fullname = fullname d\<rparr>"

definition loginService :: "string option \<Rightarrow> db \<Rightarrow> nat \<Rightarrow> string \<Rightarrow> string \<Rightarrow> error + auth_user" where
  "loginService env s now username pw =
     (case user_findOne s username of
        None \<Rightarrow> Inl EUserNotFound
      | Some user \<Rightarrow>
          if \<not> verifyPassword pw (password user) then Inl EInvalidPassword
          else Inr \<lparr>info_id = user_id user, info_username = user_name user,
                    info_fullname = fullname user,
                    auth_token = jwt_sign (user_id user) (user_name user) now (jwt_secret env)\<rparr>)"

text \<open>\<open>User.create\<close> resolves to the document or throws, so the check
  \<open>if (!newUser)\<close> never fires and has no branch here. \<open>signup_create\<close> is the part
  of \<open>signupService\<close> after the \<open>findOne\<close> check and the hash: the create and the
  login that follows it.\<close>

definition signup_create ::
  "string option \<Rightarrow> db \<Rightarrow> salt \<Rightarrow> nat \<Rightarrow> string \<Rightarrow> string \<Rightarrow> string \<Rightarrow> error + (auth_user \<times> db)" where
  "signup_create env s salt now username fn pw =
     (case user_create s username (generatePassword pw salt) fn of
        Inl e \<Rightarrow> Inl e
      | Inr (_, s') \<Rightarrow>
          (case loginService env s' now username pw of
             Inl e \<Rightarrow> Inl e
           | Inr r \<Rightarrow> Inr (r, s')))"

definition signupService ::
  "string option \<Rightarrow> db \<Rightarrow> salt \<Rightarrow> nat \<Rightarrow> string \<Rightarrow> string \<Rightarrow> string \<Rightarrow> error + (auth_user \<times> db)" where
  "signupService env s salt now username fn pw =
     (case user_findOne s username of
        Some _ \<Rightarrow> Inl EUsernameTaken
      | None \<Rightarrow> signup_create env s salt now username fn pw)"

definition getUserService :: "db \<Rightarrow> string \<Rightarrow> error + user_info" where
  "getUserService s username =
     (case user_findOne s username of
        None \<Rightarrow> Inl EUserNotFound
      | Some user \<Rightarrow> Inr (user_profile user))"

section \<open>Controllers\<close>

record auth_body =
  body_username :: field
  body_password :: field
  body_fullname :: field

datatype auth_reply =
    AuthData auth_user
  | InfoData user_info
  | AuthError error

definition signup ::
  "string option \<Rightarrow> db \<Rightarrow> salt \<Rightarrow> nat \<Rightarrow> auth_body \<Rightarrow> auth_reply \<times> db" where
  "signup env s salt now b =
     (if \<not> truthy (body_username b) then (AuthError EMissingUsername, s)
      else if \<not> truthy (body_password b) then (AuthError EMissingPassword, s)
      else if \<not> truthy (body_fullname b) then (AuthError EMissingFullname, s)
      else (case signupService env s salt now (field_str (body_username b))
                   (field_str (body_fullname b)) (field_str (body_password b)) of
              Inl e \<Rightarrow> (AuthError e, s)
            | Inr (r, s') \<Rightarrow> (AuthData r, s')))"

definition login :: "string option \<Rightarrow> db \<Rightarrow> nat \<Rightarrow> auth_body \<Rightarrow> auth_reply" where
  "login env s now b =
     (if \<not> truthy (body_username b) then AuthError EMissingUsername
      else if \<not> truthy (body_password b) then AuthError EMissingPassword
      else (case loginService env s now (field_str (body_username b)) (field_str (body_password b)) of
              Inl e \<Rightarrow> AuthError e
            | Inr r \<Rightarrow> AuthData r))"

definition getUser :: "db \<Rightarrow> claims \<Rightarrow> auth_reply" where
  "getUser s user =
     (if claim_username user = [] then AuthError EMissingUsernameParam
      else (case getUserService s (claim_username user) of
              Inl e \<Rightarrow> AuthError e
            | Inr r \<Rightarrow> InfoData r))"

section \<open>Lemmas\<close>

lemma cast_username_idem [simp]: "cast_username (cast_username u) = cast_username u"
  by (simp add: cast_username_def js_trim_lower)

text \<open>After a successful \<open>User.create\<close>, a lookup by any spelling of the new name
  finds the new document; other lookups are unchanged.\<close>

lemma user_findOne_created:
  assumes "user_create s u h fn = Inr (d, s')"
  shows "user_findOne s' u' =
           (if cast_username u' = cast_username u then Some d else user_findOne s u')"
proof -
  from assms have d: "user_name d = cast_username u"
    and fresh: "\<not> list_ex (\<lambda>d'. user_name d' = cast_username u) (users s)"
    and s': "users s' = users s @ [d]"
    by (auto simp: user_create_Inr)
  show ?thesis
  proof (cases "cast_username u' = cast_username u")
    case True
    with fresh have "find (\<lambda>d'. user_name d' = cast_username u') (users s) = None"
      by (simp add: find_None_iff list_ex_iff)
    with True d s' show ?thesis by (simp add: user_findOne_def find_append)
  next
    case False
    with d s' show ?thesis
      by (simp add: user_findOne_def find_append split: option.splits)
  qed
qed

lemma loginService_Inr:
  "loginService env s now u pw = Inr r \<longleftrightarrow>
     (\<exists>d. user_findOne s u = Some d \<and> verifyPassword pw (password d)
        \<and> r = \<lparr>info_id = user_id d, info_username = user_name d, info_fullname = fullname d,
               auth_token = jwt_sign (user_id d) (user_name d) now (jwt_secret env)\<rparr>)"
  by (auto simp: loginService_def split: option.splits)

lemma signupService_Inr:
  "signupService env s salt now u fn pw = Inr (r, s') \<longleftrightarrow>
     user_findOne s u = None \<and> (\<exists>d. user_create s u (generatePassword pw salt) fn = Inr (d, s'))
     \<and> loginService env s' now u pw = Inr r"
  by (auto simp: signupService_def signup_create_def split: option.splits sum.splits)

lemma signup_create_wf: "db_wf s \<Longrightarrow> signup_create env s salt now u fn pw = Inr (r, s') \<Longrightarrow> db_wf s'"
  by (auto simp: signup_create_def split: sum.splits intro: user_create_wf)

lemma signup_wf: "db_wf s \<Longrightarrow> signup env s salt now b = (a, s') \<Longrightarrow> db_wf s'"
  by (auto simp: signup_def signupService_def signup_create_def split: if_splits sum.splits option.splits
      intro: user_create_wf)

section \<open>Signup and login\<close>

text \<open>
  C5. Signup is refused once a name is taken: after a successful signup, every later
  signup whose user name normalises (trimmed, lower-cased) to the same name fails with
  \<open>"Username already taken"\<close>, whatever its password and full name.
\<close>

theorem signup_twice:
  assumes "signupService env s salt now u fn pw = Inr (r, s')"
    and "cast_username u' = cast_username u"
  shows "signupService env' s' salt' now' u' fn' pw' = Inl EUsernameTaken"
proof -
  from assms(1) obtain d where "user_create s u (generatePassword pw salt) fn = Inr (d, s')"
    by (auto simp: signupService_Inr)
  then have "user_findOne s' u' = Some d"
    using assms(2) by (simp add: user_findOne_created)
  then show ?thesis by (simp add: signupService_def)
qed

text \<open>
  C15. Signup succeeds for every free, non-blank user name and non-blank full name,
  with any password: the schema's \<open>minlength: 6\<close> constrains the stored digest, which
  always has 60 characters, and no other code checks the password's length. The new
  identity gets the next ObjectId, the normalised name and the trimmed full name, and
  the answer carries a token for it.
\<close>

theorem signup_succeeds:
  assumes "user_findOne s u = None" and "cast_username u \<noteq> []" and "js_trim fn \<noteq> []"
  shows "\<exists>s'. signupService env s salt now u fn pw =
           Inr (\<lparr>info_id = next_oid s, info_username = cast_username u,
                 info_fullname = js_trim fn,
                 auth_token = jwt_sign (next_oid s) (cast_username u) now (jwt_secret env)\<rparr>, s')"
proof -
  let ?d = "\<lparr>user_id = next_oid s, user_name = cast_username u,
             password = generatePassword pw salt, fullname = js_trim fn\<rparr>"
  let ?s' = "s\<lparr>users := users s @ [?d], next_oid := Suc (next_oid s)\<rparr>"
  have create: "user_create s u (generatePassword pw salt) fn = Inr (?d, ?s')"
    using assms by (simp add: user_create_Inr user_findOne_None user_valid_def digest_length_def)
  then have "user_findOne ?s' u = Some ?d" by (simp add: user_findOne_created)
  then have "loginService env ?s' now u pw =
      Inr \<lparr>info_id = next_oid s, info_username = cast_username u, info_fullname = js_trim fn,
           auth_token = jwt_sign (next_oid s) (cast_username u) now (jwt_secret env)\<rparr>"
    by (simp add: loginService_def)
  with assms(1) create show ?thesis by (auto simp: signupService_Inr)
qed

text \<open>
  C6. A token from login verifies under the server's secret to the identity that
  logged in, and the ``who am I'' lookup by the token's user name answers that
  identity's profile.
\<close>

theorem login_token_roundtrip:
  assumes "loginService env s now u pw = Inr r"
  shows "decode_token (Some (auth_token r)) (jwt_secret env) =
           Inr \<lparr>claim_id = info_id r, claim_username = info_username r, claim_iat = now\<rparr>
       \<and> getUserService s (info_username r) =
           Inr \<lparr>info_id = info_id r, info_username = info_username r, info_fullname = info_fullname r\<rparr>"
proof -
  from assms obtain d where d: "user_findOne s u = Some d"
    and r: "r = \<lparr>info_id = user_id d, info_username = user_name d, info_fullname = fullname d,
                 auth_token = jwt_sign (user_id d) (user_name d) now (jwt_secret env)\<rparr>"
    by (auto simp: loginService_Inr)
  from d have "user_name d = cast_username u" by (simp add: user_findOne_Some)
  then have "user_findOne s (user_name d) = Some d"
    using d by (simp add: user_findOne_def)
  with r show ?thesis
    by (simp add: decode_token_def getUserService_def user_profile_def)
qed

text \<open>
  C7. After a signup, a login under any spelling of the name succeeds exactly when the
  password agrees with the signup password on its first 72 bytes (bcrypt hashes no
  more), and otherwise fails with \<open>InvalidPassword\<close>, never with \<open>UserNotFound\<close>.
\<close>

theorem signup_then_login:
  assumes "signupService env s salt now u fn pw = Inr (r, s')"
    and "cast_username u' = cast_username u"
  shows "loginService env' s' now' u' pw' =
           (if take bcrypt_max_len pw' = take bcrypt_max_len pw
            then Inr (r\<lparr>auth_token := jwt_sign (info_id r) (info_username r) now' (jwt_secret env')\<rparr>)
            else Inl EInvalidPassword)"
proof -
  from assms(1) obtain d where create: "user_create s u (generatePassword pw salt) fn = Inr (d, s')"
    and login: "loginService env s' now u pw = Inr r"
    by (auto simp: signupService_Inr)
  from create have pd: "password d = generatePassword pw salt" by (auto simp: user_create_Inr)
  from create have found: "user_findOne s' u' = Some d" "user_findOne s' u = Some d"
    using assms(2) by (simp_all add: user_findOne_created)
  from login found(2) have r: "r = \<lparr>info_id = user_id d, info_username = user_name d,
      info_fullname = fullname d, auth_token = jwt_sign (user_id d) (user_name d) now (jwt_secret env)\<rparr>"
    by (auto simp: loginService_Inr)
  show ?thesis
    using found(1) pd r by (simp add: loginService_def)
qed

end
