(* ===== verification/Chat.thy ===== *)
theory Chat
  imports Prelude
begin

text \<open>
  The chat assistant of the backend: \<open>src/backend-todo/src/controllers/llm-controller.js\<close>
  (\<open>chatbotMessagesProcessing\<close>) and \<open>src/backend-todo/src/services/LLM-chatbot.js\<close>
  (\<open>prompt\<close>, \<open>processConversation\<close>). The request body is JSON, so its two fields
  are values of \<open>json\<close>. The prompt is a LangChain \<open>ChatPromptTemplate\<close> whose
  messages are all f-string templates, the history's texts included; its parser and
  interpolation (\<open>parseFString\<close>, \<open>interpolateFString\<close> of \<open>@langchain/core\<close>) are
  modelled from the library as a recursive parser over the template's characters,
  which follows the library's \<open>while\<close> loop case by case. The language model is a
  parameter: the function from the formatted messages to the answer, \<open>None\<close> when the API call fails. So is
  \<open>JSON.stringify(todoList, null, 2)\<close>.
\<close>

section \<open>JSON values\<close>

datatype json =
    JNull
  | JBool bool
  | JNum int
  | JStr string
  | JArr "json list"
  | JObj "(string \<times> json) list"

text \<open>\<open>Array.isArray\<close>.\<close>

fun is_array :: "json \<Rightarrow> bool" where
  "is_array (JArr _) = True"
| "is_array _ = False"

text \<open>JavaScript truthiness of a parsed value; an absent property is \<open>undefined\<close>.\<close>

fun json_truthy :: "json option \<Rightarrow> bool" where
  "json_truthy None = False"
| "json_truthy (Some JNull) = False"
| "json_truthy (Some (JBool b)) = b"
| "json_truthy (Some (JNum n)) = (n \<noteq> 0)"
| "json_truthy (Some (JStr s)) = (s \<noteq> [])"
| "json_truthy (Some (JArr _)) = True"
| "json_truthy (Some (JObj _)) = True"

text \<open>Property access on a parsed object: \<open>JSON.parse\<close> keeps the last of duplicate
  keys.\<close>

definition json_get :: "(string \<times> json) list \<Rightarrow> string \<Rightarrow> json option" where
  "json_get fs k = map_of (rev fs) k"

section \<open>f-string templates\<close>

datatype tnode = TLit char | TVar string

text \<open>\<open>parseFString\<close>: \<open>{{\<close> and \<open>}}\<close> are literal braces, \<open>{name}\<close> is a
  variable, an unclosed \<open>{\<close> or a single \<open>}\<close> throws (\<open>None\<close>).\<close>

function parse_fstring :: "string \<Rightarrow> tnode list option" where
  "parse_fstring [] = Some []"
| "parse_fstring (c # cs) =
     (if c = CHR ''{'' then
        (if cs \<noteq> [] \<and> hd cs = CHR ''{'' then map_option (Cons (TLit c)) (parse_fstring (tl cs))
         else (let v = takeWhile (\<lambda>d. d \<noteq> CHR ''}'') cs in
               if length v = length cs then None
               else map_option (Cons (TVar v)) (parse_fstring (drop (Suc (length v)) cs))))
      else if c = CHR ''}'' then
        (if cs \<noteq> [] \<and> hd cs = CHR ''}'' then map_option (Cons (TLit c)) (parse_fstring (tl cs))
         else None)
      else map_option (Cons (TLit c)) (parse_fstring cs))"
  by pat_completeness auto
termination
  by (relation "measure length") auto

text \<open>\<open>interpolateFString\<close>: a variable without a value throws.\<close>

fun interpolate :: "(string \<Rightarrow> string option) \<Rightarrow> tnode list \<Rightarrow> string option" where
  "interpolate vals [] = Some []"
| "interpolate vals (TLit c # ns) = map_option (Cons c) (interpolate vals ns)"
| "interpolate vals (TVar v # ns) =
     (case vals v of
        None \<Rightarrow> None
      | Some x \<Rightarrow> map_option (\<lambda>r. x @ r) (interpolate vals ns))"

definition format_fstring :: "(string \<Rightarrow> string option) \<Rightarrow> string \<Rightarrow> string option" where
  "format_fstring vals s = Option.bind (parse_fstring s) (interpolate vals)"

section \<open>The prompt\<close>

datatype role = RSystem | RHuman | RAI

definition nl :: string where
  "nl = [CHR 0x0A]"

text \<open>U+2019 (right single quotation mark) of the source text, in UTF-8.\<close>

definition rsquo :: string where
  "rsquo = [CHR 0xE2, CHR 0x80, CHR 0x99]"

text \<open>The system message of \<open>prompt\<close>, split at its one variable.\<close>

definition sys_head :: string where
  \<open>sys_head =
     ''You are an AI assistant that helps users manage their time effectively by analyzing their todo list. '' @
     nl @
     ''Your goal is to guide users on how to prioritize tasks based on urgency, due dates, and task descriptions.'' @
     nl @
     nl @
     ''The user'' @ rsquo @ ''s todo list is provided as a JSON object under the variable: ''\<close>

definition sys_tail :: string where
  \<open>sys_tail =
     ''.'' @
     nl @
     ''Each task includes: title, description, urgency ("important", "normal", "not important"), due date (ISO format), and whether it is completed.'' @
     nl @
     nl @
     ''Respond to user queries by:'' @
     nl @
     ''- Suggesting which tasks to focus on first'' @
     nl @
     ''- Highlighting overdue or soon-due tasks'' @
     nl @
     ''- Helping plan realistic schedules based on priorities'' @
     nl @
     ''- Answering UI-related queries (e.g., how to use buttons like Add, Delete, Check, Update)'' @
     nl @
     ''- Noting color meanings: red = important, green = normal, no color = not important, red alert = overdue'' @
     nl @
     nl @
     ''Be polite, supportive, and concise. Assume the user wants helpful advice about their tasks or UI.'' @
     nl\<close>

definition sys_template :: string where
  "sys_template = sys_head @ ''{todoListJsonString}'' @ sys_tail"

text \<open>\<open>data.isHuman ? ["human", data.text] : ["ai", data.text]\<close>. An entry that is
  not an object with a string \<open>text\<close> makes the template constructor throw.\<close>

fun chat_entry :: "json \<Rightarrow> (role \<times> string) option" where
  "chat_entry (JObj fs) =
     (case json_get fs ''text'' of
        Some (JStr t) \<Rightarrow> Some (if json_truthy (json_get fs ''isHuman'') then RHuman else RAI, t)
      | _ \<Rightarrow> None)"
| "chat_entry _ = None"

primrec all_some :: "'a option list \<Rightarrow> 'a list option" where
  "all_some [] = Some []"
| "all_some (x # xs) =
     (case x of None \<Rightarrow> None | Some y \<Rightarrow> map_option (Cons y) (all_some xs))"

definition prompt :: "json list \<Rightarrow> (role \<times> string) list option" where
  "prompt chats = map_option (Cons (RSystem, sys_template)) (all_some (map chat_entry chats))"

text \<open>\<open>chain.invoke({ todoListJsonString })\<close>: every message is formatted with the one
  variable, then sent to the model.\<close>

definition prompt_vars :: "string \<Rightarrow> string \<Rightarrow> string option" where
  "prompt_vars todoJson v = (if v = ''todoListJsonString'' then Some todoJson else None)"

definition format_messages :: "string \<Rightarrow> (role \<times> string) list \<Rightarrow> (role \<times> string) list option" where
  "format_messages todoJson ms =
     all_some (map (\<lambda>(r, t). map_option (Pair r) (format_fstring (prompt_vars todoJson) t)) ms)"

type_synonym llm = "(role \<times> string) list \<Rightarrow> string option"

definition processConversation :: "llm \<Rightarrow> (json \<Rightarrow> string) \<Rightarrow> json \<Rightarrow> json list \<Rightarrow> string option" where
  "processConversation model stringify todoList chats =
     Option.bind (prompt chats) (\<lambda>ms.
       Option.bind (format_messages (stringify todoList) ms) model)"

section \<open>The controller\<close>

record chat_body =
  body_todoList :: "json option"
  body_chats :: "json option"

datatype chat_reply = ChatData string | ChatError error

definition chatbotMessagesProcessing :: "llm \<Rightarrow> (json \<Rightarrow> string) \<Rightarrow> chat_body \<Rightarrow> chat_reply" where
  "chatbotMessagesProcessing model stringify b =
     (case (body_todoList b, body_chats b) of
        (Some (JArr ts), Some (JArr cs)) \<Rightarrow>
          (case processConversation model stringify (JArr ts) cs of
             None \<Rightarrow> ChatError EInternal
           | Some r \<Rightarrow> ChatData r)
      | _ \<Rightarrow> ChatError EInvalidChatFormat)"

section \<open>Lemmas on templates\<close>

definition no_brace :: "char \<Rightarrow> bool" where
  "no_brace c \<longleftrightarrow> c \<noteq> CHR ''{'' \<and> c \<noteq> CHR ''}''"

lemma all_some_Some: "all_some xs = Some ys \<longleftrightarrow> xs = map Some ys"
  by (induction xs arbitrary: ys) (auto split: option.splits)

lemma all_some_None: "all_some xs = None \<longleftrightarrow> None \<in> set xs"
  by (induction xs) (auto split: option.splits)

lemma all_some_map_Some [simp]: "all_some (map Some ys) = Some ys"
  by (simp add: all_some_Some)

text \<open>Text without braces parses to its characters, and formats to itself.\<close>

lemma parse_fstring_plain:
  "list_all no_brace s \<Longrightarrow> parse_fstring t = Some ns \<Longrightarrow> parse_fstring (s @ t) = Some (map TLit s @ ns)"
  by (induction s) (auto simp: no_brace_def)

lemma interpolate_append_lits:
  "interpolate vals ns = Some r \<Longrightarrow> interpolate vals (map TLit s @ ns) = Some (s @ r)"
  by (induction s) auto

lemma format_fstring_plain: "list_all no_brace s \<Longrightarrow> format_fstring vals s = Some s"
  using parse_fstring_plain [of s "[]" "[]"] interpolate_append_lits [of vals "[]" "[]" s]
  by (simp add: format_fstring_def)

lemma parse_fstring_var:
  "parse_fstring (''{todoListJsonString}'' @ t) =
     map_option (Cons (TVar ''todoListJsonString'')) (parse_fstring t)"
  by simp

lemma sys_head_plain: "list_all no_brace sys_head"
  by (simp add: sys_head_def nl_def rsquo_def no_brace_def)

lemma sys_tail_plain: "list_all no_brace sys_tail"
  by (simp add: sys_tail_def nl_def no_brace_def)

text \<open>The system message formats to the source's text with the JSON of the list in
  place of its variable.\<close>

lemma format_sys_template:
  "format_fstring (prompt_vars j) sys_template = Some (sys_head @ j @ sys_tail)"
proof -
  have "parse_fstring (''{todoListJsonString}'' @ sys_tail) =
          Some (TVar ''todoListJsonString'' # map TLit sys_tail)"
    using parse_fstring_plain [OF sys_tail_plain, of "[]" "[]"]
    by (simp only: parse_fstring_var) simp
  then have parse: "parse_fstring sys_template =
          Some (map TLit sys_head @ TVar ''todoListJsonString'' # map TLit sys_tail)"
    unfolding sys_template_def by (rule parse_fstring_plain [OF sys_head_plain])
  have "interpolate (prompt_vars j) (map TLit sys_tail) = Some sys_tail"
    using interpolate_append_lits [of _ "[]" "[]" sys_tail] by simp
  then have "interpolate (prompt_vars j) (TVar ''todoListJsonString'' # map TLit sys_tail) =
               Some (j @ sys_tail)"
    by (simp add: prompt_vars_def)
  then have "interpolate (prompt_vars j) (map TLit sys_head @ TVar ''todoListJsonString'' # map TLit sys_tail) =
               Some (sys_head @ j @ sys_tail)"
    by (rule interpolate_append_lits)
  with parse show ?thesis by (simp add: format_fstring_def)
qed

lemma format_messages_Cons:
  "format_messages j ((r, t) # ms) =
     (case format_fstring (prompt_vars j) t of
        None \<Rightarrow> None
      | Some t' \<Rightarrow> map_option (Cons (r, t')) (format_messages j ms))"
  by (simp add: format_messages_def split: option.splits)

lemma format_messages_plain:
  "list_all (\<lambda>(r, t). list_all no_brace t) ms \<Longrightarrow> format_messages j ms = Some ms"
  by (induction ms) (auto simp: format_messages_Cons format_fstring_plain format_messages_def)

lemma format_messages_None:
  "(r, t) \<in> set ms \<Longrightarrow> format_fstring (prompt_vars j) t = None \<Longrightarrow> format_messages j ms = None"
  by (induction ms) (auto simp: format_messages_Cons split: option.splits)

text \<open>An unclosed brace, not doubled, between brace-free text.\<close>

lemma parse_fstring_unclosed:
  assumes "list_all no_brace a" and "list_all no_brace b"
  shows "parse_fstring (a @ CHR ''{'' # b) = None"
proof -
  have "parse_fstring (CHR ''{'' # b) = None"
  proof (cases b)
    case Nil
    then show ?thesis by simp
  next
    case (Cons c b')
    with assms(2) have "c \<noteq> CHR ''{''" and "takeWhile (\<lambda>d. d \<noteq> CHR ''}'') b = b"
      by (auto simp: no_brace_def list_all_iff intro: takeWhile_eq_all_conv [THEN iffD2])
    with Cons show ?thesis by simp
  qed
  with assms(1) show ?thesis by (induction a) (auto simp: no_brace_def)
qed

lemma chat_entry_text: "chat_entry d = Some (r, t) \<Longrightarrow> \<exists>fs. d = JObj fs \<and> json_get fs ''text'' = Some (JStr t)"
  by (cases d) (auto split: option.splits json.splits if_splits)

lemma chatbot_arrays:
  "chatbotMessagesProcessing model sf \<lparr>body_todoList = Some (JArr ts), body_chats = Some (JArr cs)\<rparr> =
     (case all_some (map chat_entry cs) of
        None \<Rightarrow> ChatError EInternal
      | Some ms \<Rightarrow>
          (case format_messages (sf (JArr ts)) ms of
             None \<Rightarrow> ChatError EInternal
           | Some fm \<Rightarrow>
               (case model ((RSystem, sys_head @ sf (JArr ts) @ sys_tail) # fm) of
                  None \<Rightarrow> ChatError EInternal
                | Some r \<Rightarrow> ChatData r)))"
  by (simp add: chatbotMessagesProcessing_def processConversation_def prompt_def
      format_messages_Cons format_sys_template split: option.splits)

section \<open>Properties of the chat assistant\<close>

text \<open>
  C17. When both fields are arrays and every history entry is an object with a string
  \<open>text\<close> without braces, the model is asked exactly once, with the source's system
  text (the JSON of the list in place of its variable) followed by the history in its
  order, each entry \<open>human\<close> when \<open>isHuman\<close> is truthy and \<open>ai\<close> otherwise; the
  controller answers the model's text, or \<open>"Internal server error"\<close> when the call fails.
\<close>

theorem chat_plain_reply:
  assumes "all_some (map chat_entry cs) = Some ms"
    and "list_all (\<lambda>(r, t). list_all no_brace t) ms"
  shows "chatbotMessagesProcessing model sf \<lparr>body_todoList = Some (JArr ts), body_chats = Some (JArr cs)\<rparr> =
           (case model ((RSystem, sys_head @ sf (JArr ts) @ sys_tail) # ms) of
              None \<Rightarrow> ChatError EInternal
            | Some r \<Rightarrow> ChatData r)"
  using assms by (simp add: chatbot_arrays format_messages_plain)

text \<open>
  C18. Every history text is parsed as an f-string template. A message with a single
  opening brace and no closing one (between brace-free text, so not an escaped
  \<open>{{\<close>), from the user or from the assistant, makes every request whose history
  holds it fail with \<open>"Internal server error"\<close>, whatever the model and the list.
\<close>

theorem chat_unclosed_brace:
  assumes "all_some (map chat_entry cs) = Some ms" and "(r, a @ CHR ''{'' # b) \<in> set ms"
    and "list_all no_brace a" and "list_all no_brace b"
  shows "chatbotMessagesProcessing model sf \<lparr>body_todoList = Some (JArr ts), body_chats = Some (JArr cs)\<rparr> =
           ChatError EInternal"
proof -
  have "format_fstring (prompt_vars (sf (JArr ts))) (a @ CHR ''{'' # b) = None"
    using parse_fstring_unclosed [OF assms(3,4)] by (simp add: format_fstring_def)
  with assms(1,2) show ?thesis by (simp add: chatbot_arrays format_messages_None)
qed

text \<open>
  C19. A user who writes the variable's name in braces has the whole task list
  substituted into their message: the model receives the JSON of the list as that
  human message.
\<close>

theorem chat_template_injection:
  assumes "all_some (map chat_entry cs) = Some (ms1 @ (RHuman, ''{todoListJsonString}'') # ms2)"
    and "list_all (\<lambda>(r, t). list_all no_brace t) (ms1 @ ms2)"
  shows "chatbotMessagesProcessing model sf \<lparr>body_todoList = Some (JArr ts), body_chats = Some (JArr cs)\<rparr> =
           (case model ((RSystem, sys_head @ sf (JArr ts) @ sys_tail) # ms1 @ (RHuman, sf (JArr ts)) # ms2) of
              None \<Rightarrow> ChatError EInternal
            | Some r \<Rightarrow> ChatData r)"
proof -
  let ?j = "sf (JArr ts)"
  have var: "format_fstring (prompt_vars ?j) ''{todoListJsonString}'' = Some ?j"
    by (simp add: format_fstring_def prompt_vars_def)
  have "format_messages ?j (ms1 @ (RHuman, ''{todoListJsonString}'') # ms2) =
          Some (ms1 @ (RHuman, ?j) # ms2)"
    using assms(2)
  proof (induction ms1)
    case Nil
    then show ?case by (simp add: format_messages_Cons var format_messages_plain del: format_fstring_def)
  next
    case (Cons m ms1)
    then show ?case by (cases m) (simp add: format_messages_Cons format_fstring_plain)
  qed
  with assms(1) show ?thesis by (simp add: chatbot_arrays)
qed

end
