(* ===== verification/Server.thy ===== *)
theory Server
  imports Todos Auth Chat
begin

text \<open>
  The HTTP layer and the server as a concurrent system.
  \<open>src/backend-todo/src/app.js\<close> mounts the routers under \<open>/v1/auth\<close>,
  \<open>/v1/user\<close> and \<open>/v1/llm\<close>; \<open>routes/auth-route.js\<close>, \<open>routes/todo-route.js\<close> and
  \<open>routes/chatbot-route.js\<close> bind each path to a controller, behind the middleware
  \<open>verifyToken\<close> for the protected ones.
  A request is a value of \<open>request\<close>, one constructor per route, carrying the
  \<open>Authorization\<close> header and the body; \<open>app\<close> answers it atomically.

  Requests are served concurrently: each one runs until it awaits the store or
  bcrypt. A request may run as one atomic step (\<open>serve\<close>, one of the
  interleavings), and the two handlers that read the store and then write on the
  strength of that read are also split at their \<open>await\<close>: the toggle into its read
  (\<open>findOne\<close>, flip) and its write (\<open>save\<close>), and signup into its check
  (\<open>findOne\<close> answers no user of that name, then \<open>bcrypt.hash\<close> is awaited) and its
  create (\<open>User.create\<close> on the store as it is then, and the login that follows),
  with any other steps between.

  Clients present either no token, a token the server handed out, or a token they
  made themselves with a key they know (\<open>adv_keys\<close>); the literal fallback secret of
  \<open>authentication.js\<close> is public with the repository.
\<close>

section \<open>Routes\<close>

record server_env =
  parse_date :: date_parser
  secret_var :: "string option"
  adv_keys :: "string list"
  chat_model :: llm
  chat_stringify :: "json \<Rightarrow> string"

type_synonym header = "token option"

datatype auth_request =
    Login auth_body
  | Signup auth_body salt
  | Info header

datatype todo_request =
    MyTodos header
  | CreateTodo header todo_body
  | UpdateTodo header todo_body
  | DeleteTodo header todo_body
  | ToggleTodo header todo_body

datatype request = AuthReq auth_request | TodoReq todo_request | ChatReq header chat_body

datatype reply = RAuth auth_reply | RTodo todo_reply | RChat chat_reply | RUnauthorized

definition server_secret :: "server_env \<Rightarrow> string" where
  "server_secret E = jwt_secret (secret_var E)"

text \<open>\<open>verifyToken\<close>: refuse, or run the controller with \<open>req.user\<close>.\<close>

definition verifyToken ::
  "server_env \<Rightarrow> header \<Rightarrow> db \<Rightarrow> (claims \<Rightarrow> reply \<times> db) \<Rightarrow> reply \<times> db" where
  "verifyToken E h s k =
     (case decode_token h (server_secret E) of Inl _ \<Rightarrow> (RUnauthorized, s) | Inr c \<Rightarrow> k c)"

definition authRouter :: "server_env \<Rightarrow> nat \<Rightarrow> db \<Rightarrow> auth_request \<Rightarrow> reply \<times> db" where
  "authRouter E now s r =
     (case r of
        Login b \<Rightarrow> (RAuth (login (secret_var E) s now b), s)
      | Signup b salt \<Rightarrow> (let (a, s') = signup (secret_var E) s salt now b in (RAuth a, s'))
      | Info h \<Rightarrow> verifyToken E h s (\<lambda>c. (RAuth (getUser s c), s)))"

definition todoRouter :: "server_env \<Rightarrow> db \<Rightarrow> todo_request \<Rightarrow> reply \<times> db" where
  "todoRouter E s r =
     (case r of
        MyTodos h \<Rightarrow> verifyToken E h s (\<lambda>c. (RTodo (getTodos s c), s))
      | CreateTodo h b \<Rightarrow> verifyToken E h s
          (\<lambda>c. let (a, s') = createTodo (parse_date E) s c b in (RTodo a, s'))
      | UpdateTodo h b \<Rightarrow> verifyToken E h s
          (\<lambda>c. let (a, s') = updateTodo (parse_date E) s c b in (RTodo a, s'))
      | DeleteTodo h b \<Rightarrow> verifyToken E h s
          (\<lambda>c. let (a, s') = deleteTodo s c b in (RTodo a, s'))
      | ToggleTodo h b \<Rightarrow> verifyToken E h s
          (\<lambda>c. let (a, s') = toggleTodoCompletion s c b in (RTodo a, s')))"

definition chatBotRouter :: "server_env \<Rightarrow> db \<Rightarrow> header \<Rightarrow> chat_body \<Rightarrow> reply \<times> db" where
  "chatBotRouter E s h b =
     verifyToken E h s (\<lambda>_. (RChat (chatbotMessagesProcessing (chat_model E) (chat_stringify E) b), s))"

definition app :: "server_env \<Rightarrow> nat \<Rightarrow> db \<Rightarrow> request \<Rightarrow> reply \<times> db" where
  "app E now s r =
     (case r of
        AuthReq a \<Rightarrow> authRouter E now s a
      | TodoReq t \<Rightarrow> todoRouter E s t
      | ChatReq h b \<Rightarrow> chatBotRouter E s h b)"

section \<open>The server as a concurrent system\<close>

record server =
  store :: db
  pending :: "todo_doc list"
  signups :: "(auth_body \<times> salt) list"
  issued :: "token list"

definition empty_db :: db where
  "empty_db = \<lparr>users = [], todos = [], next_oid = 0\<rparr>"

definition init_server :: server where
  "init_server = \<lparr>store = empty_db, pending = [], signups = [], issued = []\<rparr>"

fun request_header :: "request \<Rightarrow> header" where
  "request_header (AuthReq (Info h)) = h"
| "request_header (AuthReq _) = None"
| "request_header (TodoReq (MyTodos h)) = h"
| "request_header (TodoReq (CreateTodo h _)) = h"
| "request_header (TodoReq (UpdateTodo h _)) = h"
| "request_header (TodoReq (DeleteTodo h _)) = h"
| "request_header (TodoReq (ToggleTodo h _)) = h"
| "request_header (ChatReq h _) = h"

fun reply_tokens :: "reply \<Rightarrow> token list" where
  "reply_tokens (RAuth (AuthData r)) = [auth_token r]"
| "reply_tokens _ = []"

text \<open>The headers a client can send in a state.\<close>

inductive client_header :: "server_env \<Rightarrow> server \<Rightarrow> header \<Rightarrow> bool" where
  no_token: "client_header E S None"
| issued_token: "t \<in> set (issued S) \<Longrightarrow> client_header E S (Some t)"
| forged_token: "k \<in> set (adv_keys E) \<Longrightarrow> client_header E S (Some (JWT c (Hmac k c)))"

text \<open>The create half of a signup whose check passed: the controller's answer.\<close>

definition signup_complete :: "server_env \<Rightarrow> nat \<Rightarrow> db \<Rightarrow> auth_body \<Rightarrow> salt \<Rightarrow> reply \<times> db" where
  "signup_complete E now s b salt =
     (case signup_create (secret_var E) s salt now (field_str (body_username b))
             (field_str (body_fullname b)) (field_str (body_password b)) of
        Inl e \<Rightarrow> (RAuth (AuthError e), s)
      | Inr (r, s') \<Rightarrow> (RAuth (AuthData r), s'))"

inductive server_step :: "server_env \<Rightarrow> server \<Rightarrow> server \<Rightarrow> bool" for E :: server_env where
  serve: "client_header E S (request_header r) \<Longrightarrow> app E now (store S) r = (a, s') \<Longrightarrow>
    server_step E S (S\<lparr>store := s', issued := issued S @ reply_tokens a\<rparr>)"
| toggle_begin: "client_header E S h \<Longrightarrow> decode_token h (server_secret E) = Inr c \<Longrightarrow>
    truthy (body_id (b :: todo_body)) \<Longrightarrow> toggle_read (store S) (claim_username c) (field_str (body_id b)) = Inr t \<Longrightarrow>
    server_step E S (S\<lparr>pending := pending S @ [t]\<rparr>)"
| toggle_end: "t \<in> set (pending S) \<Longrightarrow>
    server_step E S (S\<lparr>store := (case toggle_write (store S) t of Inl _ \<Rightarrow> store S | Inr (_, s') \<Rightarrow> s'),
                      pending := remove1 t (pending S)\<rparr>)"
| signup_begin: "truthy (body_username b) \<Longrightarrow> truthy (body_password b) \<Longrightarrow> truthy (body_fullname b) \<Longrightarrow>
    user_findOne (store S) (field_str (body_username b)) = None \<Longrightarrow>
    server_step E S (S\<lparr>signups := signups S @ [(b, salt)]\<rparr>)"
| signup_end: "(b, salt) \<in> set (signups S) \<Longrightarrow> signup_complete E now (store S) b salt = (a, s') \<Longrightarrow>
    server_step E S (S\<lparr>store := s', issued := issued S @ reply_tokens a, signups := remove1 (b, salt) (signups S)\<rparr>)"

inductive reachable :: "server_env \<Rightarrow> server \<Rightarrow> bool" for E :: server_env where
  init: "reachable E init_server"
| step: "reachable E S \<Longrightarrow> server_step E S S' \<Longrightarrow> reachable E S'"

section \<open>Every request keeps the store well formed\<close>

lemma verifyToken_cases:
  "verifyToken E h s k = (a, s') \<Longrightarrow>
     (a = RUnauthorized \<and> s' = s) \<or> (\<exists>c. decode_token h (server_secret E) = Inr c \<and> k c = (a, s'))"
  by (auto simp: verifyToken_def split: sum.splits)

lemma app_wf:
  assumes "db_wf s" and "app E now s r = (a, s')"
  shows "db_wf s'"
proof (cases r)
  case (AuthReq q)
  with assms show ?thesis
    by (cases q) (auto simp: app_def authRouter_def split: prod.splits
        dest!: verifyToken_cases intro: signup_wf)
next
  case (TodoReq q)
  with assms show ?thesis
    by (cases q) (auto simp: app_def todoRouter_def split: prod.splits
        dest!: verifyToken_cases intro: todo_controllers_wf)
next
  case (ChatReq h b)
  with assms show ?thesis by (auto simp: app_def chatBotRouter_def dest!: verifyToken_cases)
qed

lemma server_step_wf:
  "server_step E S S' \<Longrightarrow> db_wf (store S) \<Longrightarrow> db_wf (store S')"
proof (induction rule: server_step.induct)
  case (serve S r now a s')
  then show ?case by (simp add: app_wf)
next
  case (toggle_begin S h c b t)
  then show ?case by simp
next
  case (toggle_end t S)
  then show ?case by (auto split: sum.splits intro: toggle_write_wf)
next
  case (signup_begin b S salt)
  then show ?case by simp
next
  case (signup_end b salt S now a s')
  then show ?case by (auto simp: signup_complete_def split: sum.splits intro: signup_create_wf)
qed

section \<open>Properties of the whole server\<close>

text \<open>
  C8. In every state the server can reach, from the empty database and under any
  interleaving of requests, of the two halves of toggles and of the check and create
  halves of signups, the store is well formed: user names are unique, and ObjectIds
  are unique and below the allocation counter (the counter stands for the driver's
  ObjectId generator). Two signups of one name can both pass the \<open>findOne\<close> check
  before either creates its user, so the uniqueness of names rests on the unique
  index of \<open>models/user.js\<close>, which refuses the second \<open>User.create\<close>.
\<close>

theorem reachable_db_wf:
  assumes "reachable E S"
  shows "db_wf (store S)"
  using assms
proof (induction rule: reachable.induct)
  case init
  show ?case by (simp add: init_server_def empty_db_def db_wf_def all_ids_def)
next
  case (step S S')
  then show ?case by (blast intro: server_step_wf)
qed

text \<open>
  C2. \<open>GET /v1/user/todo/my\<close> changes nothing, and the list it answers is exactly the
  tasks, in store order, whose owner is the user name of the verified token.
\<close>

theorem my_todos_scoped:
  assumes "app E now s (TodoReq (MyTodos h)) = (RTodo (TodosData ts), s')"
  shows "s' = s \<and> (\<exists>c. decode_token h (server_secret E) = Inr c
           \<and> ts = filter (\<lambda>t. owner t = claim_username c) (todos s))"
  using assms
  by (auto simp: app_def todoRouter_def verifyToken_def getTodos_def getUserTodos_def
      todo_find_def split: sum.splits if_splits)

text \<open>
  C14. When \<open>JWT_SECRET\<close> is not set, the server signs and verifies with the literal
  \<open>"your-dev-secret"\<close> of \<open>authentication.js\<close>. Anyone who knows the literal can make a
  token for any user name, and the server answers that user's tasks to it.
\<close>

theorem forged_token_accepted:
  assumes "secret_var E = None" and "dev_secret \<in> set (adv_keys E)"
    and "claim_username c \<noteq> []"
  shows "client_header E S (Some (JWT c (Hmac dev_secret c)))
       \<and> app E now (store S) (TodoReq (MyTodos (Some (JWT c (Hmac dev_secret c))))) =
           (RTodo (TodosData (getUserTodos (store S) (claim_username c))), store S)"
proof -
  have "client_header E S (Some (JWT c (Hmac dev_secret c)))"
    using assms(2) by (rule client_header.forged_token)
  moreover have "server_secret E = dev_secret"
    using assms(1) by (simp add: server_secret_def jwt_secret_def)
  ultimately show ?thesis
    using assms(3) by (simp add: app_def todoRouter_def verifyToken_def decode_token_def getTodos_def)
qed

end
