(* ===== verification/Client.thy ===== *)
theory Client
  imports Server
begin

text \<open>
  The browser's state: \<open>src/frontend/src/contexts/AuthContext.tsx\<close> (the signed-in
  user with its token, and the token kept in \<open>localStorage\<close>) and
  \<open>src/frontend/src/contexts/TodoContext.tsx\<close> (the task list the pages show). Each
  context function sends one request and, when the answer has no \<open>error\<close>, updates
  the state from its \<open>data\<close>. A round trip here is the function applied to the
  server's answer, so the server and the browser are composed through \<open>app\<close>; a
  failed \<open>fetch\<close> (network error) is the unchanged state. The task a component
  passes to the context is named by its \<open>id\<close>, the 24-digit string the server
  answered (\<open>oid_hex\<close>).
\<close>

section \<open>State\<close>

record client =
  user :: "auth_user option"
  stored_token :: "token option"
  client_todos :: "todo_doc list"

definition client_init :: client where
  "client_init = \<lparr>user = None, stored_token = None, client_todos = []\<rparr>"

text \<open>\<open>isAuthenticated: !!user\<close> of the context value.\<close>

definition isAuthenticated :: "client \<Rightarrow> bool" where
  "isAuthenticated cl \<longleftrightarrow> user cl \<noteq> None"

text \<open>\<open>json.error\<close> is truthy.\<close>

fun reply_error :: "reply \<Rightarrow> bool" where
  "reply_error RUnauthorized = True"
| "reply_error (RTodo (TodoError _)) = True"
| "reply_error (RAuth (AuthError _)) = True"
| "reply_error (RChat (ChatError _)) = True"
| "reply_error _ = False"

definition bearer :: "client \<Rightarrow> header" where
  "bearer cl = map_option auth_token (user cl)"

section \<open>TodoContext\<close>

text \<open>The answer to \<open>GET /todo/my\<close>: \<open>setTodos(json.data || [])\<close> unless
  \<open>json.error\<close>.\<close>

definition fetch_apply :: "todo_doc list \<Rightarrow> reply \<Rightarrow> todo_doc list" where
  "fetch_apply ts r = (case r of RTodo (TodosData xs) \<Rightarrow> xs | _ \<Rightarrow> ts)"

definition fetchTodos :: "server_env \<Rightarrow> nat \<Rightarrow> db \<Rightarrow> client \<Rightarrow> client \<times> db" where
  "fetchTodos E now s cl =
     (case user cl of
        None \<Rightarrow> (cl, s)
      | Some _ \<Rightarrow>
          (let (r, s') = app E now s (TodoReq (MyTodos (bearer cl)))
           in (cl\<lparr>client_todos := fetch_apply (client_todos cl) r\<rparr>, s')))"

text \<open>\<open>setTodos((prev) => [...prev, json.data])\<close>.\<close>

definition add_apply :: "todo_doc list \<Rightarrow> reply \<Rightarrow> todo_doc list" where
  "add_apply ts r = (case r of RTodo (TodoData t) \<Rightarrow> ts @ [t] | _ \<Rightarrow> ts)"

definition addTodo ::
  "server_env \<Rightarrow> nat \<Rightarrow> db \<Rightarrow> client \<Rightarrow> string \<Rightarrow> string \<Rightarrow> string \<Rightarrow> string \<Rightarrow> client \<times> db" where
  "addTodo E now s cl ti de ur dd =
     (case user cl of
        None \<Rightarrow> (cl, s)
      | Some _ \<Rightarrow>
          (let (r, s') = app E now s (TodoReq (CreateTodo (bearer cl)
                 \<lparr>body_title = Some ti, body_description = Some de, body_urgency = Some ur,
                  body_dueDate = Some dd, body_id = None\<rparr>))
           in (cl\<lparr>client_todos := add_apply (client_todos cl) r\<rparr>, s')))"

text \<open>\<open>setTodos((prev) => prev.map((todo) => (todo.id === id ? json.data : todo)))\<close>,
  for update and for toggle.\<close>

definition replace_apply :: "string \<Rightarrow> todo_doc list \<Rightarrow> reply \<Rightarrow> todo_doc list" where
  "replace_apply sid ts r =
     (case r of
        RTodo (TodoData t) \<Rightarrow> map (\<lambda>x. if oid_hex (todo_id x) = sid then t else x) ts
      | _ \<Rightarrow> ts)"

definition updateTodo_client ::
  "server_env \<Rightarrow> nat \<Rightarrow> db \<Rightarrow> client \<Rightarrow> string \<Rightarrow> string \<Rightarrow> string \<Rightarrow> string \<Rightarrow> string \<Rightarrow> client \<times> db" where
  "updateTodo_client E now s cl sid ti de ur dd =
     (case user cl of
        None \<Rightarrow> (cl, s)
      | Some _ \<Rightarrow>
          (let (r, s') = app E now s (TodoReq (UpdateTodo (bearer cl)
                 \<lparr>body_title = Some ti, body_description = Some de, body_urgency = Some ur,
                  body_dueDate = Some dd, body_id = Some sid\<rparr>))
           in (cl\<lparr>client_todos := replace_apply sid (client_todos cl) r\<rparr>, s')))"

text \<open>\<open>setTodos((prev) => prev.filter((todo) => todo.id !== id))\<close> unless
  \<open>result.error\<close>.\<close>

definition remove_apply :: "string \<Rightarrow> todo_doc list \<Rightarrow> reply \<Rightarrow> todo_doc list" where
  "remove_apply sid ts r =
     (if reply_error r then ts else filter (\<lambda>x. oid_hex (todo_id x) \<noteq> sid) ts)"

definition deleteTodo_client :: "server_env \<Rightarrow> nat \<Rightarrow> db \<Rightarrow> client \<Rightarrow> string \<Rightarrow> client \<times> db" where
  "deleteTodo_client E now s cl sid =
     (case user cl of
        None \<Rightarrow> (cl, s)
      | Some _ \<Rightarrow>
          (let (r, s') = app E now s (TodoReq (DeleteTodo (bearer cl)
                 \<lparr>body_title = None, body_description = None, body_urgency = None,
                  body_dueDate = None, body_id = Some sid\<rparr>))
           in (cl\<lparr>client_todos := remove_apply sid (client_todos cl) r\<rparr>, s')))"

definition toggleTodo_client :: "server_env \<Rightarrow> nat \<Rightarrow> db \<Rightarrow> client \<Rightarrow> string \<Rightarrow> client \<times> db" where
  "toggleTodo_client E now s cl sid =
     (case user cl of
        None \<Rightarrow> (cl, s)
      | Some _ \<Rightarrow>
          (let (r, s') = app E now s (TodoReq (ToggleTodo (bearer cl)
                 \<lparr>body_title = None, body_description = None, body_urgency = None,
                  body_dueDate = None, body_id = Some sid\<rparr>))
           in (cl\<lparr>client_todos := replace_apply sid (client_todos cl) r\<rparr>, s')))"

section \<open>AuthContext\<close>

text \<open>\<open>login\<close>: on \<open>json.data\<close>, \<open>setUser\<close> and store the token.\<close>

definition login_client ::
  "server_env \<Rightarrow> nat \<Rightarrow> db \<Rightarrow> client \<Rightarrow> string \<Rightarrow> string \<Rightarrow> (client \<times> bool) \<times> db" where
  "login_client E now s cl u pw =
     (let (r, s') = app E now s (AuthReq (Login \<lparr>body_username = Some u, body_password = Some pw,
                                                 body_fullname = None\<rparr>))
      in (case r of
            RAuth (AuthData a) \<Rightarrow> ((cl\<lparr>user := Some a, stored_token := Some (auth_token a)\<rparr>, True), s')
          | _ \<Rightarrow> ((cl, False), s')))"

text \<open>\<open>signup\<close>: on \<open>json.error\<close> answer false, otherwise take \<open>json.data\<close>.\<close>

definition signup_client ::
  "server_env \<Rightarrow> nat \<Rightarrow> salt \<Rightarrow> db \<Rightarrow> client \<Rightarrow> string \<Rightarrow> string \<Rightarrow> string \<Rightarrow> (client \<times> bool) \<times> db" where
  "signup_client E now salt s cl fn u pw =
     (let (r, s') = app E now s (AuthReq (Signup \<lparr>body_username = Some u, body_password = Some pw,
                                                  body_fullname = Some fn\<rparr> salt))
      in (case r of
            RAuth (AuthData a) \<Rightarrow> ((cl\<lparr>user := Some a, stored_token := Some (auth_token a)\<rparr>, True), s')
          | _ \<Rightarrow> ((cl, False), s')))"

definition logout_client :: "client \<Rightarrow> client" where
  "logout_client cl = cl\<lparr>user := None, stored_token := None\<rparr>"

text \<open>The effect on mount: a stored token is sent to \<open>/v1/auth/info\<close>, and the profile
  answered becomes the user, with that token.\<close>

definition restore_session :: "server_env \<Rightarrow> nat \<Rightarrow> db \<Rightarrow> client \<Rightarrow> client" where
  "restore_session E now s cl =
     (case stored_token cl of
        None \<Rightarrow> cl
      | Some tok \<Rightarrow>
          (case fst (app E now s (AuthReq (Info (Some tok)))) of
             RAuth (InfoData p) \<Rightarrow>
               cl\<lparr>user := Some \<lparr>info_id = info_id p, info_username = info_username p,
                                 info_fullname = info_fullname p, auth_token = tok\<rparr>\<rparr>
           | _ \<Rightarrow> cl))"

section \<open>The pages and the server in step\<close>

text \<open>
  The browser is in step with the server when it holds a token the server accepts,
  for a non-empty user name, and shows exactly that user's tasks as the server
  stores them. A page action is one context call; the ids a page passes are those
  of the tasks it shows (\<open>TodoItem\<close> calls \<open>toggleTodo(todo.id)\<close> and so on).
\<close>

definition client_synced :: "server_env \<Rightarrow> db \<Rightarrow> client \<Rightarrow> bool" where
  "client_synced E s cl \<longleftrightarrow>
     (case decode_token (bearer cl) (server_secret E) of
        Inl _ \<Rightarrow> False
      | Inr c \<Rightarrow> claim_username c \<noteq> [] \<and> client_todos cl = getUserTodos s (claim_username c))"

datatype ui_action =
    UiFetch
  | UiAdd string string string string
  | UiEdit string string string string string
  | UiRemove string
  | UiToggle string

fun ui_step :: "server_env \<Rightarrow> nat \<Rightarrow> db \<Rightarrow> client \<Rightarrow> ui_action \<Rightarrow> client \<times> db" where
  "ui_step E now s cl UiFetch = fetchTodos E now s cl"
| "ui_step E now s cl (UiAdd ti de ur dd) = addTodo E now s cl ti de ur dd"
| "ui_step E now s cl (UiEdit sid ti de ur dd) = updateTodo_client E now s cl sid ti de ur dd"
| "ui_step E now s cl (UiRemove sid) = deleteTodo_client E now s cl sid"
| "ui_step E now s cl (UiToggle sid) = toggleTodo_client E now s cl sid"

fun ui_id_ok :: "client \<Rightarrow> ui_action \<Rightarrow> bool" where
  "ui_id_ok cl (UiEdit sid _ _ _ _) = list_ex (\<lambda>t. oid_hex (todo_id t) = sid) (client_todos cl)"
| "ui_id_ok cl (UiRemove sid) = list_ex (\<lambda>t. oid_hex (todo_id t) = sid) (client_todos cl)"
| "ui_id_ok cl (UiToggle sid) = list_ex (\<lambda>t. oid_hex (todo_id t) = sid) (client_todos cl)"
| "ui_id_ok cl _ = True"

fun ui_run :: "server_env \<Rightarrow> nat \<Rightarrow> db \<Rightarrow> client \<Rightarrow> ui_action list \<Rightarrow> client \<times> db" where
  "ui_run E now s cl [] = (cl, s)"
| "ui_run E now s cl (a # as) = (case ui_step E now s cl a of (cl', s') \<Rightarrow> ui_run E now s' cl' as)"

fun ui_run_ok :: "server_env \<Rightarrow> nat \<Rightarrow> db \<Rightarrow> client \<Rightarrow> ui_action list \<Rightarrow> bool" where
  "ui_run_ok E now s cl [] = True"
| "ui_run_ok E now s cl (a # as) =
     (ui_id_ok cl a \<and> (case ui_step E now s cl a of (cl', s') \<Rightarrow> ui_run_ok E now s' cl' as))"

section \<open>Lemmas\<close>

lemma synced_claims:
  "client_synced E s cl \<longleftrightarrow>
     (\<exists>c. decode_token (bearer cl) (server_secret E) = Inr c \<and> claim_username c \<noteq> []
        \<and> client_todos cl = getUserTodos s (claim_username c))"
  by (auto simp: client_synced_def split: sum.splits)

lemma bearer_user: "decode_token (bearer cl) k = Inr c \<Longrightarrow> \<exists>usr. user cl = Some usr"
  by (cases "user cl") (auto simp: bearer_def decode_token_def)

lemma bearer_todos [simp]: "bearer (cl\<lparr>client_todos := ts\<rparr>) = bearer cl"
  by (simp add: bearer_def)

lemma synced_todos:
  "client_synced E s' (cl\<lparr>client_todos := ts\<rparr>) \<longleftrightarrow>
     (case decode_token (bearer cl) (server_secret E) of
        Inl _ \<Rightarrow> False
      | Inr c \<Rightarrow> claim_username c \<noteq> [] \<and> ts = getUserTodos s' (claim_username c))"
  by (auto simp: client_synced_def split: sum.splits)

text \<open>Behind a verified token, each route runs its controller with the token's claims.\<close>

lemma app_todo_verified:
  assumes "decode_token h (server_secret E) = Inr c"
  shows "app E now s (TodoReq (MyTodos h)) = (RTodo (getTodos s c), s)"
    and "app E now s (TodoReq (CreateTodo h b)) =
           (let (a, s') = createTodo (parse_date E) s c b in (RTodo a, s'))"
    and "app E now s (TodoReq (UpdateTodo h b)) =
           (let (a, s') = updateTodo (parse_date E) s c b in (RTodo a, s'))"
    and "app E now s (TodoReq (DeleteTodo h b)) = (let (a, s') = deleteTodo s c b in (RTodo a, s'))"
    and "app E now s (TodoReq (ToggleTodo h b)) =
           (let (a, s') = toggleTodoCompletion s c b in (RTodo a, s'))"
  using assms by (simp_all add: app_def todoRouter_def verifyToken_def)

text \<open>Each controller either answers an error and leaves the store, or answers its
  service's result.\<close>

lemma createTodo_cases:
  "createTodo pd s c b = (a, s') \<Longrightarrow> (\<exists>e. a = TodoError e \<and> s' = s) \<or>
     (\<exists>t. a = TodoData t \<and> createTodoService pd s (claim_username c) (field_str (body_title b))
            (field_str (body_dueDate b)) (field_str (body_urgency b)) (body_description b) = Inr (t, s'))"
  by (auto simp: createTodo_def split: if_splits sum.splits)

lemma updateTodo_cases:
  "updateTodo pd s c b = (a, s') \<Longrightarrow> (\<exists>e. a = TodoError e \<and> s' = s) \<or>
     (\<exists>t. a = TodoData t \<and> updateTodoService pd s (claim_username c) (field_str (body_id b))
            (field_str (body_title b)) (field_str (body_dueDate b)) (field_str (body_urgency b))
            (body_description b) = Inr (t, s'))"
  by (auto simp: updateTodo_def split: if_splits sum.splits)

lemma deleteTodo_cases:
  "deleteTodo s c b = (a, s') \<Longrightarrow> (\<exists>e. a = TodoError e \<and> s' = s) \<or>
     (\<exists>t. a = TodoSuccess \<and> deleteTodoService s (claim_username c) (field_str (body_id b)) = Inr (t, s'))"
  by (auto simp: deleteTodo_def split: if_splits sum.splits)

lemma toggleTodoCompletion_cases:
  "toggleTodoCompletion s c b = (a, s') \<Longrightarrow> (\<exists>e. a = TodoError e \<and> s' = s) \<or>
     (\<exists>t. a = TodoData t \<and> toggleCompletion s (claim_username c) (field_str (body_id b)) = Inr (t, s'))"
  by (auto simp: toggleTodoCompletion_def split: if_splits sum.splits)

lemma todo_id_bound: "db_wf s \<Longrightarrow> x \<in> set (todos s) \<Longrightarrow> todo_id x < next_oid s"
  by (auto simp: db_wf_def all_ids_def list_all_iff)

lemma view_oid_hex_eq:
  assumes "db_wf s" and "next_oid s \<le> 16 ^ 24" and "x \<in> set (todos s)" and "y \<in> set (todos s)"
  shows "oid_hex (todo_id x) = oid_hex (todo_id y) \<longleftrightarrow> todo_id x = todo_id y"
proof -
  have "todo_id x < 16 ^ 24" "todo_id y < 16 ^ 24"
    using assms todo_id_bound [OF assms(1)] by (auto intro: less_le_trans)
  then show ?thesis by (rule oid_hex_inj)
qed

text \<open>A task the page shows is named by a string the server casts back to its id.\<close>

lemma shown_id_cast:
  assumes "db_wf s" and "next_oid s \<le> 16 ^ 24" and "t \<in> set (getUserTodos s u)"
  shows "cast_oid (oid_hex (todo_id t)) = Some (todo_id t)" and "t \<in> set (todos s)"
proof -
  show t: "t \<in> set (todos s)" using assms(3) by (simp add: getUserTodos_def todo_find_def)
  have "todo_id t < 16 ^ 24" using todo_id_bound [OF assms(1) t] assms(2) by linarith
  then show "cast_oid (oid_hex (todo_id t)) = Some (todo_id t)" by (rule cast_oid_oid_hex)
qed

text \<open>The server's view of a user's tasks after an update or a delete by the filter
  \<open>{ _id, username }\<close> is the page's \<open>map\<close> or \<open>filter\<close> by the id string.\<close>

lemma view_update_first:
  assumes wf: "db_wf s" and bound: "next_oid s \<le> 16 ^ 24"
    and find: "find (todo_match i u) (todos s) = Some t0" and own: "owner (f t0) = u"
  shows "getUserTodos (s\<lparr>todos := update_first (todo_match i u) f (todos s)\<rparr>) u =
           map (\<lambda>x. if oid_hex (todo_id x) = oid_hex i then f t0 else x) (getUserTodos s u)"
proof -
  from find have t0: "t0 \<in> set (todos s)" "todo_id t0 = i" "owner t0 = u"
    by (auto dest: find_Some_in simp: todo_match_def)
  have "filter (\<lambda>t. owner t = u) (update_first (todo_match i u) f (todos s)) =
        map (\<lambda>y. if todo_id y = todo_id t0 then f t0 else y) (filter (\<lambda>t. owner t = u) (todos s))"
    by (rule filter_update_first_key [OF db_wf_distinct_todo_ids [OF wf] find])
      (auto simp: todo_match_def t0 own)
  also have "\<dots> = map (\<lambda>x. if oid_hex (todo_id x) = oid_hex i then f t0 else x)
                    (filter (\<lambda>t. owner t = u) (todos s))"
    using view_oid_hex_eq [OF wf bound _ t0(1)] t0(2) by (auto intro: map_cong)
  finally show ?thesis by (simp add: getUserTodos_def todo_find_def)
qed

lemma view_delete_first:
  assumes wf: "db_wf s" and bound: "next_oid s \<le> 16 ^ 24"
    and find: "find (todo_match i u) (todos s) = Some t0"
  shows "getUserTodos (s\<lparr>todos := delete_first (todo_match i u) (todos s)\<rparr>) u =
           filter (\<lambda>x. oid_hex (todo_id x) \<noteq> oid_hex i) (getUserTodos s u)"
proof -
  from find have t0: "t0 \<in> set (todos s)" "todo_id t0 = i"
    by (auto dest: find_Some_in simp: todo_match_def)
  have "filter (\<lambda>t. owner t = u) (delete_first (todo_match i u) (todos s)) =
        filter (\<lambda>y. todo_id y \<noteq> todo_id t0) (filter (\<lambda>t. owner t = u) (todos s))"
    by (rule filter_delete_first_key [OF db_wf_distinct_todo_ids [OF wf] find])
      (simp add: todo_match_def t0)
  also have "\<dots> = filter (\<lambda>x. oid_hex (todo_id x) \<noteq> oid_hex i) (filter (\<lambda>t. owner t = u) (todos s))"
    using view_oid_hex_eq [OF wf bound _ t0(1)] t0(2) by (auto intro: filter_cong)
  finally show ?thesis by (simp add: getUserTodos_def todo_find_def)
qed

text \<open>One round trip of each context function, from a page in step with the server.\<close>

lemma updateTodo_client_sync:
  assumes wf: "db_wf s" and bound: "next_oid s \<le> 16 ^ 24" and sync: "client_synced E s cl"
    and shown: "t \<in> set (client_todos cl)"
    and run: "updateTodo_client E now s cl (oid_hex (todo_id t)) ti de ur dd = (cl', s')"
  shows "client_synced E s' cl' \<and> db_wf s' \<and> next_oid s' = next_oid s"
proof -
  let ?sid = "oid_hex (todo_id t)"
  from sync obtain c where tok: "decode_token (bearer cl) (server_secret E) = Inr c"
    and view: "client_todos cl = getUserTodos s (claim_username c)" and u: "claim_username c \<noteq> []"
    by (auto simp: synced_claims)
  let ?u = "claim_username c"
  from shown view have cast: "cast_oid ?sid = Some (todo_id t)"
    using shown_id_cast [OF wf bound] by simp
  obtain usr where "user cl = Some usr" using bearer_user [OF tok] by blast
  then obtain a where ctl: "updateTodo (parse_date E) s c
      \<lparr>body_title = Some ti, body_description = Some de, body_urgency = Some ur,
       body_dueDate = Some dd, body_id = Some ?sid\<rparr> = (a, s')"
    and cl': "cl' = cl\<lparr>client_todos := replace_apply ?sid (client_todos cl) (RTodo a)\<rparr>"
    using run by (auto simp: updateTodo_client_def app_todo_verified [OF tok] split: prod.splits)
  from updateTodo_cases [OF ctl]
  have "(\<exists>e. a = TodoError e \<and> s' = s) \<or>
        (\<exists>t'. a = TodoData t' \<and> updateTodoService (parse_date E) s ?u ?sid ti dd ur (Some de) = Inr (t', s'))"
    by (simp add: field_str_def)
  then show ?thesis
  proof
    assume "\<exists>e. a = TodoError e \<and> s' = s"
    with cl' tok view u wf show ?thesis by (auto simp: replace_apply_def synced_todos)
  next
    assume "\<exists>t'. a = TodoData t' \<and> updateTodoService (parse_date E) s ?u ?sid ti dd ur (Some de) = Inr (t', s')"
    then obtain t' where a: "a = TodoData t'"
      and svc: "updateTodoService (parse_date E) s ?u ?sid ti dd ur (Some de) = Inr (t', s')"
      by blast
    then obtain i due t0 where "cast_oid ?sid = Some i"
      and find: "find (todo_match i ?u) (todos s) = Some t0"
      and t': "t' = todo_set_fields (js_trim ti) (trim_or_empty (Some de)) ur due t0"
      and s': "s' = s\<lparr>todos := update_first (todo_match i ?u)
                 (todo_set_fields (js_trim ti) (trim_or_empty (Some de)) ur due) (todos s)\<rparr>"
      by (auto simp: updateTodoService_Inr)
    with cast have i: "i = todo_id t" by simp
    from find have "owner t0 = ?u" by (auto dest: find_Some_in simp: todo_match_def)
    then have "getUserTodos s' ?u = map (\<lambda>x. if oid_hex (todo_id x) = ?sid then t' else x) (getUserTodos s ?u)"
      using view_update_first [OF wf bound find] s' t' i by (simp add: todo_set_fields_def)
    moreover have "db_wf s'" using updateTodoService_wf [OF wf svc] .
    ultimately show ?thesis
      using cl' a tok view u s' by (simp add: replace_apply_def synced_todos)
  qed
qed

lemma toggleTodo_client_sync:
  assumes wf: "db_wf s" and bound: "next_oid s \<le> 16 ^ 24" and sync: "client_synced E s cl"
    and shown: "t \<in> set (client_todos cl)"
    and run: "toggleTodo_client E now s cl (oid_hex (todo_id t)) = (cl', s')"
  shows "client_synced E s' cl' \<and> db_wf s' \<and> next_oid s' = next_oid s"
proof -
  let ?sid = "oid_hex (todo_id t)"
  from sync obtain c where tok: "decode_token (bearer cl) (server_secret E) = Inr c"
    and view: "client_todos cl = getUserTodos s (claim_username c)" and u: "claim_username c \<noteq> []"
    by (auto simp: synced_claims)
  let ?u = "claim_username c"
  from shown view have cast: "cast_oid ?sid = Some (todo_id t)"
    using shown_id_cast [OF wf bound] by simp
  obtain usr where "user cl = Some usr" using bearer_user [OF tok] by blast
  then obtain a where ctl: "toggleTodoCompletion s c
      \<lparr>body_title = None, body_description = None, body_urgency = None,
       body_dueDate = None, body_id = Some ?sid\<rparr> = (a, s')"
    and cl': "cl' = cl\<lparr>client_todos := replace_apply ?sid (client_todos cl) (RTodo a)\<rparr>"
    using run by (auto simp: toggleTodo_client_def app_todo_verified [OF tok] split: prod.splits)
  from toggleTodoCompletion_cases [OF ctl]
  have "(\<exists>e. a = TodoError e \<and> s' = s) \<or>
        (\<exists>t'. a = TodoData t' \<and> toggleCompletion s ?u ?sid = Inr (t', s'))"
    by (simp add: field_str_def)
  then show ?thesis
  proof
    assume "\<exists>e. a = TodoError e \<and> s' = s"
    with cl' tok view u wf show ?thesis by (auto simp: replace_apply_def synced_todos)
  next
    assume "\<exists>t'. a = TodoData t' \<and> toggleCompletion s ?u ?sid = Inr (t', s')"
    then obtain t' where a: "a = TodoData t'" and svc: "toggleCompletion s ?u ?sid = Inr (t', s')"
      by blast
    then obtain i t0 where "cast_oid ?sid = Some i"
      and find: "find (todo_match i ?u) (todos s) = Some t0"
      and t': "t' = t0\<lparr>completed := \<not> completed t0\<rparr>"
      and s': "s' = s\<lparr>todos := update_first (\<lambda>d. todo_id d = todo_id t')
                 (\<lambda>d. d\<lparr>completed := completed t'\<rparr>) (todos s)\<rparr>"
      by (auto simp: toggleCompletion_Inr toggle_read_Inr toggle_write_Inr)
    with cast have i: "i = todo_id t" by simp
    let ?f = "\<lambda>d. d\<lparr>completed := completed t'\<rparr>"
    have "update_first (\<lambda>d. todo_id d = todo_id t') ?f (todos s) =
          update_first (todo_match i ?u) ?f (todos s)"
      by (rule update_first_cong) (use todo_match_agree [OF wf find] t' in simp)
    with s' have s'': "s' = s\<lparr>todos := update_first (todo_match i ?u) ?f (todos s)\<rparr>" by simp
    from find have "owner t0 = ?u" by (auto dest: find_Some_in simp: todo_match_def)
    then have "getUserTodos s' ?u = map (\<lambda>x. if oid_hex (todo_id x) = ?sid then t' else x) (getUserTodos s ?u)"
      using view_update_first [OF wf bound find, of ?f] s'' t' i by simp
    moreover have "db_wf s'" using svc wf by (auto simp: toggleCompletion_Inr intro: toggle_write_wf)
    ultimately show ?thesis
      using cl' a tok view u s' by (simp add: replace_apply_def synced_todos)
  qed
qed

lemma deleteTodo_client_sync:
  assumes wf: "db_wf s" and bound: "next_oid s \<le> 16 ^ 24" and sync: "client_synced E s cl"
    and shown: "t \<in> set (client_todos cl)"
    and run: "deleteTodo_client E now s cl (oid_hex (todo_id t)) = (cl', s')"
  shows "client_synced E s' cl' \<and> db_wf s' \<and> next_oid s' = next_oid s"
proof -
  let ?sid = "oid_hex (todo_id t)"
  from sync obtain c where tok: "decode_token (bearer cl) (server_secret E) = Inr c"
    and view: "client_todos cl = getUserTodos s (claim_username c)" and u: "claim_username c \<noteq> []"
    by (auto simp: synced_claims)
  let ?u = "claim_username c"
  from shown view have cast: "cast_oid ?sid = Some (todo_id t)"
    using shown_id_cast [OF wf bound] by simp
  obtain usr where "user cl = Some usr" using bearer_user [OF tok] by blast
  then obtain a where ctl: "deleteTodo s c
      \<lparr>body_title = None, body_description = None, body_urgency = None,
       body_dueDate = None, body_id = Some ?sid\<rparr> = (a, s')"
    and cl': "cl' = cl\<lparr>client_todos := remove_apply ?sid (client_todos cl) (RTodo a)\<rparr>"
    using run by (auto simp: deleteTodo_client_def app_todo_verified [OF tok] split: prod.splits)
  from deleteTodo_cases [OF ctl]
  have "(\<exists>e. a = TodoError e \<and> s' = s) \<or>
        (\<exists>t'. a = TodoSuccess \<and> deleteTodoService s ?u ?sid = Inr (t', s'))"
    by (simp add: field_str_def)
  then show ?thesis
  proof
    assume "\<exists>e. a = TodoError e \<and> s' = s"
    with cl' tok view u wf show ?thesis by (auto simp: remove_apply_def synced_todos)
  next
    assume "\<exists>t'. a = TodoSuccess \<and> deleteTodoService s ?u ?sid = Inr (t', s')"
    then obtain t' where a: "a = TodoSuccess" and svc: "deleteTodoService s ?u ?sid = Inr (t', s')"
      by blast
    then obtain i where "cast_oid ?sid = Some i"
      and find: "find (todo_match i ?u) (todos s) = Some t'"
      and s': "s' = s\<lparr>todos := delete_first (todo_match i ?u) (todos s)\<rparr>"
      by (auto simp: deleteTodoService_Inr)
    with cast have i: "i = todo_id t" by simp
    have "getUserTodos s' ?u = filter (\<lambda>x. oid_hex (todo_id x) \<noteq> ?sid) (getUserTodos s ?u)"
      using view_delete_first [OF wf bound find] s' i by simp
    moreover have "db_wf s'" using deleteTodoService_wf [OF wf svc] .
    ultimately show ?thesis
      using cl' a tok view u s' by (simp add: remove_apply_def synced_todos)
  qed
qed

lemma addTodo_sync:
  assumes wf: "db_wf s" and sync: "client_synced E s cl"
    and run: "addTodo E now s cl ti de ur dd = (cl', s')"
  shows "client_synced E s' cl' \<and> db_wf s' \<and> next_oid s' \<le> Suc (next_oid s)"
proof -
  from sync obtain c where tok: "decode_token (bearer cl) (server_secret E) = Inr c"
    and view: "client_todos cl = getUserTodos s (claim_username c)" and u: "claim_username c \<noteq> []"
    by (auto simp: synced_claims)
  let ?u = "claim_username c"
  obtain usr where "user cl = Some usr" using bearer_user [OF tok] by blast
  then obtain a where ctl: "createTodo (parse_date E) s c
      \<lparr>body_title = Some ti, body_description = Some de, body_urgency = Some ur,
       body_dueDate = Some dd, body_id = None\<rparr> = (a, s')"
    and cl': "cl' = cl\<lparr>client_todos := add_apply (client_todos cl) (RTodo a)\<rparr>"
    using run by (auto simp: addTodo_def app_todo_verified [OF tok] split: prod.splits)
  from createTodo_cases [OF ctl]
  have "(\<exists>e. a = TodoError e \<and> s' = s) \<or>
        (\<exists>t. a = TodoData t \<and> createTodoService (parse_date E) s ?u ti dd ur (Some de) = Inr (t, s'))"
    by (simp add: field_str_def)
  then show ?thesis
  proof
    assume "\<exists>e. a = TodoError e \<and> s' = s"
    with cl' tok view u wf show ?thesis by (auto simp: add_apply_def synced_todos)
  next
    assume "\<exists>t. a = TodoData t \<and> createTodoService (parse_date E) s ?u ti dd ur (Some de) = Inr (t, s')"
    then obtain t where a: "a = TodoData t"
      and svc: "createTodoService (parse_date E) s ?u ti dd ur (Some de) = Inr (t, s')"
      by blast
    then have "owner t = ?u" and s': "s' = s\<lparr>todos := todos s @ [t], next_oid := Suc (next_oid s)\<rparr>"
      by (auto simp: createTodoService_def todo_create_Inr)
    then have "getUserTodos s' ?u = getUserTodos s ?u @ [t]"
      by (simp add: getUserTodos_def todo_find_def)
    moreover have "db_wf s'" using createTodoService_wf [OF wf svc] .
    ultimately show ?thesis
      using cl' a tok view u s' by (simp add: add_apply_def synced_todos)
  qed
qed

text \<open>Fetching puts any signed-in page in step, whatever it showed before.\<close>

lemma fetchTodos_sync:
  assumes tok: "decode_token (bearer cl) (server_secret E) = Inr c" and u: "claim_username c \<noteq> []"
    and run: "fetchTodos E now s cl = (cl', s')"
  shows "client_synced E s' cl' \<and> s' = s"
proof -
  obtain usr where "user cl = Some usr" using bearer_user [OF tok] by blast
  with run tok u show ?thesis
    by (auto simp: fetchTodos_def app_todo_verified [OF tok] getTodos_def fetch_apply_def synced_todos)
qed

lemma shown_id:
  "list_ex (\<lambda>t. oid_hex (todo_id t) = sid) ts \<Longrightarrow> \<exists>t\<in>set ts. sid = oid_hex (todo_id t)"
  by (auto simp: list_ex_iff)

lemma ui_step_sync:
  assumes wf: "db_wf s" and bound: "next_oid s < 16 ^ 24" and sync: "client_synced E s cl"
    and ok: "ui_id_ok cl a" and run: "ui_step E now s cl a = (cl', s')"
  shows "client_synced E s' cl' \<and> db_wf s' \<and> next_oid s' \<le> Suc (next_oid s)"
proof (cases a)
  case UiFetch
  from sync obtain c where "decode_token (bearer cl) (server_secret E) = Inr c"
    and "claim_username c \<noteq> []" by (auto simp: synced_claims)
  with run UiFetch wf show ?thesis using fetchTodos_sync by fastforce
next
  case (UiAdd ti de ur dd)
  with addTodo_sync [OF wf sync] run show ?thesis by simp
next
  case (UiEdit sid ti de ur dd)
  with ok obtain t where "t \<in> set (client_todos cl)" and "sid = oid_hex (todo_id t)"
    by (auto dest: shown_id)
  with updateTodo_client_sync [OF wf _ sync] bound run UiEdit show ?thesis by simp
next
  case (UiRemove sid)
  with ok obtain t where "t \<in> set (client_todos cl)" and "sid = oid_hex (todo_id t)"
    by (auto dest: shown_id)
  with deleteTodo_client_sync [OF wf _ sync] bound run UiRemove show ?thesis by simp
next
  case (UiToggle sid)
  with ok obtain t where "t \<in> set (client_todos cl)" and "sid = oid_hex (todo_id t)"
    by (auto dest: shown_id)
  with toggleTodo_client_sync [OF wf _ sync] bound run UiToggle show ?thesis by simp
qed

section \<open>Properties of the browser and the server together\<close>

text \<open>
  C16. The task list the pages show stays equal to the server's: from a page in step
  with a well-formed store, every sequence of page actions (fetch, add, edit, delete,
  toggle, each on a task the page shows, requests answered one at a time) leaves the
  page showing exactly the signed-in user's tasks in store order, and the store well
  formed, whatever each request answers, errors included. The ObjectId counter must
  stay within the 24 hex digits of an id.
\<close>

theorem ui_run_synced:
  assumes "db_wf s" and "next_oid s + length as \<le> 16 ^ 24" and "client_synced E s cl"
    and "ui_run_ok E now s cl as" and "ui_run E now s cl as = (cl', s')"
  shows "client_synced E s' cl' \<and> db_wf s'"
  using assms
proof (induction as arbitrary: s cl)
  case Nil
  then show ?case by simp
next
  case (Cons a as)
  obtain cl1 s1 where step: "ui_step E now s cl a = (cl1, s1)" by fastforce
  have "next_oid s < 16 ^ 24" using Cons.prems(2) by simp
  with Cons.prems step have "client_synced E s1 cl1 \<and> db_wf s1 \<and> next_oid s1 \<le> Suc (next_oid s)"
    by (intro ui_step_sync) auto
  with Cons.prems step show ?case by (intro Cons.IH [of s1 cl1]) auto
qed

end
