(* ===== verification/View.thy ===== *)
theory View
  imports Client "HOL-Library.Multiset" "HOL-Library.Product_Lexorder"
begin

text \<open>
  What the pages compute from the client's state:
  \<open>src/frontend/src/components/TodoList.tsx\<close> (the order of the list, and which tasks
  are marked expired), \<open>src/frontend/src/components/Dashboard.tsx\<close> (the three
  counters) and \<open>src/frontend/src/components/ChatBot.tsx\<close> (the chat window and its
  request to \<open>/v1/llm/chat\<close>). The page shows \<open>dueDate\<close> as the ISO string the server
  answered; \<open>new Date(dueDate).getTime()\<close> reads back the stored milliseconds, which is
  the \<open>dueDate\<close> of the model. The clock \<open>new Date()\<close> is a parameter.

  \<open>Array.prototype.sort\<close> is stable (ES2019); for a comparator that is consistent, every
  stable sort gives the same result, which \<open>js_sort\<close> computes by insertion. For a
  comparator that is not consistent the order is implementation-defined, and no
  property below depends on \<open>js_sort\<close> there.
\<close>

section \<open>Sorting the list\<close>

text \<open>\<open>compareFn(a, b) > 0\<close> sorts \<open>b\<close> before \<open>a\<close>; a later element goes after the
  equal ones.\<close>

fun js_insert :: "('a \<Rightarrow> 'a \<Rightarrow> int) \<Rightarrow> 'a \<Rightarrow> 'a list \<Rightarrow> 'a list" where
  "js_insert cmp x [] = [x]"
| "js_insert cmp x (y # ys) = (if 0 < cmp y x then x # y # ys else y # js_insert cmp x ys)"

definition js_sort :: "('a \<Rightarrow> 'a \<Rightarrow> int) \<Rightarrow> 'a list \<Rightarrow> 'a list" where
  "js_sort cmp xs = foldl (\<lambda>acc x. js_insert cmp x acc) [] xs"

text \<open>\<open>priorityOrder\<close>; another urgency reads \<open>undefined\<close>.\<close>

definition priority_order :: "string \<Rightarrow> int option" where
  "priority_order u =
     (if u = ''important'' then Some 3 else if u = ''normal'' then Some 2
      else if u = ''not important'' then Some 1 else None)"

text \<open>The comparator of \<open>sortedTodos\<close>. A difference with \<open>undefined\<close> is \<open>NaN\<close>,
  which is returned (\<open>NaN !== 0\<close>) and which the sort reads as \<open>+0\<close>.\<close>

definition todo_compare :: "todo_doc \<Rightarrow> todo_doc \<Rightarrow> int" where
  "todo_compare a b =
     (if completed a \<noteq> completed b then (if completed a then 1 else -1)
      else (case (priority_order (urgency b), priority_order (urgency a)) of
              (Some pb, Some pa) \<Rightarrow> if pb - pa \<noteq> 0 then pb - pa else dueDate a - dueDate b
            | _ \<Rightarrow> 0))"

definition sortedTodos :: "todo_doc list \<Rightarrow> todo_doc list" where
  "sortedTodos todos0 = js_sort todo_compare todos0"

text \<open>The order the comparator means: incomplete first, then by decreasing priority,
  then by due date.\<close>

definition todo_key :: "todo_doc \<Rightarrow> bool \<times> int \<times> int" where
  "todo_key t = (completed t, - (case priority_order (urgency t) of Some p \<Rightarrow> p | None \<Rightarrow> 0), dueDate t)"

definition isExpired :: "int \<Rightarrow> todo_doc \<Rightarrow> bool" where
  "isExpired now t = (if completed t then False else dueDate t < now)"

section \<open>The dashboard\<close>

definition completedTasks :: "todo_doc list \<Rightarrow> nat" where
  "completedTasks todos0 = length (filter completed todos0)"

definition pendingTasks :: "todo_doc list \<Rightarrow> nat" where
  "pendingTasks todos0 = length (filter (\<lambda>t. \<not> completed t) todos0)"

definition overdueTasks :: "int \<Rightarrow> todo_doc list \<Rightarrow> nat" where
  "overdueTasks now todos0 = length (filter (\<lambda>t. \<not> completed t \<and> dueDate t < now) todos0)"

section \<open>The chat window\<close>

record chat_ui =
  ui_messages :: "(string \<times> bool) list"
  ui_input :: string

definition chat_welcome :: string where
  "chat_welcome = ''Hi! I'm your TaskFlow assistant. How can I help you today?''"

definition chat_ui_init :: chat_ui where
  "chat_ui_init = \<lparr>ui_messages = [(chat_welcome, True)], ui_input = []\<rparr>"

text \<open>\<open>{ isHuman: !msg.isBot, text: msg.text }\<close>.\<close>

definition msg_json :: "string \<times> bool \<Rightarrow> json" where
  "msg_json m = JObj [(''isHuman'', JBool (\<not> snd m)), (''text'', JStr (fst m))]"

text \<open>\<open>xs.slice(-n)\<close>.\<close>

definition js_slice_last :: "nat \<Rightarrow> 'a list \<Rightarrow> 'a list" where
  "js_slice_last n xs = drop (length xs - n) xs"

definition chat_window :: "(string \<times> bool) list \<Rightarrow> string \<Rightarrow> json list" where
  "chat_window msgs um = js_slice_last 5 (map msg_json msgs @ [msg_json (um, False)])"

text \<open>\<open>json?.data || "Sorry, cannot process that."\<close>\<close>

definition chat_content :: "reply \<Rightarrow> string" where
  "chat_content r =
     (case r of
        RChat (ChatData d) \<Rightarrow> if d = [] then ''Sorry, cannot process that.'' else d
      | _ \<Rightarrow> ''Sorry, cannot process that.'')"

text \<open>\<open>handleSendMessage\<close>. The list is sent as the page holds it; \<open>tj\<close> is the JSON of
  a task. Without a signed-in user, \<open>user.token\<close> throws inside the \<open>try\<close>, and the
  \<open>catch\<close> appends its message.\<close>

definition handleSendMessage ::
  "server_env \<Rightarrow> nat \<Rightarrow> db \<Rightarrow> client \<Rightarrow> (todo_doc \<Rightarrow> json) \<Rightarrow> chat_ui \<Rightarrow> chat_ui \<times> db" where
  "handleSendMessage E now s cl tj ui =
     (if js_trim (ui_input ui) = [] then (ui, s)
      else (let um = js_trim (ui_input ui); msgs = ui_messages ui @ [(um, False)] in
            case user cl of
              None \<Rightarrow> (ui\<lparr>ui_messages := msgs @ [(''Error: Unable to reach server.'', True)], ui_input := []\<rparr>, s)
            | Some usr \<Rightarrow>
                (let (r, s') = app E now s (ChatReq (Some (auth_token usr))
                       \<lparr>body_todoList = Some (JArr (map tj (client_todos cl))),
                        body_chats = Some (JArr (chat_window (ui_messages ui) um))\<rparr>)
                 in (ui\<lparr>ui_messages := msgs @ [(chat_content r, True)], ui_input := []\<rparr>, s'))))"

section \<open>Lemmas on the sort\<close>

text \<open>A comparator that agrees with a key on the elements satisfying \<open>P\<close>.\<close>

lemma mset_js_insert [simp]: "mset (js_insert cmp x ys) = add_mset x (mset ys)"
  by (induction ys) auto

lemma set_js_insert [simp]: "set (js_insert cmp x ys) = insert x (set ys)"
  by (induction ys) auto

lemma sorted_js_insert:
  assumes agree: "\<And>a b. P a \<Longrightarrow> P b \<Longrightarrow> (0 < cmp a b) = (key b < key a)"
  shows "P x \<Longrightarrow> \<forall>y\<in>set ys. P y \<Longrightarrow> sorted (map key ys) \<Longrightarrow> sorted (map key (js_insert cmp x ys))"
proof (induction ys)
  case Nil
  then show ?case by simp
next
  case (Cons y ys)
  show ?case
  proof (cases "0 < cmp y x")
    case True
    with agree Cons.prems have "key x < key y" by simp
    with True Cons.prems show ?thesis by (auto intro: order.trans)
  next
    case False
    with agree Cons.prems have "key y \<le> key x" by (simp add: not_less)
    with False Cons show ?thesis by auto
  qed
qed

lemma filter_js_insert:
  assumes agree: "\<And>a b. P a \<Longrightarrow> P b \<Longrightarrow> (0 < cmp a b) = (key b < key a)"
  shows "P x \<Longrightarrow> \<forall>y\<in>set ys. P y \<Longrightarrow> sorted (map key ys) \<Longrightarrow>
    filter (\<lambda>z. k = key z) (js_insert cmp x ys) =
      filter (\<lambda>z. k = key z) ys @ (if k = key x then [x] else [])"
proof (induction ys)
  case Nil
  then show ?case by simp
next
  case (Cons y ys)
  show ?case
  proof (cases "0 < cmp y x")
    case True
    with agree Cons.prems have lt: "key x < key y" by simp
    with Cons.prems(3) have "\<forall>z\<in>set (y # ys). key x < key z" by (auto intro: less_le_trans)
    then have "filter (\<lambda>z. key x = key z) (y # ys) = []" by (auto simp: filter_empty_conv)
    with True show ?thesis by auto
  next
    case False
    have ih: "filter (\<lambda>z. k = key z) (js_insert cmp x ys) =
        filter (\<lambda>z. k = key z) ys @ (if k = key x then [x] else [])"
      using Cons by simp
    show ?thesis by (simp only: js_insert.simps filter.simps ih False if_False) simp
  qed
qed

lemma foldl_js_insert:
  assumes agree: "\<And>a b. P a \<Longrightarrow> P b \<Longrightarrow> (0 < cmp a b) = (key b < key a)"
  shows "\<forall>x\<in>set xs. P x \<Longrightarrow> \<forall>y\<in>set acc. P y \<Longrightarrow> sorted (map key acc) \<Longrightarrow>
    mset (foldl (\<lambda>acc x. js_insert cmp x acc) acc xs) = mset acc + mset xs
    \<and> sorted (map key (foldl (\<lambda>acc x. js_insert cmp x acc) acc xs))
    \<and> (\<forall>k. filter (\<lambda>z. k = key z) (foldl (\<lambda>acc x. js_insert cmp x acc) acc xs) =
            filter (\<lambda>z. k = key z) acc @ filter (\<lambda>z. k = key z) xs)"
proof (induction xs arbitrary: acc)
  case Nil
  then show ?case by simp
next
  case (Cons x xs)
  let ?acc = "js_insert cmp x acc"
  have "P x" using Cons.prems by simp
  have "sorted (map key ?acc)" using sorted_js_insert [where P = P and cmp = cmp and key = key, OF agree \<open>P x\<close>] Cons.prems
    by simp
  moreover have "\<forall>y\<in>set ?acc. P y" using Cons.prems by simp
  ultimately have ih: "mset (foldl (\<lambda>acc x. js_insert cmp x acc) ?acc xs) = mset ?acc + mset xs
    \<and> sorted (map key (foldl (\<lambda>acc x. js_insert cmp x acc) ?acc xs))
    \<and> (\<forall>k. filter (\<lambda>z. k = key z) (foldl (\<lambda>acc x. js_insert cmp x acc) ?acc xs) =
            filter (\<lambda>z. k = key z) ?acc @ filter (\<lambda>z. k = key z) xs)"
    using Cons.IH Cons.prems(1) by simp
  have "filter (\<lambda>z. k = key z) ?acc = filter (\<lambda>z. k = key z) acc @ (if k = key x then [x] else [])" for k
    using filter_js_insert [where P = P and cmp = cmp and key = key, OF agree \<open>P x\<close>] Cons.prems
    by simp
  with ih show ?case by simp
qed

text \<open>With a comparator that agrees with a key, the sort is the library's stable sort by
  that key.\<close>

lemma js_sort_sort_key:
  assumes agree: "\<And>a b. P a \<Longrightarrow> P b \<Longrightarrow> (0 < cmp a b) = (key b < key a)"
    and all: "\<forall>x\<in>set xs. P x"
  shows "js_sort cmp xs = sort_key key xs"
proof -
  note f = foldl_js_insert [where P = P and cmp = cmp and key = key and acc = "[]", OF agree all]
  show ?thesis unfolding js_sort_def
  proof (rule properties_for_sort_key [symmetric])
    show "mset (foldl (\<lambda>acc x. js_insert cmp x acc) [] xs) = mset xs" using f by simp
    show "sorted (map key (foldl (\<lambda>acc x. js_insert cmp x acc) [] xs))" using f by simp
    show "filter (\<lambda>x. key k = key x) (foldl (\<lambda>acc x. js_insert cmp x acc) [] xs) =
          filter (\<lambda>x. key k = key x) xs" for k
      using f by simp
  qed
qed

lemma priority_order_valid:
  "u \<in> set urgency_values \<Longrightarrow> \<exists>p. priority_order u = Some p"
  by (auto simp: urgency_values_def priority_order_def)

lemma priority_order_invalid: "u \<notin> set urgency_values \<Longrightarrow> priority_order u = None"
  by (auto simp: urgency_values_def priority_order_def)

text \<open>On tasks whose urgency is in the enumeration, the comparator agrees with the key.\<close>

lemma todo_compare_key:
  assumes "urgency a \<in> set urgency_values" and "urgency b \<in> set urgency_values"
  shows "(0 < todo_compare a b) = (todo_key b < todo_key a)"
proof -
  obtain pa pb where "priority_order (urgency a) = Some pa" and "priority_order (urgency b) = Some pb"
    using priority_order_valid assms by blast
  then show ?thesis by (auto simp: todo_compare_def todo_key_def)
qed

section \<open>Lemmas on the chat window\<close>

lemma app_chat:
  "app E now s (ChatReq h b) =
     (case decode_token h (server_secret E) of
        Inl _ \<Rightarrow> (RUnauthorized, s)
      | Inr _ \<Rightarrow> (RChat (chatbotMessagesProcessing (chat_model E) (chat_stringify E) b), s))"
  by (simp add: app_def chatBotRouter_def verifyToken_def split: sum.splits)

lemma chat_entry_msg_json [simp]:
  "chat_entry (msg_json m) = Some (if snd m then RAI else RHuman, fst m)"
  by (simp add: msg_json_def json_get_def)

lemma chat_entries_window:
  "all_some (map chat_entry (chat_window msgs um)) =
     Some (map (\<lambda>m. (if snd m then RAI else RHuman, fst m)) (drop (length msgs - 4) msgs @ [(um, False)]))"
proof -
  have "chat_window msgs um = map msg_json (drop (length msgs - 4) msgs @ [(um, False)])"
    by (simp add: chat_window_def js_slice_last_def drop_map)
  then show ?thesis by (simp add: all_some_Some comp_def)
qed

lemma handleSendMessage_store: "snd (handleSendMessage E now s cl tj ui) = s"
  by (auto simp: handleSendMessage_def Let_def app_chat split: option.splits prod.splits sum.splits)

section \<open>Properties of the pages\<close>

text \<open>
  C20. The list page shows the tasks in the order the comparator means: when every
  task's urgency is one of the enumeration, \<open>sortedTodos\<close> is the library's stable sort
  by the key (completed, minus priority, due date): incomplete tasks first, then
  important before normal before not important, then earlier due dates, ties in the
  server's order; it is a permutation of the list.
\<close>

theorem sortedTodos_sort_key:
  assumes "list_all (\<lambda>t. urgency t \<in> set urgency_values) todos0"
  shows "sortedTodos todos0 = sort_key todo_key todos0"
  unfolding sortedTodos_def
  using todo_compare_key assms by (intro js_sort_sort_key [where P = "\<lambda>t. urgency t \<in> set urgency_values"])
    (auto simp: list_all_iff)

text \<open>
  C21. A task whose urgency is outside the enumeration (the update service stores one)
  compares equal to every task with its completion status, also to two tasks the
  comparator orders strictly: the comparator is not consistent, and the order of the
  list is then implementation-defined.
\<close>

theorem sort_comparator_inconsistent:
  assumes "urgency b \<notin> set urgency_values" and "completed a = completed b"
    and "completed c = completed b" and "todo_compare a c < 0"
  shows "todo_compare a b = 0 \<and> todo_compare b a = 0 \<and> todo_compare b c = 0 \<and> todo_compare c b = 0"
  using assms priority_order_invalid [OF assms(1)]
  by (auto simp: todo_compare_def split: option.splits)

text \<open>
  C22. The dashboard's counters add up: completed and pending tasks make up the list,
  and the overdue tasks are pending ones, exactly those the list marks expired.
\<close>

theorem dashboard_counts:
  "completedTasks todos0 + pendingTasks todos0 = length todos0
   \<and> overdueTasks now todos0 \<le> pendingTasks todos0
   \<and> overdueTasks now todos0 = length (filter (isExpired now) todos0)"
proof -
  have "completedTasks todos0 + pendingTasks todos0 = length todos0"
    unfolding completedTasks_def pendingTasks_def by (rule sum_length_filter_compl)
  moreover have "overdueTasks now todos0 \<le> pendingTasks todos0"
    unfolding overdueTasks_def pendingTasks_def
    by (induction todos0) auto
  moreover have "(\<lambda>t. \<not> completed t \<and> dueDate t < now) = isExpired now"
    by (auto simp: isExpired_def fun_eq_iff)
  ultimately show ?thesis by (simp add: overdueTasks_def)
qed

text \<open>
  C23. Sending a chat message never changes the store. A blank input changes nothing;
  otherwise the window gains exactly two messages, the trimmed input as the user's
  and then one assistant message, and the input is cleared.
\<close>

theorem handleSendMessage_appends:
  "snd (handleSendMessage E now s cl tj ui) = s
   \<and> (js_trim (ui_input ui) = [] \<longrightarrow> fst (handleSendMessage E now s cl tj ui) = ui)
   \<and> (js_trim (ui_input ui) \<noteq> [] \<longrightarrow> (\<exists>reply. fst (handleSendMessage E now s cl tj ui) =
        ui\<lparr>ui_messages := ui_messages ui @ [(js_trim (ui_input ui), False), (reply, True)], ui_input := []\<rparr>))"
  using handleSendMessage_store [of E now s cl tj ui]
  by (auto simp: handleSendMessage_def Let_def split: option.splits prod.splits)

text \<open>
  C25. The chat gets stuck on a brace: while one of the last four messages of the window
  has an unclosed brace (also an assistant answer that quotes code), every message the
  signed-in user sends is answered \<open>"Sorry, cannot process that."\<close>.
\<close>

theorem chat_stuck_on_brace:
  assumes "user cl = Some usr" and "decode_token (Some (auth_token usr)) (server_secret E) = Inr c"
    and "js_trim (ui_input ui) \<noteq> []"
    and "(a @ CHR ''{'' # b, is_bot) \<in> set (drop (length (ui_messages ui) - 4) (ui_messages ui))"
    and "list_all no_brace a" and "list_all no_brace b"
  shows "fst (handleSendMessage E now s cl tj ui) =
           ui\<lparr>ui_messages := ui_messages ui @ [(js_trim (ui_input ui), False),
                                              (''Sorry, cannot process that.'', True)],
              ui_input := []\<rparr>"
proof -
  let ?ms = "drop (length (ui_messages ui) - 4) (ui_messages ui) @ [(js_trim (ui_input ui), False)]"
  let ?f = "\<lambda>m. (if snd m then RAI else RHuman, fst m)"
  let ?b = "\<lparr>body_todoList = Some (JArr (map tj (client_todos cl))),
             body_chats = Some (JArr (chat_window (ui_messages ui) (js_trim (ui_input ui))))\<rparr>"
  have "(if is_bot then RAI else RHuman, a @ CHR ''{'' # b) \<in> set (map ?f ?ms)"
    using assms(4) by force
  moreover have "format_fstring (prompt_vars j) (a @ CHR ''{'' # b) = None" for j
    using parse_fstring_unclosed [OF assms(5,6)] by (simp add: format_fstring_def)
  ultimately have "format_messages j (map ?f ?ms) = None" for j
    by (blast intro: format_messages_None)
  then have "chatbotMessagesProcessing (chat_model E) (chat_stringify E) ?b = ChatError EInternal"
    by (simp add: chatbot_arrays chat_entries_window)
  with assms(1-3) show ?thesis
    by (simp add: handleSendMessage_def Let_def app_chat chat_content_def)
qed

end
