(* ===== verification/Forms.thy ===== *)
theory Forms
  imports Client
begin

text \<open>
  The pages that write: \<open>src/frontend/src/components/TodoForm.tsx\<close> (create),
  \<open>components/TodoEditForm.tsx\<close> (update), \<open>components/SignupPage.tsx\<close>,
  \<open>components/Header.tsx\<close> (logout) and \<open>pages/Index.tsx\<close> (which page shows). A form
  is its state record; its \<open>handleSubmit\<close> checks the fields, calls the context
  function of \<open>Client\<close> and shows a toast. The calendar's picked \<open>Date\<close> is kept as
  the ISO string \<open>toISOString\<close> gives, \<open>None\<close> when no day is picked. \<open>addTodo\<close> and
  \<open>updateTodo\<close> are not awaited by the forms: the toast is shown whatever the request
  answers, which the model keeps by returning the toast beside the request's effect.
\<close>

section \<open>Toasts\<close>

text \<open>\<open>toast({ title, description, variant })\<close>; the flag is \<open>variant: "destructive"\<close>.\<close>

datatype toast = Toast string string bool

definition toast_no_title :: toast where
  "toast_no_title = Toast ''Error'' ''Please enter a title for your task'' True"

definition toast_no_date :: toast where
  "toast_no_date = Toast ''Error'' ''Please select a due date'' True"

section \<open>The task forms\<close>

record todo_form =
  form_title :: string
  form_description :: string
  form_urgency :: string
  form_dueDate :: "int option"

text \<open>The initial state, and the reset after a submit. The due date is the \<open>Date\<close> the
  calendar picked (its time value), or \<open>undefined\<close>; a submit sends
  \<open>dueDate.toISOString()\<close>, which the operations take as the parameter \<open>toIso\<close>.\<close>

definition todo_form_init :: todo_form where
  "todo_form_init = \<lparr>form_title = [], form_description = [], form_urgency = ''normal'', form_dueDate = None\<rparr>"

text \<open>\<open>TodoForm.handleSubmit\<close>: the toast, the form after it, whether \<open>onClose\<close> ran, and
  the browser and store after \<open>addTodo\<close>.\<close>

definition todoForm_submit ::
  "server_env \<Rightarrow> nat \<Rightarrow> (int \<Rightarrow> string) \<Rightarrow> db \<Rightarrow> client \<Rightarrow> todo_form \<Rightarrow>
   (toast \<times> todo_form \<times> bool) \<times> client \<times> db" where
  "todoForm_submit E now toIso s cl f =
     (if js_trim (form_title f) = [] then ((toast_no_title, f, False), cl, s)
      else (case form_dueDate f of
              None \<Rightarrow> ((toast_no_date, f, False), cl, s)
            | Some dd \<Rightarrow>
                (let (cl', s') = addTodo E now s cl (js_trim (form_title f))
                                   (js_trim (form_description f)) (form_urgency f) (toIso dd)
                 in ((Toast ''Task Created'' ''Your task has been added successfully'' False,
                      todo_form_init, True), cl', s'))))"

text \<open>The edit form starts from the task: \<open>parseISO(todo.dueDate)\<close> reads back the
  instant the server answered as \<open>toISOString\<close>.\<close>

definition editForm_init :: "todo_doc \<Rightarrow> todo_form" where
  "editForm_init t =
     \<lparr>form_title = title t, form_description = description t, form_urgency = urgency t,
      form_dueDate = Some (dueDate t)\<rparr>"

text \<open>\<open>TodoEditForm.handleSubmit\<close>: the toast, whether \<open>onClose\<close> ran, and the effect of
  \<open>updateTodo(todo.id, ...)\<close>.\<close>

definition editForm_submit ::
  "server_env \<Rightarrow> nat \<Rightarrow> (int \<Rightarrow> string) \<Rightarrow> db \<Rightarrow> client \<Rightarrow> todo_doc \<Rightarrow> todo_form \<Rightarrow>
   (toast \<times> bool) \<times> client \<times> db" where
  "editForm_submit E now toIso s cl t f =
     (if js_trim (form_title f) = [] then ((toast_no_title, False), cl, s)
      else (case form_dueDate f of
              None \<Rightarrow> ((toast_no_date, False), cl, s)
            | Some dd \<Rightarrow>
                (let (cl', s') = updateTodo_client E now s cl (oid_hex (todo_id t))
                                   (js_trim (form_title f)) (js_trim (form_description f))
                                   (form_urgency f) (toIso dd)
                 in ((Toast ''Task Updated'' ''Your task has been updated successfully'' False, True),
                     cl', s'))))"

section \<open>The signup page\<close>

record signup_form =
  su_fullName :: string
  su_username :: string
  su_password :: string

text \<open>\<open>SignupPage.handleSubmit\<close>; \<open>!x\<close> of a string is emptiness.\<close>

definition signupPage_submit ::
  "server_env \<Rightarrow> nat \<Rightarrow> salt \<Rightarrow> db \<Rightarrow> client \<Rightarrow> signup_form \<Rightarrow> toast \<times> client \<times> db" where
  "signupPage_submit E now salt s cl f =
     (if su_fullName f = [] \<or> su_username f = [] \<or> su_password f = []
      then (Toast ''Error'' ''Please fill in all fields'' True, cl, s)
      else if length (su_password f) < 6
      then (Toast ''Error'' ''Password must be at least 6 characters'' True, cl, s)
      else (let ((cl', ok), s') = signup_client E now salt s cl (su_fullName f) (su_username f) (su_password f)
            in (if ok then Toast ''Account Created'' ''Welcome to TaskFlow!'' False
                else Toast ''Signup Failed'' ''Username already exists'' True, cl', s')))"

text \<open>The rest of the page's state: the three fields, \<open>showPassword\<close> and \<open>loading\<close>,
  which is set while the signup request is awaited.\<close>

record signup_page =
  sp_form :: signup_form
  sp_showPassword :: bool
  sp_loading :: bool

definition signup_page_init :: signup_page where
  "signup_page_init = \<lparr>sp_form = \<lparr>su_fullName = [], su_username = [], su_password = []\<rparr>,
     sp_showPassword = False, sp_loading = False\<rparr>"

text \<open>The inputs: the three fields, disabled while \<open>loading\<close>, and the eye button,
  which is not.\<close>

datatype signup_input = SuFullName string | SuUsername string | SuPassword string | SuTogglePassword

primrec signup_page_input :: "signup_input \<Rightarrow> signup_page \<Rightarrow> signup_page" where
  "signup_page_input (SuFullName x) p =
     (if sp_loading p then p else p\<lparr>sp_form := (sp_form p)\<lparr>su_fullName := x\<rparr>\<rparr>)"
| "signup_page_input (SuUsername x) p =
     (if sp_loading p then p else p\<lparr>sp_form := (sp_form p)\<lparr>su_username := x\<rparr>\<rparr>)"
| "signup_page_input (SuPassword x) p =
     (if sp_loading p then p else p\<lparr>sp_form := (sp_form p)\<lparr>su_password := x\<rparr>\<rparr>)"
| "signup_page_input SuTogglePassword p = p\<lparr>sp_showPassword := \<not> sp_showPassword p\<rparr>"

text \<open>What the page renders of its state: the field values, the type of the password
  input, whether the inputs and the submit button are disabled, and the button's
  label.\<close>

record signup_view =
  sv_form :: signup_form
  sv_passwordType :: string
  sv_disabled :: bool
  sv_button :: string

definition signupPage_render :: "signup_page \<Rightarrow> signup_view" where
  "signupPage_render p =
     \<lparr>sv_form = sp_form p, sv_passwordType = (if sp_showPassword p then ''text'' else ''password''),
      sv_disabled = sp_loading p,
      sv_button = (if sp_loading p then ''Creating Account...'' else ''Create Account'')\<rparr>"

section \<open>The header and the page\<close>

record header_ui =
  show_menu :: bool

definition toggle_menu :: "header_ui \<Rightarrow> header_ui" where
  "toggle_menu h = h\<lparr>show_menu := \<not> show_menu h\<rparr>"

definition handleLogout :: "client \<Rightarrow> header_ui \<Rightarrow> client \<times> header_ui" where
  "handleLogout cl h = (logout_client cl, h\<lparr>show_menu := False\<rparr>)"

text \<open>What the header renders: the user's full name on the menu button
  (\<open>user?.fullname\<close>, nothing without a user), and, when the menu is open, the full
  name, the text \<open>@\<close> followed by the user name, and the logout button.\<close>

record header_view =
  hv_name :: "string option"
  hv_menu :: "(string option \<times> string) option"

definition header_render :: "client \<Rightarrow> header_ui \<Rightarrow> header_view" where
  "header_render cl h =
     \<lparr>hv_name = map_option info_fullname (user cl),
      hv_menu = (if show_menu h
                 then Some (map_option info_fullname (user cl),
                            ''@'' @ (case user cl of None \<Rightarrow> [] | Some u \<Rightarrow> info_username u))
                 else None)\<rparr>"

datatype auth_mode = ModeLogin | ModeSignup

text \<open>What \<open>Index\<close> renders: the login or signup page, or the header and the dashboard
  over the context's task list.\<close>

datatype page = LoginPage | SignupPage | DashboardPage "todo_doc list"

definition index_page :: "auth_mode \<Rightarrow> client \<Rightarrow> page" where
  "index_page m cl =
     (if \<not> isAuthenticated cl then (case m of ModeLogin \<Rightarrow> LoginPage | ModeSignup \<Rightarrow> SignupPage)
      else DashboardPage (client_todos cl))"

text \<open>An edit the edit form can send: a title that is not blank and an urgency of the
  select, which offers the enumeration only.\<close>

fun ui_form_ok :: "ui_action \<Rightarrow> bool" where
  "ui_form_ok (UiEdit sid ti de ur dd) = (js_trim ti \<noteq> [] \<and> ur \<in> set urgency_values)"
| "ui_form_ok _ = True"

section \<open>Lemmas\<close>

lemma addTodo_unauthorized:
  "user cl \<noteq> None \<Longrightarrow> decode_token (bearer cl) (server_secret E) = Inl e \<Longrightarrow>
     addTodo E now s cl ti de ur dd = (cl, s)"
  by (auto simp: addTodo_def app_def todoRouter_def verifyToken_def add_apply_def)

lemma addTodo_created:
  assumes tok: "decode_token (bearer cl) (server_secret E) = Inr c" and u: "claim_username c \<noteq> []"
    and ti: "js_trim ti \<noteq> []" and ur: "ur \<in> set urgency_values"
    and dd: "dd \<noteq> []" and due: "parse_date E dd = Some due"
  shows "addTodo E now s cl ti de ur dd =
     (let t = \<lparr>todo_id = next_oid s, title = js_trim ti, description = js_trim de, urgency = ur,
               dueDate = due, completed = False, owner = claim_username c\<rparr>
      in (cl\<lparr>client_todos := client_todos cl @ [t]\<rparr>,
          s\<lparr>todos := todos s @ [t], next_oid := Suc (next_oid s)\<rparr>))"
proof -
  obtain usr where "user cl = Some usr" using bearer_user [OF tok] by blast
  moreover have "ti \<noteq> []" and "ur \<noteq> []" using ti ur by (auto simp: urgency_values_def)
  ultimately show ?thesis
    using u ti ur dd due
    by (simp add: addTodo_def app_todo_verified [OF tok] createTodo_def createTodoService_def
        todo_create_def todo_valid_def trim_or_empty_def add_apply_def field_str_def Let_def)
qed

lemma signup_client_refused:
  "signupService (secret_var E) s salt now u fn pw = Inl e \<Longrightarrow> fn \<noteq> [] \<Longrightarrow> u \<noteq> [] \<Longrightarrow> pw \<noteq> [] \<Longrightarrow>
     signup_client E now salt s cl fn u pw = ((cl, False), s)"
  by (simp add: signup_client_def app_def authRouter_def signup_def field_str_def)

lemma login_client_todos:
  "login_client E now s cl u pw = ((cl', ok), s') \<Longrightarrow>
     client_todos cl' = client_todos cl \<and> (ok \<longrightarrow> user cl' \<noteq> None)"
  by (auto simp: login_client_def split: prod.splits reply.splits auth_reply.splits)

text \<open>Every todo request keeps all stored tasks valid, except an update with a blank
  title or an urgency outside the enumeration (which the edit form never sends).\<close>

lemma todo_set_fields_valid:
  "todo_valid t \<Longrightarrow> js_trim ti \<noteq> [] \<Longrightarrow> ur \<in> set urgency_values \<Longrightarrow>
     todo_valid (todo_set_fields (js_trim ti) de ur due t)"
  by (simp add: todo_valid_def todo_set_fields_def)

lemma app_todo_valid:
  assumes valid: "list_all todo_valid (todos s)" and run: "app E now s (TodoReq q) = (r, s')"
    and ok: "\<And>h b. q = UpdateTodo h b \<Longrightarrow>
               js_trim (field_str (body_title b)) \<noteq> [] \<and> field_str (body_urgency b) \<in> set urgency_values"
  shows "list_all todo_valid (todos s')"
proof (cases q)
  case (MyTodos h)
  with run valid show ?thesis by (auto simp: app_def todoRouter_def dest!: verifyToken_cases)
next
  case (CreateTodo h b)
  with run valid show ?thesis
    by (auto simp: app_def todoRouter_def createTodoService_def todo_create_Inr
        dest!: verifyToken_cases createTodo_cases split: prod.splits)
next
  case (UpdateTodo h b)
  with ok have "js_trim (field_str (body_title b)) \<noteq> []" and "field_str (body_urgency b) \<in> set urgency_values"
    by auto
  with UpdateTodo run valid show ?thesis
    by (auto simp: app_def todoRouter_def updateTodoService_Inr todo_set_fields_valid
        intro!: list_all_update_first dest!: verifyToken_cases updateTodo_cases split: prod.splits)
next
  case (DeleteTodo h b)
  with run valid show ?thesis
    by (auto simp: app_def todoRouter_def deleteTodoService_Inr list_all_delete_first
        dest!: verifyToken_cases deleteTodo_cases split: prod.splits)
next
  case (ToggleTodo h b)
  with run valid show ?thesis
    by (auto simp: app_def todoRouter_def toggleCompletion_Inr toggle_write_Inr
        intro!: list_all_update_first dest!: verifyToken_cases toggleTodoCompletion_cases split: prod.splits)
qed

lemma ui_step_valid:
  assumes "list_all todo_valid (todos s)" and "ui_form_ok a" and "ui_step E now s cl a = (cl', s')"
  shows "list_all todo_valid (todos s')"
  using assms
  by (cases a) (auto simp: fetchTodos_def addTodo_def updateTodo_client_def deleteTodo_client_def
      toggleTodo_client_def field_str_def split: option.splits prod.splits
      elim!: app_todo_valid [rotated])

text \<open>A signup with a free name and a non-blank full name creates the user and logs it
  in; the fetch of the list changes the browser's list only.\<close>

lemma cast_username_Nil: "cast_username u \<noteq> [] \<Longrightarrow> u \<noteq> []"
  by (auto simp: cast_username_def js_lower_def)

lemma signupService_created:
  assumes "user_findOne s u = None" and "cast_username u \<noteq> []" and "js_trim fn \<noteq> []"
  shows "signupService env s salt now u fn pw =
     Inr (\<lparr>info_id = next_oid s, info_username = cast_username u, info_fullname = js_trim fn,
           auth_token = jwt_sign (next_oid s) (cast_username u) now (jwt_secret env)\<rparr>,
          s\<lparr>users := users s @ [\<lparr>user_id = next_oid s, user_name = cast_username u,
             password = generatePassword pw salt, fullname = js_trim fn\<rparr>], next_oid := Suc (next_oid s)\<rparr>)"
proof -
  let ?d = "\<lparr>user_id = next_oid s, user_name = cast_username u,
             password = generatePassword pw salt, fullname = js_trim fn\<rparr>"
  let ?s' = "s\<lparr>users := users s @ [?d], next_oid := Suc (next_oid s)\<rparr>"
  have create: "user_create s u (generatePassword pw salt) fn = Inr (?d, ?s')"
    using assms by (simp add: user_create_Inr user_findOne_None user_valid_def digest_length_def)
  then have "user_findOne ?s' u = Some ?d" by (simp add: user_findOne_created)
  then have "loginService env ?s' now u pw =
      Inr \<lparr>info_id = next_oid s, info_username = cast_username u, info_fullname = js_trim fn,
           auth_token = jwt_sign (next_oid s) (cast_username u) now (jwt_secret env)\<rparr>"
    by (simp add: loginService_def)
  with assms(1) create show ?thesis by (simp add: signupService_Inr)
qed

lemma fetchTodos_shape: "fetchTodos E now s cl = (cl', s') \<Longrightarrow> \<exists>ts. cl' = cl\<lparr>client_todos := ts\<rparr>"
proof (cases "user cl")
  case None
  moreover assume "fetchTodos E now s cl = (cl', s')"
  ultimately have "cl' = cl\<lparr>client_todos := client_todos cl\<rparr>" by (simp add: fetchTodos_def)
  then show ?thesis by blast
qed (auto simp: fetchTodos_def split: prod.splits)

section \<open>Properties of the pages that write\<close>

text \<open>
  C26. Creating through the form: for a signed-in browser whose token the server
  accepts, a title that is not blank, an urgency of the select and a picked day the
  server reads back from its \<open>toISOString()\<close>, the submit stores exactly one new task under the next
  ObjectId (trimmed title and description, not completed, owned by the token's user),
  appends the same task to the page's list, shows \<open>"Task Created"\<close>, resets the form
  and closes it.
\<close>

theorem todoForm_creates:
  assumes tok: "decode_token (bearer cl) (server_secret E) = Inr c" and u: "claim_username c \<noteq> []"
    and ti: "js_trim (form_title f) \<noteq> []" and ur: "form_urgency f \<in> set urgency_values"
    and dd: "form_dueDate f = Some dd" "toIso dd \<noteq> []" and due: "parse_date E (toIso dd) = Some due"
  shows "todoForm_submit E now toIso s cl f =
     (let t = \<lparr>todo_id = next_oid s, title = js_trim (form_title f),
               description = js_trim (form_description f), urgency = form_urgency f,
               dueDate = due, completed = False, owner = claim_username c\<rparr>
      in ((Toast ''Task Created'' ''Your task has been added successfully'' False, todo_form_init, True),
          cl\<lparr>client_todos := client_todos cl @ [t]\<rparr>,
          s\<lparr>todos := todos s @ [t], next_oid := Suc (next_oid s)\<rparr>))"
  using addTodo_created [OF tok u _ ur dd(2) due, of "js_trim (form_title f)"] ti dd(1)
  by (simp add: todoForm_submit_def Let_def)

text \<open>
  C27. The form reports success without looking at the answer: when the server refuses
  the create, as it does when the session's token no longer verifies (the server
  restarted with another \<open>JWT_SECRET\<close>, while the browser keeps the token it stored),
  nothing is stored and the list does not change, yet the form shows \<open>"Task
  Created"\<close>, resets and closes.
\<close>

theorem todoForm_toast_unconditional:
  assumes "user cl \<noteq> None" and "decode_token (bearer cl) (server_secret E) = Inl e"
    and "js_trim (form_title f) \<noteq> []" and "form_dueDate f = Some dd"
  shows "todoForm_submit E now toIso s cl f =
           ((Toast ''Task Created'' ''Your task has been added successfully'' False, todo_form_init, True), cl, s)"
  using assms by (simp add: todoForm_submit_def addTodo_unauthorized)

text \<open>
  C28. Through the pages every stored task stays valid, and so can still be toggled:
  from a store whose tasks are all valid, any sequence of page actions whose edits are
  those the edit form can send (a title that is not blank, an urgency of the select)
  leaves every task valid. An update sent outside the form does not (C13).
\<close>

theorem forms_keep_tasks_valid:
  assumes "list_all todo_valid (todos s)" and "list_all ui_form_ok as"
    and "ui_run E now s cl as = (cl', s')"
  shows "list_all todo_valid (todos s')"
  using assms
proof (induction as arbitrary: s cl)
  case Nil
  then show ?case by simp
next
  case (Cons a as)
  obtain cl1 s1 where step: "ui_step E now s cl a = (cl1, s1)" by fastforce
  with Cons.prems have "list_all todo_valid (todos s1)" by (auto intro: ui_step_valid)
  with Cons.prems step show ?case by (intro Cons.IH [of s1 cl1]) auto
qed

text \<open>
  C29. The signup page reports every refusal by the server as \<open>"Username already
  exists"\<close>, also one that has nothing to do with the name, such as a full name made
  of spaces; nothing is stored and the browser stays signed out.
\<close>

theorem signupPage_one_message:
  assumes "su_fullName f \<noteq> []" and "su_username f \<noteq> []" and "6 \<le> length (su_password f)"
    and "signupService (secret_var E) s salt now (su_username f) (su_fullName f) (su_password f) = Inl e"
  shows "signupPage_submit E now salt s cl f = (Toast ''Signup Failed'' ''Username already exists'' True, cl, s)"
proof -
  from assms(3) have "su_password f \<noteq> []" by auto
  with assms show ?thesis by (simp add: signupPage_submit_def signup_client_refused)
qed

text \<open>
  C30. Logging out keeps the task list of the context: when another user logs in on
  the same page, the dashboard first shows the previous user's tasks, until the list
  is fetched again.
\<close>

theorem relogin_shows_previous_tasks:
  assumes "login_client E now s (fst (handleLogout cl h)) u pw = ((cl', True), s')"
  shows "index_page m cl' = DashboardPage (client_todos cl)"
  using login_client_todos [OF assms]
  by (auto simp: index_page_def isAuthenticated_def handleLogout_def logout_client_def)

text \<open>
  C40 (functional): signing up through the signup page with a free name, a non-blank
  full name and a password of six characters or more shows ``Account Created'' and
  makes \<open>Index\<close> render the dashboard; until the \<open>[user]\<close> effect of TodoContext has
  fetched the list, the dashboard shows the list the context held before, and once it
  has, the list is the new user's tasks and is in step with the server.
\<close>

theorem signup_page_to_dashboard:
  assumes free: "user_findOne s (su_username f) = None" and u: "cast_username (su_username f) \<noteq> []"
    and fn: "js_trim (su_fullName f) \<noteq> []" and pw: "6 \<le> length (su_password f)"
    and sub: "signupPage_submit E now salt s cl f = (m, cl', s')"
    and eff: "fetchTodos E now s' cl' = (cl'', s'')"
  shows "m = Toast ''Account Created'' ''Welcome to TaskFlow!'' False
    \<and> index_page md cl' = DashboardPage (client_todos cl)
    \<and> index_page md cl'' = DashboardPage (getUserTodos s' (cast_username (su_username f)))
    \<and> client_synced E s'' cl''"
proof -
  have ne: "su_fullName f \<noteq> []" "su_username f \<noteq> []" "su_password f \<noteq> []"
    using fn cast_username_Nil [OF u] pw by auto
  let ?a = "\<lparr>info_id = next_oid s, info_username = cast_username (su_username f),
             info_fullname = js_trim (su_fullName f),
             auth_token = jwt_sign (next_oid s) (cast_username (su_username f)) now (server_secret E)\<rparr>"
  note svc = signupService_created [OF free u fn, where env = "secret_var E" and salt = salt and now = now
      and pw = "su_password f"]
  have cl': "cl' = cl\<lparr>user := Some ?a, stored_token := Some (auth_token ?a)\<rparr>"
    and m: "m = Toast ''Account Created'' ''Welcome to TaskFlow!'' False"
    using sub ne pw svc
    by (auto simp: signupPage_submit_def signup_client_def app_def authRouter_def signup_def
        field_str_def server_secret_def Let_def)
  have tok: "decode_token (bearer cl') (server_secret E) =
      Inr \<lparr>claim_id = next_oid s, claim_username = cast_username (su_username f), claim_iat = now\<rparr>"
    by (simp add: cl' bearer_def decode_token_def)
  have u': "claim_username \<lparr>claim_id = next_oid s, claim_username = cast_username (su_username f),
      claim_iat = now\<rparr> \<noteq> []" using u by simp
  note fs = fetchTodos_sync [OF tok u' eff]
  have sync: "client_synced E s'' cl''" using fs by (rule conjunct1)
  have s'': "s'' = s'" using fs by (rule conjunct2)
  obtain ts where cl'': "cl'' = cl'\<lparr>client_todos := ts\<rparr>" using fetchTodos_shape [OF eff] by blast
  have "client_todos cl'' = getUserTodos s' (cast_username (su_username f))"
    using sync tok s'' by (simp add: cl'' synced_claims)
  moreover have "user cl'' \<noteq> None" by (simp add: cl'' cl')
  ultimately show ?thesis using m sync by (auto simp: index_page_def isAuthenticated_def cl')
qed

end
