(* ===== verification/Dashboard.thy ===== *)
theory Dashboard
  imports View Forms
begin

text \<open>
  The signed-in page as one component: \<open>src/frontend/src/components/Dashboard.tsx\<close>
  renders the counters, the task list of \<open>components/TodoList.tsx\<close> (one card per
  task of \<open>sortedTodos\<close>, with its checkbox, edit and delete buttons and the edit
  dialog), the create dialog of \<open>components/TodoForm.tsx\<close> and the chat window of
  \<open>components/ChatBot.tsx\<close>. A card is the record of what the card shows; the page
  state is the record of the components' \<open>useState\<close> hooks; an event of the page is a
  click or an input on one of its elements, and \<open>dashboard_step\<close> runs its handler,
  with the context call the handler makes. The two dialogs are full-screen overlays
  above the rest of the page (\<open>fixed inset-0 z-[60]\<close>, the chat is at \<open>z-40\<close> and
  \<open>z-50\<close>), so while one of them is open no element under it can be clicked.
\<close>

section \<open>The task cards of TodoList\<close>

text \<open>\<open>getUrgencyColor\<close>: a \<open>switch\<close> with a \<open>default\<close>.\<close>

definition getUrgencyColor :: "string \<Rightarrow> string" where
  "getUrgencyColor u =
     (if u = ''important'' then ''priority-high''
      else if u = ''normal'' then ''priority-normal''
      else if u = ''not important'' then ''priority-low''
      else ''priority-normal'')"

text \<open>\<open>getUrgencyBadge\<close>: \<open>variants[urgency] || "default"\<close>. (Keys of
  \<open>Object.prototype\<close> such as \<open>constructor\<close> would read an inherited property; they are
  not modelled.)\<close>

definition getUrgencyBadge :: "string \<Rightarrow> string" where
  "getUrgencyBadge u =
     (case map_of [(''important'', ''destructive''), (''normal'', ''default''),
                   (''not important'', ''secondary'')] u of
        Some v \<Rightarrow> v
      | None \<Rightarrow> ''default'')"

text \<open>What the card of a task shows: its key (\<open>todo.id\<close>), the urgency colour class,
  the \<open>task-expired\<close> class and the alert icon (both \<open>expired\<close>), the completed state
  (checkbox, \<open>task-completed\<close>, \<open>opacity-75\<close>, struck title), the title, the
  description when it is non-empty, the due date, and the badge with its variant.\<close>

record todo_card =
  card_key :: string
  card_colour :: string
  card_expired :: bool
  card_completed :: bool
  card_title :: string
  card_description :: "string option"
  card_due :: int
  card_badge :: string
  card_urgency :: string

definition todoCard :: "int \<Rightarrow> todo_doc \<Rightarrow> todo_card" where
  "todoCard now t =
     \<lparr>card_key = oid_hex (todo_id t), card_colour = getUrgencyColor (urgency t),
      card_expired = isExpired now t, card_completed = completed t, card_title = title t,
      card_description = (if description t = [] then None else Some (description t)),
      card_due = dueDate t, card_badge = getUrgencyBadge (urgency t), card_urgency = urgency t\<rparr>"

text \<open>The list: the empty state when there is no task (an early \<open>return\<close>, so the edit
  dialog is not rendered either), otherwise the cards of \<open>sortedTodos\<close> and the edit
  dialog of \<open>editingTodo\<close>.\<close>

datatype todoList_view = NoTasks | TaskCards "todo_card list" "todo_doc option"

definition todoList_render :: "int \<Rightarrow> todo_doc list \<Rightarrow> todo_doc option \<Rightarrow> todoList_view" where
  "todoList_render now ts editing =
     (if length ts = 0 then NoTasks else TaskCards (map (todoCard now) (sortedTodos ts)) editing)"

text \<open>The three handlers of a card: \<open>toggleTodo(todo.id)\<close>, \<open>setEditingTodo(todo)\<close>,
  \<open>deleteTodo(todo.id)\<close>.\<close>

datatype card_event = CardCheck | CardEdit | CardDelete

datatype card_effect = CardAction ui_action | CardOpenEdit todo_doc

definition card_handler :: "todo_doc \<Rightarrow> card_event \<Rightarrow> card_effect" where
  "card_handler t ev =
     (case ev of
        CardCheck \<Rightarrow> CardAction (UiToggle (oid_hex (todo_id t)))
      | CardEdit \<Rightarrow> CardOpenEdit t
      | CardDelete \<Rightarrow> CardAction (UiRemove (oid_hex (todo_id t))))"

section \<open>The inputs of the two dialogs\<close>

text \<open>The title input, the description text area, the urgency select with its three
  items, and the calendar, whose \<open>onSelect\<close> gives the picked day or \<open>undefined\<close>
  when the picked day is clicked again.\<close>

datatype urgency_item = ItemImportant | ItemNormal | ItemNotImportant

primrec urgency_item_value :: "urgency_item \<Rightarrow> string" where
  "urgency_item_value ItemImportant = ''important''"
| "urgency_item_value ItemNormal = ''normal''"
| "urgency_item_value ItemNotImportant = ''not important''"

datatype form_input = InTitle string | InDescription string | InUrgency urgency_item | InDueDate "int option"

primrec apply_input :: "form_input \<Rightarrow> todo_form \<Rightarrow> todo_form" where
  "apply_input (InTitle x) f = f\<lparr>form_title := x\<rparr>"
| "apply_input (InDescription x) f = f\<lparr>form_description := x\<rparr>"
| "apply_input (InUrgency x) f = f\<lparr>form_urgency := urgency_item_value x\<rparr>"
| "apply_input (InDueDate x) f = f\<lparr>form_dueDate := x\<rparr>"

section \<open>The dashboard page\<close>

text \<open>The state of the page: \<open>showTodoForm\<close> of Dashboard, the fields of TodoForm (kept
  while the dialog is closed, since the component stays mounted), \<open>editingTodo\<close> of
  TodoList and the fields of the mounted TodoEditForm, \<open>isOpen\<close> and the messages of
  ChatBot, and the last toast.\<close>

record dash_ui =
  dash_showForm :: bool
  dash_form :: todo_form
  dash_editing :: "todo_doc option"
  dash_editForm :: todo_form
  dash_chatOpen :: bool
  dash_chat :: chat_ui
  dash_toast :: "toast option"

definition dash_init :: dash_ui where
  "dash_init = \<lparr>dash_showForm = False, dash_form = todo_form_init, dash_editing = None,
     dash_editForm = todo_form_init, dash_chatOpen = False, dash_chat = chat_ui_init,
     dash_toast = None\<rparr>"

definition modal_open :: "dash_ui \<Rightarrow> bool" where
  "modal_open d \<longleftrightarrow> dash_showForm d \<or> dash_editing d \<noteq> None"

datatype dash_event =
    DAddTask
  | DFormInput form_input
  | DFormSubmit
  | DFormClose
  | DCard nat card_event
  | DEditInput form_input
  | DEditSubmit
  | DEditClose
  | DChatOpen
  | DChatClose
  | DChatInput string
  | DChatSend

text \<open>One event. \<open>DCard i\<close> is an event on the \<open>i\<close>-th card of the rendered list. The
  create dialog closes when \<open>handleSubmit\<close> ran \<open>onClose\<close>; the edit dialog is
  unmounted when its \<open>onClose\<close> sets \<open>editingTodo\<close> to \<open>null\<close>, and is not rendered
  while the list is empty.\<close>

fun dashboard_step ::
  "server_env \<Rightarrow> nat \<Rightarrow> (int \<Rightarrow> string) \<Rightarrow> (todo_doc \<Rightarrow> json) \<Rightarrow> db \<Rightarrow> client \<Rightarrow> dash_ui \<Rightarrow>
   dash_event \<Rightarrow> dash_ui \<times> client \<times> db" where
  "dashboard_step E now toIso tj s cl d DAddTask =
     (if modal_open d then (d, cl, s) else (d\<lparr>dash_showForm := True\<rparr>, cl, s))"
| "dashboard_step E now toIso tj s cl d (DFormInput x) =
     (if dash_showForm d then (d\<lparr>dash_form := apply_input x (dash_form d)\<rparr>, cl, s) else (d, cl, s))"
| "dashboard_step E now toIso tj s cl d DFormSubmit =
     (if dash_showForm d then
        (case todoForm_submit E now toIso s cl (dash_form d) of
           ((t, f, closed), cl', s') \<Rightarrow>
             (d\<lparr>dash_toast := Some t, dash_form := f, dash_showForm := \<not> closed\<rparr>, cl', s'))
      else (d, cl, s))"
| "dashboard_step E now toIso tj s cl d DFormClose = (d\<lparr>dash_showForm := False\<rparr>, cl, s)"
| "dashboard_step E now toIso tj s cl d (DCard i ev) =
     (if modal_open d \<or> \<not> i < length (sortedTodos (client_todos cl)) then (d, cl, s)
      else (case card_handler (sortedTodos (client_todos cl) ! i) ev of
              CardAction a \<Rightarrow> (case ui_step E now s cl a of (cl', s') \<Rightarrow> (d, cl', s'))
            | CardOpenEdit t \<Rightarrow> (d\<lparr>dash_editing := Some t, dash_editForm := editForm_init t\<rparr>, cl, s)))"
| "dashboard_step E now toIso tj s cl d (DEditInput x) =
     (if dash_editing d = None \<or> client_todos cl = [] then (d, cl, s)
      else (d\<lparr>dash_editForm := apply_input x (dash_editForm d)\<rparr>, cl, s))"
| "dashboard_step E now toIso tj s cl d DEditSubmit =
     (case dash_editing d of
        None \<Rightarrow> (d, cl, s)
      | Some t \<Rightarrow>
          (if client_todos cl = [] then (d, cl, s)
           else (case editForm_submit E now toIso s cl t (dash_editForm d) of
                   ((m, closed), cl', s') \<Rightarrow>
                     (d\<lparr>dash_toast := Some m, dash_editing := (if closed then None else Some t)\<rparr>, cl', s'))))"
| "dashboard_step E now toIso tj s cl d DEditClose = (d\<lparr>dash_editing := None\<rparr>, cl, s)"
| "dashboard_step E now toIso tj s cl d DChatOpen =
     (if modal_open d then (d, cl, s) else (d\<lparr>dash_chatOpen := True\<rparr>, cl, s))"
| "dashboard_step E now toIso tj s cl d DChatClose =
     (if modal_open d then (d, cl, s) else (d\<lparr>dash_chatOpen := False\<rparr>, cl, s))"
| "dashboard_step E now toIso tj s cl d (DChatInput x) =
     (if modal_open d \<or> \<not> dash_chatOpen d then (d, cl, s)
      else (d\<lparr>dash_chat := (dash_chat d)\<lparr>ui_input := x\<rparr>\<rparr>, cl, s))"
| "dashboard_step E now toIso tj s cl d DChatSend =
     (if modal_open d \<or> \<not> dash_chatOpen d then (d, cl, s)
      else (case handleSendMessage E now s cl tj (dash_chat d) of
              (ui', s') \<Rightarrow> (d\<lparr>dash_chat := ui'\<rparr>, cl, s')))"

fun dashboard_run ::
  "server_env \<Rightarrow> nat \<Rightarrow> (int \<Rightarrow> string) \<Rightarrow> (todo_doc \<Rightarrow> json) \<Rightarrow> db \<Rightarrow> client \<Rightarrow> dash_ui \<Rightarrow>
   dash_event list \<Rightarrow> dash_ui \<times> client \<times> db" where
  "dashboard_run E now toIso tj s cl d [] = (d, cl, s)"
| "dashboard_run E now toIso tj s cl d (ev # evs) =
     (case dashboard_step E now toIso tj s cl d ev of
        (d', cl', s') \<Rightarrow> dashboard_run E now toIso tj s' cl' d' evs)"

text \<open>The task the edit dialog holds is one the list shows.\<close>

definition dash_inv :: "client \<Rightarrow> dash_ui \<Rightarrow> bool" where
  "dash_inv cl d \<longleftrightarrow> (case dash_editing d of None \<Rightarrow> True | Some t \<Rightarrow> t \<in> set (client_todos cl))"

section \<open>The two dialogs as rendered\<close>

text \<open>What an open dialog shows (lines 81--180 of \<open>TodoForm.tsx\<close> and of
  \<open>TodoEditForm.tsx\<close>, which differ only in the heading, the ids and the submit
  button): the heading, the values of the three inputs, the label of the date button,
  muted while no date is picked, and the submit label; nothing while \<open>isOpen\<close> is
  false. \<open>ppp\<close> is \<open>format(dueDate, "PPP")\<close> of the date held.\<close>

record form_view =
  fv_heading :: string
  fv_title :: string
  fv_description :: string
  fv_urgency :: string
  fv_dateLabel :: string
  fv_dateMuted :: bool
  fv_submit :: string

definition date_label :: "(int \<Rightarrow> string) \<Rightarrow> int option \<Rightarrow> string" where
  "date_label ppp d = (case d of None \<Rightarrow> ''Pick a date'' | Some x \<Rightarrow> ppp x)"

definition todoForm_render :: "(int \<Rightarrow> string) \<Rightarrow> bool \<Rightarrow> todo_form \<Rightarrow> form_view option" where
  "todoForm_render ppp isOpen f =
     (if \<not> isOpen then None
      else Some \<lparr>fv_heading = ''Create New Task'', fv_title = form_title f,
                 fv_description = form_description f, fv_urgency = form_urgency f,
                 fv_dateLabel = date_label ppp (form_dueDate f), fv_dateMuted = (form_dueDate f = None),
                 fv_submit = ''Create Task''\<rparr>)"

definition editForm_render :: "(int \<Rightarrow> string) \<Rightarrow> bool \<Rightarrow> todo_form \<Rightarrow> form_view option" where
  "editForm_render ppp isOpen f =
     (if \<not> isOpen then None
      else Some \<lparr>fv_heading = ''Edit Task'', fv_title = form_title f,
                 fv_description = form_description f, fv_urgency = form_urgency f,
                 fv_dateLabel = date_label ppp (form_dueDate f), fv_dateMuted = (form_dueDate f = None),
                 fv_submit = ''Update Task''\<rparr>)"

text \<open>The dialogs of the page: \<open>TodoForm\<close> with \<open>isOpen={showTodoForm}\<close>, and
  \<open>TodoEditForm\<close>, mounted by TodoList while \<open>editingTodo\<close> is set and the list is not
  empty.\<close>

definition dashboard_dialogs ::
  "(int \<Rightarrow> string) \<Rightarrow> client \<Rightarrow> dash_ui \<Rightarrow> form_view option \<times> form_view option" where
  "dashboard_dialogs ppp cl d =
     (todoForm_render ppp (dash_showForm d) (dash_form d),
      editForm_render ppp (dash_editing d \<noteq> None \<and> client_todos cl \<noteq> []) (dash_editForm d))"

section \<open>Lemmas\<close>

text \<open>The sort is a permutation.\<close>

lemma mset_foldl_js_insert:
  "mset (foldl (\<lambda>acc x. js_insert cmp x acc) acc xs) = mset acc + mset xs"
  by (induction xs arbitrary: acc) auto

lemma mset_sortedTodos [simp]: "mset (sortedTodos ts) = mset ts"
  by (simp add: sortedTodos_def js_sort_def mset_foldl_js_insert)

lemma set_sortedTodos [simp]: "set (sortedTodos ts) = set ts"
  by (metis mset_sortedTodos set_mset_mset)

lemma length_sortedTodos [simp]: "length (sortedTodos ts) = length ts"
  by (metis mset_sortedTodos size_mset)

lemma length_filter_sortedTodos [simp]:
  "length (filter P (sortedTodos ts)) = length (filter P ts)"
  by (metis mset_filter mset_sortedTodos size_mset)

text \<open>What a submit of each dialog does to the browser and the server: nothing, or
  the context call of a page action.\<close>

lemma todoForm_submit_cases:
  assumes "todoForm_submit E now toIso s cl f = ((m, f', closed), cl', s')"
  shows "(cl', s') = (cl, s) \<or> (\<exists>ti de ur dd. (cl', s') = ui_step E now s cl (UiAdd ti de ur dd))"
proof (cases "js_trim (form_title f) = [] \<or> form_dueDate f = None")
  case True
  then show ?thesis using assms by (auto simp: todoForm_submit_def split: if_splits)
next
  case False
  then obtain dd where dd: "form_dueDate f = Some dd" by auto
  have "(cl', s') = ui_step E now s cl (UiAdd (js_trim (form_title f)) (js_trim (form_description f)) (form_urgency f) (toIso dd))"
    using assms False dd by (auto simp: todoForm_submit_def Let_def split: prod.splits)
  then show ?thesis by blast
qed

lemma editForm_submit_cases:
  assumes "editForm_submit E now toIso s cl t f = ((m, closed), cl', s')"
  shows "(\<not> closed \<and> cl' = cl \<and> s' = s) \<or>
    (closed \<and> (\<exists>ti de ur dd. (cl', s') = ui_step E now s cl (UiEdit (oid_hex (todo_id t)) ti de ur dd)))"
proof (cases "js_trim (form_title f) = [] \<or> form_dueDate f = None")
  case True
  then show ?thesis using assms by (auto simp: editForm_submit_def split: if_splits)
next
  case False
  then obtain dd where dd: "form_dueDate f = Some dd" by auto
  have "closed \<and> (cl', s') = ui_step E now s cl (UiEdit (oid_hex (todo_id t)) (js_trim (form_title f))
      (js_trim (form_description f)) (form_urgency f) (toIso dd))"
    using assms False dd by (auto simp: editForm_submit_def Let_def split: prod.splits)
  then show ?thesis by blast
qed

lemma addTodo_keeps_shown:
  "addTodo E now s cl ti de ur dd = (cl', s') \<Longrightarrow> set (client_todos cl) \<subseteq> set (client_todos cl')"
  by (auto simp: addTodo_def add_apply_def split: option.splits prod.splits reply.splits todo_reply.splits)

lemma card_action_ok:
  assumes "t \<in> set (client_todos cl)" and "card_handler t ev = CardAction a"
  shows "ui_id_ok cl a"
  using assms by (cases ev) (auto simp: card_handler_def list_ex_iff)

text \<open>One event keeps the list in step with the server, the store well formed, and
  the edit dialog on a shown task; it creates at most one ObjectId.\<close>

lemma dashboard_step_sync:
  assumes wf: "db_wf s" and bound: "next_oid s < 16 ^ 24" and sync: "client_synced E s cl"
    and inv: "dash_inv cl d"
    and run: "dashboard_step E now toIso tj s cl d ev = (d', cl', s')"
  shows "client_synced E s' cl' \<and> db_wf s' \<and> next_oid s' \<le> Suc (next_oid s) \<and> dash_inv cl' d'"
proof (cases ev)
  case DFormSubmit
  show ?thesis
  proof (cases "dash_showForm d")
    case True
    obtain m f' closed where sub: "todoForm_submit E now toIso s cl (dash_form d) = ((m, f', closed), cl', s')"
      and d': "d' = d\<lparr>dash_toast := Some m, dash_form := f', dash_showForm := \<not> closed\<rparr>"
      using run DFormSubmit True by (auto split: prod.splits)
    from todoForm_submit_cases [OF sub] show ?thesis
    proof
      assume "(cl', s') = (cl, s)"
      then show ?thesis using sync wf inv d' by (simp add: dash_inv_def)
    next
      assume "\<exists>ti de ur dd. (cl', s') = ui_step E now s cl (UiAdd ti de ur dd)"
      then obtain ti de ur dd where st: "ui_step E now s cl (UiAdd ti de ur dd) = (cl', s')"
        by metis
      have "set (client_todos cl) \<subseteq> set (client_todos cl')"
        using st by (simp add: addTodo_keeps_shown)
      with ui_step_sync [OF wf bound sync _ st] inv d' show ?thesis
        by (auto simp: dash_inv_def split: option.splits)
    qed
  next
    case False
    then show ?thesis using run DFormSubmit sync wf inv by auto
  qed
next
  case (DCard i ev')
  let ?ts = "sortedTodos (client_todos cl)"
  show ?thesis
  proof (cases "modal_open d \<or> \<not> i < length ?ts")
    case True
    then show ?thesis using run DCard sync wf inv by auto
  next
    case False
    then have none: "dash_editing d = None" by (simp add: modal_open_def)
    have t: "?ts ! i \<in> set (client_todos cl)"
      using False nth_mem [of i ?ts] by simp
    show ?thesis
    proof (cases "card_handler (?ts ! i) ev'")
      case (CardAction a)
      then have st: "ui_step E now s cl a = (cl', s')" and d': "d' = d"
        using run DCard False by (auto split: prod.splits)
      have "ui_id_ok cl a" using card_action_ok [OF t CardAction] .
      with ui_step_sync [OF wf bound sync _ st] d' none show ?thesis
        by (simp add: dash_inv_def)
    next
      case (CardOpenEdit t')
      then have "t' = ?ts ! i" by (cases ev') (auto simp: card_handler_def)
      with t CardOpenEdit run DCard False sync wf show ?thesis
        by (auto simp: dash_inv_def)
    qed
  qed
next
  case DEditSubmit
  show ?thesis
  proof (cases "dash_editing d")
    case None
    then show ?thesis using run DEditSubmit sync wf inv by auto
  next
    case (Some t)
    show ?thesis
    proof (cases "client_todos cl = []")
      case True
      then show ?thesis using run DEditSubmit Some sync wf inv by auto
    next
      case False
      obtain m closed where sub: "editForm_submit E now toIso s cl t (dash_editForm d) = ((m, closed), cl', s')"
        and d': "d' = d\<lparr>dash_toast := Some m, dash_editing := (if closed then None else Some t)\<rparr>"
        using run DEditSubmit Some False by (auto split: prod.splits)
      have t: "t \<in> set (client_todos cl)" using inv Some by (simp add: dash_inv_def)
      from editForm_submit_cases [OF sub] show ?thesis
      proof
        assume "\<not> closed \<and> cl' = cl \<and> s' = s"
        then show ?thesis using sync wf t d' by (simp add: dash_inv_def)
      next
        assume "closed \<and> (\<exists>ti de ur dd. (cl', s') = ui_step E now s cl (UiEdit (oid_hex (todo_id t)) ti de ur dd))"
        then obtain ti de ur dd where c: closed
          and st: "ui_step E now s cl (UiEdit (oid_hex (todo_id t)) ti de ur dd) = (cl', s')"
          by metis
        have "ui_id_ok cl (UiEdit (oid_hex (todo_id t)) ti de ur dd)"
          using t by (auto simp: list_ex_iff)
        with ui_step_sync [OF wf bound sync _ st] c d' show ?thesis
          by (simp add: dash_inv_def)
      qed
    qed
  qed
next
  case DChatSend
  show ?thesis
  proof (cases "modal_open d \<or> \<not> dash_chatOpen d")
    case True
    then show ?thesis using run DChatSend sync wf inv by auto
  next
    case False
    obtain ui' s'' where h: "handleSendMessage E now s cl tj (dash_chat d) = (ui', s'')"
      by fastforce
    then have "s'' = s" using handleSendMessage_store [of E now s cl tj "dash_chat d"] by simp
    with h run DChatSend False sync wf inv show ?thesis
      by (auto simp: dash_inv_def)
  qed
qed (use run sync wf inv in \<open>auto simp: dash_inv_def split: if_splits\<close>)

text \<open>
  C37 (functional): a submit of the create dialog with a title and a picked day closes
  the dialog and resets it, whatever the server answers, so the next \<open>Add Task\<close>
  opens the dialog empty, with the urgency \<open>normal\<close> and the date button reading
  \<open>Pick a date\<close>.
\<close>

theorem dialog_after_create:
  assumes "dash_showForm d" and "dash_editing d = None"
    and "js_trim (form_title (dash_form d)) \<noteq> []" and "form_dueDate (dash_form d) = Some dd"
    and "dashboard_step E now toIso tj s cl d DFormSubmit = (d', cl', s')"
  shows "fst (dashboard_dialogs ppp cl' d') = None
    \<and> fst (dashboard_dialogs ppp cl' (fst (dashboard_step E now toIso tj s' cl' d' DAddTask))) =
        Some \<lparr>fv_heading = ''Create New Task'', fv_title = [], fv_description = [], fv_urgency = ''normal'',
              fv_dateLabel = ''Pick a date'', fv_dateMuted = True, fv_submit = ''Create Task''\<rparr>"
  using assms
  by (auto simp: todoForm_submit_def Let_def dashboard_dialogs_def todoForm_render_def modal_open_def
      todo_form_init_def date_label_def split: prod.splits)

text \<open>The other dialog behaviours: a submit refused for a missing title or date keeps
  the dialog open with what was typed; \<open>Edit\<close> on a card opens the edit dialog with
  the task's values; each input shows in the dialog at once.\<close>

lemma dialog_refused_keeps_input:
  assumes "dash_showForm d" and "js_trim (form_title (dash_form d)) = [] \<or> form_dueDate (dash_form d) = None"
  shows "fst (dashboard_dialogs ppp cl (fst (dashboard_step E now toIso tj s cl d DFormSubmit))) =
      fst (dashboard_dialogs ppp cl d)
    \<and> fst (dashboard_dialogs ppp cl d) \<noteq> None"
  using assms
  by (auto simp: todoForm_submit_def dashboard_dialogs_def todoForm_render_def)

lemma dialog_edit_opens:
  assumes "\<not> modal_open d" and "i < length (client_todos cl)"
    and "sortedTodos (client_todos cl) ! i = t"
  shows "snd (dashboard_dialogs ppp cl (fst (dashboard_step E now toIso tj s cl d (DCard i CardEdit)))) =
    Some \<lparr>fv_heading = ''Edit Task'', fv_title = title t, fv_description = description t,
          fv_urgency = urgency t, fv_dateLabel = ppp (dueDate t), fv_dateMuted = False,
          fv_submit = ''Update Task''\<rparr>"
  using assms
  by (auto simp: card_handler_def dashboard_dialogs_def editForm_render_def editForm_init_def date_label_def)

lemma dialog_shows_input:
  assumes "dash_showForm d"
  shows "fst (dashboard_dialogs ppp cl (fst (dashboard_step E now toIso tj s cl d (DFormInput x)))) =
    todoForm_render ppp True (apply_input x (dash_form d))"
  using assms by (simp add: dashboard_dialogs_def)

section \<open>Properties of the page\<close>

text \<open>
  C35 (invariant): from a page in step with a well-formed store, whose edit dialog, if
  open, holds a shown task, every sequence of events on the dashboard (the cards'
  checkboxes and buttons, both dialogs with their inputs and submits, the chat
  window) keeps the list in step with the signed-in user's tasks in the store, the
  store well formed, and the edit dialog on a shown task. The cards only name shown
  tasks, so no event needs the hypothesis \<open>ui_run_ok\<close> of C16.
\<close>

theorem dashboard_keeps_synced:
  assumes "db_wf s" and "next_oid s + length evs \<le> 16 ^ 24" and "client_synced E s cl"
    and "dash_inv cl d" and "dashboard_run E now toIso tj s cl d evs = (d', cl', s')"
  shows "client_synced E s' cl' \<and> db_wf s' \<and> dash_inv cl' d'"
  using assms
proof (induction evs arbitrary: s cl d)
  case Nil
  then show ?case by simp
next
  case (Cons ev evs)
  obtain d1 cl1 s1 where step: "dashboard_step E now toIso tj s cl d ev = (d1, cl1, s1)"
    by (metis prod_cases3)
  have "next_oid s < 16 ^ 24" using Cons.prems(2) by simp
  with dashboard_step_sync [OF Cons.prems(1) _ Cons.prems(3,4) step]
  have "client_synced E s1 cl1 \<and> db_wf s1 \<and> next_oid s1 \<le> Suc (next_oid s) \<and> dash_inv cl1 d1"
    by blast
  moreover have "dashboard_run E now toIso tj s1 cl1 d1 evs = (d', cl', s')"
    using Cons.prems(5) step by simp
  ultimately show ?case using Cons.prems(2) by (intro Cons.IH) auto
qed

text \<open>
  C36 (functional): a non-empty list is rendered as one card per task, in the order
  of \<open>sortedTodos\<close>, keyed by the task's id; the cards with the alert icon are as many
  as the overdue counter of the dashboard says, the struck ones as many as the
  completed counter, the others as many as the pending counter.
\<close>

theorem todoList_cards_counters:
  assumes "ts \<noteq> []"
  shows "\<exists>cs. todoList_render now ts e = TaskCards cs e
    \<and> map card_key cs = map (\<lambda>t. oid_hex (todo_id t)) (sortedTodos ts)
    \<and> length (filter card_expired cs) = overdueTasks now ts
    \<and> length (filter card_completed cs) = completedTasks ts
    \<and> length (filter (\<lambda>c. \<not> card_completed c) cs) = pendingTasks ts"
proof -
  let ?cs = "map (todoCard now) (sortedTodos ts)"
  have "todoList_render now ts e = TaskCards ?cs e"
    using assms by (simp add: todoList_render_def)
  moreover have "length (filter card_expired ?cs) = overdueTasks now ts"
    by (simp add: comp_def todoCard_def isExpired_def overdueTasks_def)
      (intro arg_cong [where f = length] filter_cong, auto)
  moreover have "length (filter card_completed ?cs) = completedTasks ts"
    by (simp add: comp_def todoCard_def completedTasks_def)
  moreover have "length (filter (\<lambda>c. \<not> card_completed c) ?cs) = pendingTasks ts"
    by (simp add: comp_def todoCard_def pendingTasks_def)
  ultimately show ?thesis by (auto simp: todoCard_def)
qed

end
