(* ===== verification/ChatSession.thy ===== *)
theory ChatSession
  imports View
begin

text \<open>
  The chat window of \<open>src/frontend/src/components/ChatBot.tsx\<close> as the browser runs it.
  \<open>handleSendMessage\<close> is \<open>async\<close>: its part before \<open>await fetch(...)\<close> appends the
  question, clears the input, sets \<open>loading\<close> and sends the request built from the
  messages of the render in which the button was clicked; its continuation appends
  the answer and clears \<open>loading\<close> when the response arrives. Nothing disables the
  send button or the Enter key while \<open>loading\<close>, so several requests can be in flight,
  and their responses arrive in any order. The session is the component's state with
  the requests in flight; \<open>chat_send\<close> and \<open>chat_arrive\<close> are the two halves.
\<close>

section \<open>The two halves of a send\<close>

record chat_session =
  cs_ui :: chat_ui
  cs_loading :: bool
  cs_pending :: "(header \<times> chat_body) list"

definition chat_session_init :: chat_session where
  "chat_session_init = \<lparr>cs_ui = chat_ui_init, cs_loading = False, cs_pending = []\<rparr>"

text \<open>\<open>onChange={(e) => setInput(e.target.value)}\<close>\<close>

definition chat_input :: "string \<Rightarrow> chat_session \<Rightarrow> chat_session" where
  "chat_input x cs = cs\<lparr>cs_ui := (cs_ui cs)\<lparr>ui_input := x\<rparr>\<rparr>"

text \<open>Lines 25--49: the guard, the question, \<open>setLoading(true)\<close>, and the request. With
  no signed-in user, \<open>user.token\<close> throws before the \<open>await\<close>, so the \<open>catch\<close> and the
  \<open>finally\<close> run at once.\<close>

definition chat_send :: "client \<Rightarrow> (todo_doc \<Rightarrow> json) \<Rightarrow> chat_session \<Rightarrow> chat_session" where
  "chat_send cl tj cs =
     (let ui = cs_ui cs in
      if js_trim (ui_input ui) = [] then cs
      else (let um = js_trim (ui_input ui); msgs = ui_messages ui @ [(um, False)] in
            case user cl of
              None \<Rightarrow> cs\<lparr>cs_ui := ui\<lparr>ui_messages := msgs @ [(''Error: Unable to reach server.'', True)],
                                      ui_input := []\<rparr>, cs_loading := False\<rparr>
            | Some usr \<Rightarrow>
                cs\<lparr>cs_ui := ui\<lparr>ui_messages := msgs, ui_input := []\<rparr>, cs_loading := True,
                   cs_pending := cs_pending cs @
                     [(Some (auth_token usr),
                       \<lparr>body_todoList = Some (JArr (map tj (client_todos cl))),
                        body_chats = Some (JArr (chat_window (ui_messages ui) um))\<rparr>)]\<rparr>))"

text \<open>Lines 51--62: the response to the \<open>k\<close>-th request in flight arrives; the server
  answers it, the answer is appended to the messages as they are then
  (\<open>setMessages((prev) => [...prev, ...])\<close>), and \<open>finally\<close> clears \<open>loading\<close>.\<close>

definition chat_arrive :: "server_env \<Rightarrow> nat \<Rightarrow> db \<Rightarrow> nat \<Rightarrow> chat_session \<Rightarrow> chat_session \<times> db" where
  "chat_arrive E now s k cs =
     (let (h, b) = cs_pending cs ! k; (r, s') = app E now s (ChatReq h b); ui = cs_ui cs in
      (cs\<lparr>cs_ui := ui\<lparr>ui_messages := ui_messages ui @ [(chat_content r, True)]\<rparr>, cs_loading := False,
          cs_pending := take k (cs_pending cs) @ drop (Suc k) (cs_pending cs)\<rparr>, s'))"

text \<open>\<open>handleKeyPress\<close>: Enter in the input sends.\<close>

definition chat_keypress :: "string \<Rightarrow> client \<Rightarrow> (todo_doc \<Rightarrow> json) \<Rightarrow> chat_session \<Rightarrow> chat_session" where
  "chat_keypress key cl tj cs = (if key = ''Enter'' then chat_send cl tj cs else cs)"

text \<open>What the open window renders: one bubble per message, on the left for the
  assistant and on the right for the user, the \<open>Typing...\<close> bubble while
  \<open>loading\<close>, and the input; nothing but the bot icon while the window is closed.\<close>

datatype bubble_side = BubbleLeft | BubbleRight

record chat_view =
  cv_bubbles :: "(string \<times> bubble_side) list"
  cv_typing :: bool
  cv_input :: string

definition chatBot_render :: "bool \<Rightarrow> chat_session \<Rightarrow> chat_view option" where
  "chatBot_render isOpen cs =
     (if isOpen
      then Some \<lparr>cv_bubbles = map (\<lambda>(t, b). (t, if b then BubbleLeft else BubbleRight)) (ui_messages (cs_ui cs)),
                 cv_typing = cs_loading cs, cv_input = ui_input (cs_ui cs)\<rparr>
      else None)"

text \<open>The sessions the window can reach, under any browser state, server and order of
  the responses.\<close>

inductive chat_reach :: "chat_session \<Rightarrow> bool" where
  init: "chat_reach chat_session_init"
| input: "chat_reach cs \<Longrightarrow> chat_reach (chat_input x cs)"
| send: "chat_reach cs \<Longrightarrow> chat_reach (chat_send cl tj cs)"
| arrive: "chat_reach cs \<Longrightarrow> k < length (cs_pending cs) \<Longrightarrow> chat_reach (fst (chat_arrive E now s k cs))"

text \<open>Questions and answers in a list of messages (\<open>isBot\<close> is the second component).\<close>

definition questions :: "(string \<times> bool) list \<Rightarrow> nat" where
  "questions ms = length (filter (\<lambda>m. \<not> snd m) ms)"

definition answers :: "(string \<times> bool) list \<Rightarrow> nat" where
  "answers ms = length (filter snd ms)"

section \<open>Lemmas\<close>

text \<open>A chat request leaves the store as it is; counting questions and answers.\<close>

lemma app_chat_store: "snd (app E now s (ChatReq h b)) = s"
  by (simp add: app_chat split: sum.splits)

lemma questions_append [simp]: "questions (xs @ ys) = questions xs + questions ys"
  by (simp add: questions_def)

lemma answers_append [simp]: "answers (xs @ ys) = answers xs + answers ys"
  by (simp add: answers_def)

lemma questions_simps [simp]: "questions [] = 0" "questions (m # ms) = (if snd m then 0 else 1) + questions ms"
  by (simp_all add: questions_def)

lemma answers_simps [simp]: "answers [] = 0" "answers (m # ms) = (if snd m then 1 else 0) + answers ms"
  by (simp_all add: answers_def)

section \<open>Properties of the chat window\<close>

text \<open>
  C38 (invariant): in every session the window can reach, under any order of the
  responses, each question of the user is answered exactly once or is still in
  flight: the questions and the welcome message are as many as the answers and the
  requests in flight.
\<close>

theorem chat_reach_answers:
  "chat_reach cs \<Longrightarrow>
     questions (ui_messages (cs_ui cs)) + 1 = answers (ui_messages (cs_ui cs)) + length (cs_pending cs)"
proof (induction rule: chat_reach.induct)
  case init
  then show ?case by (simp add: chat_session_init_def chat_ui_init_def)
next
  case (input cs x)
  then show ?case by (simp add: chat_input_def)
next
  case (send cs cl tj)
  then show ?case by (auto simp: chat_send_def Let_def split: option.splits)
next
  case (arrive cs k E now s)
  then show ?case by (auto simp: chat_arrive_def Let_def split: prod.splits)
qed

text \<open>
  C39 (error): two questions sent before the first answer arrives overlap: the second
  request is built without the first answer, the \<open>Typing...\<close> indicator goes off at
  the first response although a request is still in flight, and when the responses
  arrive in the other order the window shows both questions, then the answer to the
  second, then the answer to the first.
\<close>

theorem chat_answers_out_of_order:
  assumes "cs_pending cs = []" and "user cl = Some usr" and "js_trim q1 \<noteq> []" and "js_trim q2 \<noteq> []"
    and "chat_send cl tj (chat_input q2 (chat_send cl tj (chat_input q1 cs))) = cs2"
    and "chat_arrive E now s 1 cs2 = (cs3, s3)" and "chat_arrive E now s3 0 cs3 = (cs4, s4)"
  shows "\<not> cs_loading cs3 \<and> cs_pending cs3 \<noteq> []
    \<and> ui_messages (cs_ui cs4) = ui_messages (cs_ui cs) @
        [(js_trim q1, False), (js_trim q2, False),
         (chat_content (fst (app E now s (ChatReq (Some (auth_token usr))
            \<lparr>body_todoList = Some (JArr (map tj (client_todos cl))),
             body_chats = Some (JArr (chat_window (ui_messages (cs_ui cs) @ [(js_trim q1, False)]) (js_trim q2)))\<rparr>))),
          True),
         (chat_content (fst (app E now s (ChatReq (Some (auth_token usr))
            \<lparr>body_todoList = Some (JArr (map tj (client_todos cl))),
             body_chats = Some (JArr (chat_window (ui_messages (cs_ui cs)) (js_trim q1)))\<rparr>))),
          True)]"
proof -
  have s3: "s3 = s" using assms(6) by (auto simp: chat_arrive_def Let_def prod.case_eq_if app_chat_store)
  show ?thesis
    using assms s3 by (auto simp: chat_send_def chat_input_def chat_arrive_def Let_def prod.case_eq_if)
qed

end
