(* ===== verification/Boot.thy ===== *)
theory Boot
  imports Server Complex_Main
begin

text \<open>
  Start-up of the backend: \<open>src/backend-todo/src/index.js\<close> and \<open>db/mongo-db.js\<close>.
  Node loads a module by first entering it in its module cache, then loading the
  modules it requires, in the order of its \<open>require\<close> lines, then running its own
  body; a module found in the cache is not loaded again. \<open>module\<close> lists the modules
  of the repository (the libraries they require have no effect on the model),
  \<open>requires\<close> their \<open>require\<close> lines and \<open>module_body\<close> what their bodies do to the
  process: \<open>services/authentication.js\<close> reads \<open>JWT_SECRET\<close> into a constant,
  \<open>services/LLM-chatbot.js\<close> runs \<open>dotenv.config\<close> and builds the Mistral client
  from \<open>MISTRAL_AI_API\<close>, and \<open>index.js\<close> runs \<open>dotenv.config\<close>, calls
  \<open>mongoDBConnection()\<close> without awaiting it and listens on port 3000. The loader
  is \<open>boot_exec\<close>, a worklist of the modules to require and the bodies to run.

  After loading, the process is a step relation: the connection succeeds (only when
  \<open>MONGO_DB\<close> is set: \<open>mongoose.connect(undefined)\<close> rejects) or fails and the
  process exits with status 1, and once connected the server of \<open>Server\<close> runs.
\<close>

section \<open>Modules and their loading\<close>

type_synonym env = "string \<rightharpoonup> string"

datatype module =
    Index | App | AuthRoute | AuthController | Authentication | UserModel | PasswordBcrypt
  | DecodeToken | TodoRoute | TodoController | UserTodo | TodoModel | ChatbotRoute
  | LlmController | LlmChatbot | MongoDb

definition all_modules :: "module list" where
  "all_modules = [Index, App, AuthRoute, AuthController, Authentication, UserModel, PasswordBcrypt,
     DecodeToken, TodoRoute, TodoController, UserTodo, TodoModel, ChatbotRoute, LlmController,
     LlmChatbot, MongoDb]"

text \<open>The \<open>require\<close> lines of each module that name a module of the repository.\<close>

primrec requires :: "module \<Rightarrow> module list" where
  "requires Index = [App, MongoDb]"
| "requires App = [AuthRoute, TodoRoute, ChatbotRoute]"
| "requires AuthRoute = [AuthController, DecodeToken]"
| "requires AuthController = [Authentication]"
| "requires Authentication = [UserModel, PasswordBcrypt]"
| "requires UserModel = []"
| "requires PasswordBcrypt = []"
| "requires DecodeToken = []"
| "requires TodoRoute = [DecodeToken, TodoController]"
| "requires TodoController = [UserTodo]"
| "requires UserTodo = [TodoModel]"
| "requires TodoModel = []"
| "requires ChatbotRoute = [DecodeToken, LlmController]"
| "requires LlmController = [LlmChatbot]"
| "requires LlmChatbot = []"
| "requires MongoDb = []"

text \<open>\<open>new ChatMistralAI({apiKey, temperature: temp, model: modelName})\<close>.\<close>

record mistral_config =
  apiKey :: string
  temperature :: real
  modelName :: string

record boot =
  proc_env :: env
  auth_secret :: "string option"
  mistral_cfg :: "mistral_config option"
  db_connect :: bool
  listen_port :: "nat option"

definition boot_init :: "env \<Rightarrow> boot" where
  "boot_init pe = \<lparr>proc_env = pe, auth_secret = None, mistral_cfg = None,
     db_connect = False, listen_port = None\<rparr>"

text \<open>\<open>dotenv.config({path: "./.env"})\<close> adds the variables of the file that the
  process environment does not already set; a missing file adds nothing.\<close>

definition dotenv_config :: "env \<Rightarrow> boot \<Rightarrow> boot" where
  "dotenv_config f b = b\<lparr>proc_env := f ++ proc_env b\<rparr>"

text \<open>\<open>LLM-chatbot.js\<close> lines 9--17: \<open>process.env.MISTRAL_AI_API || ""\<close>.\<close>

definition mistral_of_env :: "env \<Rightarrow> mistral_config" where
  "mistral_of_env e = \<lparr>apiKey = (case e ''MISTRAL_AI_API'' of None \<Rightarrow> [] | Some k \<Rightarrow> k),
     temperature = 95 / 100, modelName = ''mistral-large-latest''\<rparr>"

primrec module_body :: "env \<Rightarrow> module \<Rightarrow> boot \<Rightarrow> boot" where
  "module_body f Index b =
     (let b' = dotenv_config f b in b'\<lparr>db_connect := True, listen_port := Some 3000\<rparr>)"
| "module_body f App b = b"
| "module_body f AuthRoute b = b"
| "module_body f AuthController b = b"
| "module_body f Authentication b = b\<lparr>auth_secret := proc_env b ''JWT_SECRET''\<rparr>"
| "module_body f UserModel b = b"
| "module_body f PasswordBcrypt b = b"
| "module_body f DecodeToken b = b"
| "module_body f TodoRoute b = b"
| "module_body f TodoController b = b"
| "module_body f UserTodo b = b"
| "module_body f TodoModel b = b"
| "module_body f ChatbotRoute b = b"
| "module_body f LlmController b = b"
| "module_body f LlmChatbot b =
     (let b' = dotenv_config f b in b'\<lparr>mistral_cfg := Some (mistral_of_env (proc_env b'))\<rparr>)"
| "module_body f MongoDb b = b"

datatype load_task = Require module | Run module

text \<open>The worklist, the module cache (the modules entered so far, in order) and the
  process.\<close>

definition unloaded :: "module list \<Rightarrow> nat" where
  "unloaded ld = length (filter (\<lambda>m. m \<notin> set ld) all_modules)"

function boot_exec :: "env \<Rightarrow> load_task list \<Rightarrow> module list \<Rightarrow> boot \<Rightarrow> module list \<times> boot" where
  "boot_exec f [] ld b = (ld, b)"
| "boot_exec f (Require m # ts) ld b =
     (if m \<in> set ld then boot_exec f ts ld b
      else boot_exec f (map Require (requires m) @ Run m # ts) (ld @ [m]) b)"
| "boot_exec f (Run m # ts) ld b = boot_exec f ts ld (module_body f m b)"
  by pat_completeness auto
termination
proof (relation "measures [\<lambda>(f, ts, ld, b). unloaded ld, \<lambda>(f, ts, ld, b). length ts]")
  fix f :: env and m :: module and ts ld and b :: boot
  assume "m \<notin> set ld"
  moreover have "m \<in> set all_modules" by (cases m) (simp_all add: all_modules_def)
  ultimately show "((f, map Require (requires m) @ Run m # ts, ld @ [m], b), f, Require m # ts, ld, b)
      \<in> measures [\<lambda>(f, ts, ld, b). unloaded ld, \<lambda>(f, ts, ld, b). length ts]"
    by (simp add: unloaded_def length_filter_remove_less)
qed auto

text \<open>\<open>node src/index.js\<close> with process environment \<open>pe\<close> and \<open>.env\<close> file \<open>f\<close>.\<close>

definition index_boot :: "env \<Rightarrow> env \<Rightarrow> module list \<times> boot" where
  "index_boot f pe = boot_exec f [Require Index] [] (boot_init pe)"


section \<open>The running process\<close>

text \<open>The server environment the loaded modules give: the secret \<open>authentication.js\<close>
  read (the middleware \<open>decode-token\<close>, absent from the repository, verifies with
  the same secret), and the chat model built from the Mistral configuration; the
  Mistral API, the Date parser, the keys clients know and \<open>JSON.stringify\<close> are
  parameters.\<close>

definition boot_server_env ::
  "(mistral_config \<Rightarrow> llm) \<Rightarrow> date_parser \<Rightarrow> string list \<Rightarrow> (json \<Rightarrow> string) \<Rightarrow> boot \<Rightarrow> server_env" where
  "boot_server_env mistral dp ks sf b =
     \<lparr>parse_date = dp, secret_var = auth_secret b, adv_keys = ks,
      chat_model = (case mistral_cfg b of None \<Rightarrow> (\<lambda>_. None) | Some c \<Rightarrow> mistral c),
      chat_stringify = sf\<rparr>"

datatype phase = Connecting | Connected | Exited nat

record proc =
  proc_phase :: phase
  proc_server :: server

text \<open>\<open>mongo-db.js\<close>: \<open>await mongoose.connect(process.env.MONGO_DB)\<close> resolves, or
  rejects and the \<open>catch\<close> calls \<open>process.exit(1)\<close>; \<open>mongoose.connect(undefined)\<close>
  always rejects. Once connected, the listening server serves requests.\<close>

inductive proc_step :: "server_env \<Rightarrow> boot \<Rightarrow> proc \<Rightarrow> proc \<Rightarrow> bool" for E :: server_env and b :: boot where
  connected: "proc_phase P = Connecting \<Longrightarrow> proc_env b ''MONGO_DB'' \<noteq> None \<Longrightarrow>
    proc_step E b P (P\<lparr>proc_phase := Connected\<rparr>)"
| failed: "proc_phase P = Connecting \<Longrightarrow> proc_step E b P (P\<lparr>proc_phase := Exited 1\<rparr>)"
| serve: "proc_phase P = Connected \<Longrightarrow> listen_port b \<noteq> None \<Longrightarrow> server_step E (proc_server P) S \<Longrightarrow>
    proc_step E b P (P\<lparr>proc_server := S\<rparr>)"

inductive proc_reach :: "server_env \<Rightarrow> boot \<Rightarrow> proc \<Rightarrow> bool" for E :: server_env and b :: boot where
  init: "db_connect b \<Longrightarrow> proc_reach E b \<lparr>proc_phase = Connecting, proc_server = init_server\<rparr>"
| step: "proc_reach E b P \<Longrightarrow> proc_step E b P P' \<Longrightarrow> proc_reach E b P'"

section \<open>Lemmas\<close>

text \<open>Loading \<open>index.js\<close>: every module is loaded once, in this order, and the process
  ends up with the \<open>.env\<close> file merged under its environment, the secret of the
  environment the process started with, the Mistral client of the merged
  environment, the connection started and the server listening on port 3000.\<close>

lemma index_boot_result:
  "index_boot f pe =
    ([Index, App, AuthRoute, AuthController, Authentication, UserModel, PasswordBcrypt,
      DecodeToken, TodoRoute, TodoController, UserTodo, TodoModel, ChatbotRoute, LlmController,
      LlmChatbot, MongoDb],
     \<lparr>proc_env = f ++ pe, auth_secret = pe ''JWT_SECRET'', mistral_cfg = Some (mistral_of_env (f ++ pe)),
      db_connect = True, listen_port = Some 3000\<rparr>)"
  by (simp add: index_boot_def boot_init_def dotenv_config_def map_add_assoc [symmetric])

lemma index_boot_loads_all: "set (fst (index_boot f pe)) = set all_modules \<and> distinct (fst (index_boot f pe))"
  by (simp add: index_boot_result all_modules_def)

text \<open>The secret the server signs and verifies with is the one of the environment the
  process started with: a \<open>JWT_SECRET\<close> set only in \<open>.env\<close> is read by nobody,
  since \<open>authentication.js\<close> is loaded (through \<open>app.js\<close>, \<open>auth-route.js\<close>,
  \<open>auth-controller.js\<close>) before the first \<open>dotenv.config\<close> runs in
  \<open>LLM-chatbot.js\<close>. The Mistral key and \<open>MONGO_DB\<close> do see the file.\<close>

lemma index_boot_secret:
  "server_secret (boot_server_env mistral dp ks sf (snd (index_boot f pe))) = jwt_secret (pe ''JWT_SECRET'')"
  by (simp add: index_boot_result boot_server_env_def server_secret_def)

lemma index_boot_env_secret_ignored:
  "pe ''JWT_SECRET'' = None \<Longrightarrow>
     server_secret (boot_server_env mistral dp ks sf (snd (index_boot f pe))) = dev_secret"
  by (simp add: index_boot_secret jwt_secret_def)

lemma index_boot_mistral:
  "chat_model (boot_server_env mistral dp ks sf (snd (index_boot f pe))) =
     mistral \<lparr>apiKey = (case (f ++ pe) ''MISTRAL_AI_API'' of None \<Rightarrow> [] | Some k \<Rightarrow> k),
              temperature = 95 / 100, modelName = ''mistral-large-latest''\<rparr>"
  by (simp add: index_boot_result boot_server_env_def mistral_of_env_def)

text \<open>
  C24 (safety): a \<open>JWT_SECRET\<close> set only in \<open>.env\<close> is ignored. When the variable is
  missing from the environment the process starts with, whatever \<open>.env\<close> holds, the
  started server verifies tokens with the public literal \<open>'your-dev-secret'\<close>, so a
  token anyone signs with it reads the tasks of any user name: \<open>authentication.js\<close>
  reads the variable while \<open>app.js\<close> loads it, before \<open>LLM-chatbot.js\<close> runs the
  first \<open>dotenv.config\<close>.
\<close>

lemma index_boot_forged_read:
  "pe ''JWT_SECRET'' = None \<Longrightarrow>
     app (boot_server_env mistral dp ks sf (snd (index_boot f pe))) now s
       (TodoReq (MyTodos (Some (jwt_sign i u t dev_secret)))) =
     (RTodo (getTodos s \<lparr>claim_id = i, claim_username = u, claim_iat = t\<rparr>), s)"
  by (simp add: index_boot_env_secret_ignored app_def todoRouter_def verifyToken_def decode_token_def)

text \<open>Start-up never checks the secret: with no \<open>JWT_SECRET\<close> anywhere the process
  still connects and listens.\<close>

lemma index_boot_listens: "listen_port (snd (index_boot f pe)) = Some 3000 \<and> db_connect (snd (index_boot f pe))"
  by (simp add: index_boot_result)

text \<open>The running process: the store stays well formed; a process that exits does so
  with status 1 before serving anything; with \<open>MONGO_DB\<close> unset in both the
  environment and \<open>.env\<close> it never serves a request.\<close>

lemma proc_reach_wf: "proc_reach E b P \<Longrightarrow> db_wf (store (proc_server P))"
proof (induction rule: proc_reach.induct)
  case init
  then show ?case by (simp add: init_server_def empty_db_def db_wf_def all_ids_def)
next
  case (step P P')
  then show ?case by (auto elim!: proc_step.cases intro: server_step_wf)
qed





end
