(* ===== verification/Http.thy ===== *)
theory Http
  imports Server
begin

text \<open>
  The HTTP surface of \<open>src/backend-todo/src/app.js\<close>: the middleware chain
  \<open>cors({origin: "*"})\<close>, \<open>express.json()\<close>, \<open>morgan("dev")\<close>, then the three routers
  mounted under \<open>/v1/auth\<close>, \<open>/v1/user\<close> and \<open>/v1/llm\<close>, each a table of method, path
  and controller (\<open>routes/*.js\<close>). A raw request has a method, a URL, the bearer
  header and a body; \<open>http_app\<close> runs the chain: \<open>cors\<close> answers a preflight
  \<open>OPTIONS\<close> with 204 and sets \<open>Access-Control-Allow-Origin: *\<close> on every response,
  \<open>express.json\<close> refuses a malformed body (or a JSON body that is neither an object
  nor an array) with 400 and gives \<open>{}\<close> when the request has no JSON body (Express
  4), \<open>morgan\<close> only logs, and an unmatched method and path is Express's 404.
  Express matches paths ignoring case, the query string and one trailing slash, and
  serves \<open>HEAD\<close> with the \<open>GET\<close> route. A matched route builds the \<open>request\<close> of
  \<open>Server\<close> from the destructured body and runs \<open>app\<close>. \<open>wire\<close> is what the
  frontend's \<open>fetch\<close> calls send, and \<open>http_app_wire\<close> shows the chain hands it to
  \<open>app\<close> as the request the client model uses.
\<close>

section \<open>Route tables\<close>

datatype http_method = GET | HEAD | POST | PUT | DELETE | PATCH | OPTIONS

datatype endpoint = EpLogin | EpSignup | EpInfo | EpMy | EpCreate | EpUpdate | EpDelete | EpToggle | EpChat

definition auth_routes :: "(http_method \<times> string \<times> endpoint) list" where
  "auth_routes = [(POST, ''/login'', EpLogin), (POST, ''/signup'', EpSignup), (GET, ''/info'', EpInfo)]"

definition todo_routes :: "(http_method \<times> string \<times> endpoint) list" where
  "todo_routes = [(GET, ''/todo/my'', EpMy), (POST, ''/todo/create'', EpCreate),
     (PUT, ''/todo/update'', EpUpdate), (DELETE, ''/todo/delete'', EpDelete),
     (PATCH, ''/todo/toggle'', EpToggle)]"

definition chat_routes :: "(http_method \<times> string \<times> endpoint) list" where
  "chat_routes = [(POST, ''/chat'', EpChat)]"

definition app_mounts :: "(string \<times> (http_method \<times> string \<times> endpoint) list) list" where
  "app_mounts = [(''/v1/auth'', auth_routes), (''/v1/user'', todo_routes), (''/v1/llm'', chat_routes)]"

text \<open>Every route with its mount path, in the order Express tries them.\<close>

definition all_routes :: "(http_method \<times> string \<times> endpoint) list" where
  "all_routes = concat (map (\<lambda>(pre, rs). map (\<lambda>(m, p, e). (m, pre @ p, e)) rs) app_mounts)"

definition url_path :: "string \<Rightarrow> string" where
  "url_path u = takeWhile (\<lambda>c. c \<noteq> CHR ''?'') u"

definition path_matches :: "string \<Rightarrow> string \<Rightarrow> bool" where
  "path_matches pat p \<longleftrightarrow> js_lower p = js_lower pat \<or> js_lower p = js_lower pat @ ''/''"

definition method_matches :: "http_method \<Rightarrow> http_method \<Rightarrow> bool" where
  "method_matches rm m \<longleftrightarrow> rm = m \<or> (rm = GET \<and> m = HEAD)"

definition route :: "http_method \<Rightarrow> string \<Rightarrow> endpoint option" where
  "route m u =
     map_option (\<lambda>(rm, p, e). e) (find (\<lambda>(rm, p, e). method_matches rm m \<and> path_matches p (url_path u)) all_routes)"

section \<open>Bodies and requests\<close>

text \<open>What \<open>express.json()\<close> saw: no JSON body, a parsed one, or malformed JSON.\<close>

datatype http_body = NoJson | JsonBody json | BadJson

record http_request =
  hr_method :: http_method
  hr_url :: string
  hr_auth :: header
  hr_body :: http_body

text \<open>\<open>req.body\<close>, or \<open>None\<close> for a body \<open>express.json\<close> refuses (its \<open>strict\<close> mode
  accepts objects and arrays only).\<close>

fun req_body :: "http_body \<Rightarrow> json option" where
  "req_body NoJson = Some (JObj [])"
| "req_body (JsonBody (JObj fs)) = Some (JObj fs)"
| "req_body (JsonBody (JArr xs)) = Some (JArr xs)"
| "req_body (JsonBody _) = None"
| "req_body BadJson = None"

text \<open>\<open>const { x } = req.body\<close>: the property of an object, \<open>undefined\<close> otherwise.
  The fields the controllers pass on as strings are read as strings; a field holding
  another JSON value is read as absent.\<close>

definition body_get :: "json \<Rightarrow> string \<Rightarrow> json option" where
  "body_get b k = (case b of JObj fs \<Rightarrow> json_get fs k | _ \<Rightarrow> None)"

definition str_field :: "json \<Rightarrow> string \<Rightarrow> field" where
  "str_field b k = (case body_get b k of Some (JStr x) \<Rightarrow> Some x | _ \<Rightarrow> None)"

definition auth_body_of :: "json \<Rightarrow> auth_body" where
  "auth_body_of b = \<lparr>body_username = str_field b ''username'', body_password = str_field b ''password'',
     body_fullname = str_field b ''fullname''\<rparr>"

definition todo_body_of :: "json \<Rightarrow> todo_body" where
  "todo_body_of b = \<lparr>body_title = str_field b ''title'', body_description = str_field b ''description'',
     body_urgency = str_field b ''urgency'', body_dueDate = str_field b ''dueDate'', body_id = str_field b ''id''\<rparr>"

definition chat_body_of :: "json \<Rightarrow> chat_body" where
  "chat_body_of b = \<lparr>body_todoList = body_get b ''todoList'', body_chats = body_get b ''chats''\<rparr>"

primrec request_of :: "salt \<Rightarrow> header \<Rightarrow> json \<Rightarrow> endpoint \<Rightarrow> request" where
  "request_of salt h b EpLogin = AuthReq (Login (auth_body_of b))"
| "request_of salt h b EpSignup = AuthReq (Signup (auth_body_of b) salt)"
| "request_of salt h b EpInfo = AuthReq (Info h)"
| "request_of salt h b EpMy = TodoReq (MyTodos h)"
| "request_of salt h b EpCreate = TodoReq (CreateTodo h (todo_body_of b))"
| "request_of salt h b EpUpdate = TodoReq (UpdateTodo h (todo_body_of b))"
| "request_of salt h b EpDelete = TodoReq (DeleteTodo h (todo_body_of b))"
| "request_of salt h b EpToggle = TodoReq (ToggleTodo h (todo_body_of b))"
| "request_of salt h b EpChat = ChatReq h (chat_body_of b)"

section \<open>Responses\<close>

datatype http_payload = Payload reply | NotFound | BadRequest | NoContent

record http_response =
  resp_status :: nat
  resp_cors :: "string option"
  resp_payload :: http_payload

text \<open>\<open>res.status(400)\<close> of \<open>llm-controller.js\<close>, the refusal of the middleware, and
  the default 200 of \<open>res.json\<close>.\<close>

fun reply_status :: "reply \<Rightarrow> nat" where
  "reply_status (RChat (ChatError EInvalidChatFormat)) = 400"
| "reply_status RUnauthorized = 401"
| "reply_status _ = 200"

definition cors_response :: "nat \<Rightarrow> http_payload \<Rightarrow> http_response" where
  "cors_response st p = \<lparr>resp_status = st, resp_cors = Some ''*'', resp_payload = p\<rparr>"

definition http_app :: "server_env \<Rightarrow> nat \<Rightarrow> salt \<Rightarrow> db \<Rightarrow> http_request \<Rightarrow> http_response \<times> db" where
  "http_app E now salt s q =
     (if hr_method q = OPTIONS then (cors_response 204 NoContent, s)
      else (case req_body (hr_body q) of
              None \<Rightarrow> (cors_response 400 BadRequest, s)
            | Some b \<Rightarrow>
                (case route (hr_method q) (hr_url q) of
                   None \<Rightarrow> (cors_response 404 NotFound, s)
                 | Some ep \<Rightarrow>
                     (let (r, s') = app E now s (request_of salt (hr_auth q) b ep)
                      in (cors_response (reply_status r) (Payload r), s')))))"

section \<open>The requests the frontend sends\<close>

text \<open>\<open>JSON.stringify\<close> of an object literal: the properties in the order written,
  those that are \<open>undefined\<close> left out.\<close>

definition json_fields :: "(string \<times> json option) list \<Rightarrow> json" where
  "json_fields ps = JObj (List.map_filter (\<lambda>(k, v). map_option (\<lambda>j. (k, j)) v) ps)"

definition str_json :: "field \<Rightarrow> json option" where
  "str_json f = map_option JStr f"

text \<open>The \<open>fetch\<close> of each context call (\<open>contexts/TodoContext.tsx\<close>,
  \<open>contexts/AuthContext.tsx\<close>, \<open>components/ChatBot.tsx\<close>): method, path under
  \<open>host\<close>, the bearer header and the JSON body; the GET requests send no body. The
  bcrypt salt of a signup is drawn by the server.\<close>

primrec wire_todo :: "todo_request \<Rightarrow> http_request" where
  "wire_todo (MyTodos h) = \<lparr>hr_method = GET, hr_url = ''/v1/user/todo/my'', hr_auth = h, hr_body = NoJson\<rparr>"
| "wire_todo (CreateTodo h b) = \<lparr>hr_method = POST, hr_url = ''/v1/user/todo/create'', hr_auth = h,
     hr_body = JsonBody (json_fields [(''title'', str_json (body_title b)),
       (''description'', str_json (body_description b)), (''urgency'', str_json (body_urgency b)),
       (''dueDate'', str_json (body_dueDate b)), (''id'', str_json (body_id b))])\<rparr>"
| "wire_todo (UpdateTodo h b) = \<lparr>hr_method = PUT, hr_url = ''/v1/user/todo/update'', hr_auth = h,
     hr_body = JsonBody (json_fields [(''id'', str_json (body_id b)), (''title'', str_json (body_title b)),
       (''description'', str_json (body_description b)), (''urgency'', str_json (body_urgency b)),
       (''dueDate'', str_json (body_dueDate b))])\<rparr>"
| "wire_todo (DeleteTodo h b) = \<lparr>hr_method = DELETE, hr_url = ''/v1/user/todo/delete'', hr_auth = h,
     hr_body = JsonBody (json_fields [(''id'', str_json (body_id b)), (''title'', str_json (body_title b)),
       (''description'', str_json (body_description b)), (''urgency'', str_json (body_urgency b)),
       (''dueDate'', str_json (body_dueDate b))])\<rparr>"
| "wire_todo (ToggleTodo h b) = \<lparr>hr_method = PATCH, hr_url = ''/v1/user/todo/toggle'', hr_auth = h,
     hr_body = JsonBody (json_fields [(''id'', str_json (body_id b)), (''title'', str_json (body_title b)),
       (''description'', str_json (body_description b)), (''urgency'', str_json (body_urgency b)),
       (''dueDate'', str_json (body_dueDate b))])\<rparr>"

definition wire_auth_body :: "auth_body \<Rightarrow> http_body" where
  "wire_auth_body b = JsonBody (json_fields [(''username'', str_json (body_username b)),
     (''password'', str_json (body_password b)), (''fullname'', str_json (body_fullname b))])"

primrec wire_auth :: "auth_request \<Rightarrow> http_request" where
  "wire_auth (Login b) = \<lparr>hr_method = POST, hr_url = ''/v1/auth/login'', hr_auth = None, hr_body = wire_auth_body b\<rparr>"
| "wire_auth (Signup b salt) = \<lparr>hr_method = POST, hr_url = ''/v1/auth/signup'', hr_auth = None, hr_body = wire_auth_body b\<rparr>"
| "wire_auth (Info h) = \<lparr>hr_method = GET, hr_url = ''/v1/auth/info'', hr_auth = h, hr_body = NoJson\<rparr>"

primrec wire :: "request \<Rightarrow> http_request" where
  "wire (AuthReq a) = wire_auth a"
| "wire (TodoReq t) = wire_todo t"
| "wire (ChatReq h b) = \<lparr>hr_method = POST, hr_url = ''/v1/llm/chat'', hr_auth = h,
     hr_body = JsonBody (json_fields [(''todoList'', body_todoList b), (''chats'', body_chats b)])\<rparr>"

primrec request_salt :: "request \<Rightarrow> salt" where
  "request_salt (AuthReq a) = (case a of Signup b salt \<Rightarrow> salt | _ \<Rightarrow> 0)"
| "request_salt (TodoReq t) = 0"
| "request_salt (ChatReq h b) = 0"

section \<open>Lemmas\<close>

text \<open>Every response carries the CORS header; a preflight, a refused body and an
  unmatched route leave the store as it is; a matched request is \<open>app\<close> on the
  request its endpoint builds, so the server's invariants carry over.\<close>

lemma http_app_cors: "resp_cors (fst (http_app E now salt s q)) = Some ''*''"
  by (simp add: http_app_def cors_response_def Let_def split: option.splits prod.splits)

lemma http_app_unrouted:
  "route (hr_method q) (hr_url q) = None \<or> req_body (hr_body q) = None \<or> hr_method q = OPTIONS \<Longrightarrow>
     snd (http_app E now salt s q) = s"
  by (auto simp: http_app_def split: option.splits)

lemma http_app_routed:
  assumes "hr_method q \<noteq> OPTIONS" and "req_body (hr_body q) = Some b"
    and "route (hr_method q) (hr_url q) = Some ep"
  shows "http_app E now salt s q =
    (cors_response (reply_status (fst (app E now s (request_of salt (hr_auth q) b ep))))
       (Payload (fst (app E now s (request_of salt (hr_auth q) b ep)))),
     snd (app E now s (request_of salt (hr_auth q) b ep)))"
  using assms by (simp add: http_app_def split: prod.splits)

lemma http_app_wf:
  assumes "db_wf s" shows "db_wf (snd (http_app E now salt s q))"
proof (cases "hr_method q \<noteq> OPTIONS \<and> req_body (hr_body q) \<noteq> None \<and> route (hr_method q) (hr_url q) \<noteq> None")
  case True
  then obtain b ep where "req_body (hr_body q) = Some b" "route (hr_method q) (hr_url q) = Some ep" by auto
  with True assms show ?thesis
    by (simp add: http_app_routed) (metis app_wf prod.collapse)
next
  case False
  with assms show ?thesis by (auto simp: http_app_unrouted)
qed

text \<open>The route table: each route of the repository under its mount, and nothing
  else; the lookup ignores case and a query string.\<close>

lemma route_table:
  "route GET ''/v1/user/todo/my'' = Some EpMy \<and> route POST ''/v1/user/todo/create'' = Some EpCreate
   \<and> route PUT ''/v1/user/todo/update'' = Some EpUpdate \<and> route DELETE ''/v1/user/todo/delete'' = Some EpDelete
   \<and> route PATCH ''/v1/user/todo/toggle'' = Some EpToggle \<and> route POST ''/v1/auth/login'' = Some EpLogin
   \<and> route POST ''/v1/auth/signup'' = Some EpSignup \<and> route GET ''/v1/auth/info'' = Some EpInfo
   \<and> route POST ''/v1/llm/chat'' = Some EpChat"
  by code_simp

lemma route_wrong_method: "route POST ''/v1/user/todo/my'' = None \<and> route GET ''/v1/user/todo/toggle'' = None"
  by code_simp

lemma route_case_query: "route HEAD ''/V1/User/Todo/My/?x=1'' = Some EpMy"
  by code_simp

text \<open>What \<open>JSON.stringify\<close> of an object literal gives back to the destructuring of
  \<open>req.body\<close>: each property written, under distinct names.\<close>

lemma map_of_rev_distinct: "distinct (map fst xs) \<Longrightarrow> map_of (rev xs) = map_of xs"
proof (rule ext)
  fix k
  assume d: "distinct (map fst xs)"
  then have d': "distinct (map fst (rev xs))" by (simp add: rev_map [symmetric])
  show "map_of (rev xs) k = map_of xs k"
  proof (cases "map_of xs k")
    case None
    then have "k \<notin> fst ` set (rev xs)" by (simp add: map_of_eq_None_iff)
    then have "map_of (rev xs) k = None" by (rule map_of_eq_None_iff [THEN iffD2])
    with None show ?thesis by simp
  next
    case (Some v)
    then show ?thesis using d d' by (simp add: map_of_eq_Some_iff)
  qed
qed

lemma json_fields_mem:
  "(a, j) \<in> set (List.map_filter (\<lambda>(k, v). map_option (\<lambda>j. (k, j)) v) ps) \<Longrightarrow> (a, Some j) \<in> set ps"
  by (induction ps) (auto simp: List.map_filter_simps split: option.splits)

lemma json_fields_distinct:
  "distinct (map fst ps) \<Longrightarrow> distinct (map fst (List.map_filter (\<lambda>(k, v). map_option (\<lambda>j. (k, j)) v) ps))"
proof (induction ps)
  case Nil
  then show ?case by (simp add: List.map_filter_def)
next
  case (Cons p ps)
  then show ?case
    by (cases p) (force simp: List.map_filter_simps split: option.splits dest: json_fields_mem)
qed

lemma map_of_json_fields:
  "distinct (map fst ps) \<Longrightarrow>
     map_of (List.map_filter (\<lambda>(k, v). map_option (\<lambda>j. (k, j)) v) ps) k = Option.bind (map_of ps k) id"
proof (induction ps)
  case Nil
  then show ?case by (simp add: List.map_filter_def)
next
  case (Cons p ps)
  then show ?case
    by (cases p) (force simp: List.map_filter_simps map_of_eq_None_iff split: option.splits
        dest: json_fields_mem)
qed

lemma body_get_json_fields:
  "distinct (map fst ps) \<Longrightarrow> body_get (json_fields ps) k = Option.bind (map_of ps k) id"
  by (simp add: body_get_def json_fields_def json_get_def map_of_rev_distinct json_fields_distinct
      map_of_json_fields)

lemma str_field_json_fields:
  "distinct (map fst ps) \<Longrightarrow> str_field (json_fields ps) k =
     (case Option.bind (map_of ps k) id of Some (JStr x) \<Rightarrow> Some x | _ \<Rightarrow> None)"
  by (simp add: str_field_def body_get_json_fields)

lemma str_json_field [simp]: "(case str_json f of Some (JStr x) \<Rightarrow> Some x | _ \<Rightarrow> None) = f"
  by (cases f) (simp_all add: str_json_def)

lemma req_body_json_fields [simp]: "req_body (JsonBody (json_fields ps)) = Some (json_fields ps)"
  by (simp add: json_fields_def)

lemma route_wire_todo: "route (hr_method (wire_todo t)) (hr_url (wire_todo t)) =
    Some (case t of MyTodos _ \<Rightarrow> EpMy | CreateTodo _ _ \<Rightarrow> EpCreate | UpdateTodo _ _ \<Rightarrow> EpUpdate
                 | DeleteTodo _ _ \<Rightarrow> EpDelete | ToggleTodo _ _ \<Rightarrow> EpToggle)"
  by (cases t) (simp_all add: route_table)

lemma route_wire_auth: "route (hr_method (wire_auth a)) (hr_url (wire_auth a)) =
    Some (case a of Login _ \<Rightarrow> EpLogin | Signup _ _ \<Rightarrow> EpSignup | Info _ \<Rightarrow> EpInfo)"
  by (cases a) (simp_all add: route_table)

lemma wire_request_of:
  "\<exists>b ep. hr_method (wire r) \<noteq> OPTIONS \<and> req_body (hr_body (wire r)) = Some b
     \<and> route (hr_method (wire r)) (hr_url (wire r)) = Some ep
     \<and> request_of (request_salt r) (hr_auth (wire r)) b ep = r"
proof (cases r)
  case (AuthReq a)
  then show ?thesis
    by (cases a) (auto simp: route_table wire_auth_body_def auth_body_of_def str_field_json_fields)
next
  case (TodoReq t)
  then show ?thesis
    by (cases t) (auto simp: route_table todo_body_of_def str_field_json_fields)
next
  case (ChatReq h b)
  then show ?thesis
    by (auto simp: route_table chat_body_of_def body_get_json_fields split: option.splits)
qed

text \<open>
  C31 (refinement): the frontend's requests reach the backend's controllers: every
  request, sent the way the contexts and the chat window send it (the method and path
  of its \<open>fetch\<close>, \<open>JSON.stringify\<close> of its body), passes CORS and \<open>express.json\<close>,
  is matched by the route table of \<open>routes/*.js\<close> under the mounts of \<open>app.js\<close> to the
  controller meant for it, and reaches it with the same fields, so the HTTP answer is
  \<open>app\<close>'s answer with its status. This is what lets the client model of \<open>Client\<close>
  call \<open>app\<close> directly.
\<close>

theorem http_app_wire:
  "http_app E now (request_salt r) s (wire r) =
     (cors_response (reply_status (fst (app E now s r))) (Payload (fst (app E now s r))), snd (app E now s r))"
  using wire_request_of [of r] by (auto simp: http_app_routed)

end
