(* ===== verification/Spec2Isabelle.thy ===== *)
theory Spec2Isabelle
  imports View Forms Dashboard ChatSession Boot Http
begin

text \<open>
  \<^bold>\<open>A verification development for the TaskFlow todo application.\<close>

  The program (\<open>src/\<close>) has a Node/Express backend over MongoDB (\<open>src/backend-todo\<close>)
  and a React frontend (\<open>src/frontend\<close>). The frontend's contexts send HTTP requests
  to the backend's routes; each route checks the bearer token, calls a controller,
  which calls a service, which calls the Mongoose models. The model follows that
  layering, one theory per part, each importing the parts it calls:

  \<^item> \<open>Prelude\<close>: JavaScript helpers the code relies on (\<open>trim\<close>, \<open>toLowerCase\<close>,
    truthiness of a request field), the error datatype with the source's messages,
    and first-match update and delete on lists (what \<open>findOneAndUpdate\<close> and
    \<open>findOneAndDelete\<close> do to a collection), with their lemmas.
  \<^item> \<open>Password\<close>: \<open>utils/password-bcrypt.js\<close>; bcrypt is an ideal hash of the first 72
    bytes of the password with a cost and a salt.
  \<^item> \<open>Token\<close>: \<open>jwt.sign\<close>/\<open>jwt.verify\<close> as symbolic HMAC tokens, the secret of
    \<open>services/authentication.js\<close> with its literal fallback, and the middleware
    \<open>decode-token\<close> (not in the repository: modelled from the spec).
  \<^item> \<open>Store\<close>: \<open>models/user.js\<close> and \<open>models/todo.js\<close>: documents as records, setters,
    validators, the unique index, the queries the services call, ObjectIds and their
    24-digit hex strings (\<open>oid_hex\<close>, \<open>cast_oid\<close>), the invariant \<open>db_wf\<close> and the
    abstract view \<open>todo_map\<close> (a finite map from ids to tasks).
  \<^item> \<open>Todos\<close>: \<open>services/user-todo.js\<close> and \<open>controllers/todo-controller.js\<close>; the toggle
    is split into its read (\<open>findOne\<close>, flip) and its write (\<open>save\<close>).
  \<^item> \<open>Auth\<close>: \<open>services/authentication.js\<close> and \<open>controllers/auth-controller.js\<close>.
  \<^item> \<open>Chat\<close>: \<open>controllers/llm-controller.js\<close> and \<open>services/LLM-chatbot.js\<close>; the
    LangChain f-string templating of every message is modelled from the library as a
    recursive parser \<open>parse_fstring\<close>; the language model itself and
    \<open>JSON.stringify\<close> are parameters of the environment.
  \<^item> \<open>Server\<close>: \<open>app.js\<close> and the three routers as \<open>app\<close>, a function from a request
    to a reply and a new database; the server as a concurrent system, an inductive
    step relation \<open>server_step\<close> in which any request is one atomic step, and the
    toggle (read, write) and signup (the \<open>findOne\<close> check, then \<open>User.create\<close> and
    the login) also run as two steps with any others between, and clients
    send no token, a token the server issued, or one forged with a key they know.
  \<^item> \<open>Http\<close>: \<open>app.js\<close> on raw requests: the middleware chain (\<open>cors\<close> with its
    header and preflight, \<open>express.json\<close> with its 400 and \<open>{}\<close> cases, \<open>morgan\<close>,
    which only logs), the route tables of \<open>routes/*.js\<close> under their mounts with
    Express's matching (case, query string, trailing slash, \<open>HEAD\<close>), 404 for the
    rest, and the destructuring of \<open>req.body\<close> into the requests of \<open>Server\<close>; its
    lemmas show the CORS header on every response, that nothing unrouted touches the
    store, that a routed request is \<open>app\<close> (so \<open>db_wf\<close> carries over), and the table.
    \<open>wire\<close> is the request the frontend's \<open>fetch\<close> sends for each request of \<open>Server\<close>
    (method, path, \<open>JSON.stringify\<close> of the body), and \<open>http_app_wire\<close> shows that
    the chain delivers it to \<open>app\<close> unchanged, which justifies \<open>Client\<close> calling \<open>app\<close>.
  \<^item> \<open>Client\<close>: \<open>contexts/AuthContext.tsx\<close> and \<open>contexts/TodoContext.tsx\<close>: each context
    function is one request to \<open>app\<close> followed by the update of the browser's state from
    the answer; \<open>ui_run\<close> runs a sequence of page actions against the server.
  \<^item> \<open>View\<close>: \<open>components/TodoList.tsx\<close> (the sort and the expiry mark),
    \<open>components/Dashboard.tsx\<close> (the counters) and \<open>components/ChatBot.tsx\<close> (the send
    handler and its five-message window).
  \<^item> \<open>Forms\<close>: \<open>components/TodoForm.tsx\<close>, \<open>components/TodoEditForm.tsx\<close>,
    \<open>components/SignupPage.tsx\<close>, \<open>components/Header.tsx\<close> and \<open>pages/Index.tsx\<close>: each
    submit handler with its checks and toasts, composed with the context call it makes;
    the signup page's inputs and the header and signup page as rendered.
  \<^item> \<open>Dashboard\<close>: the signed-in page as a whole: what each card of
    \<open>components/TodoList.tsx\<close> shows and its three handlers, the inputs of both dialogs
    and what each open dialog shows (\<open>todoForm_render\<close>, \<open>editForm_render\<close>),
    and \<open>dashboard_step\<close>, one click or input on \<open>components/Dashboard.tsx\<close> with the
    handler it runs (cards, create and edit dialogs, chat window); a dialog's overlay
    blocks every element under it.
  \<^item> \<open>ChatSession\<close>: the send of \<open>components/ChatBot.tsx\<close> as the two halves of its
    \<open>async\<close> handler around \<open>await fetch\<close> (\<open>chat_send\<close>, \<open>chat_arrive\<close>), with the
    \<open>loading\<close> flag and any number of requests in flight, and the inductive set
    \<open>chat_reach\<close> of the sessions reachable under any order of the responses; the
    window as rendered (bubbles, typing indicator).
  \<^item> \<open>Boot\<close>: start-up, \<open>index.js\<close> and \<open>db/mongo-db.js\<close>: Node's loading of the
    modules in \<open>require\<close> order with its module cache (\<open>boot_exec\<close>, a worklist
    terminating by the measure of the modules not yet loaded), what each module body
    does to the process (\<open>JWT_SECRET\<close> read by \<open>authentication.js\<close>, \<open>dotenv.config\<close>
    in \<open>LLM-chatbot.js\<close> and \<open>index.js\<close>, the Mistral client configuration, the
    connection started and the port), the server environment that results, and the
    process after loading as a step relation \<open>proc_step\<close>: connected, exited with
    status 1, or serving by \<open>server_step\<close>. Its lemmas show that a \<open>JWT_SECRET\<close> set
    only in \<open>.env\<close> is never read (\<open>index_boot_secret\<close>), that start-up never checks
    the secret, and that no request is served before the connection or without
    \<open>MONGO_DB\<close>.
  \<^item> this theory: a concrete database, environment and browser, and the witnesses.

  \<^bold>\<open>What the lemmas show.\<close> Every request keeps \<open>db_wf\<close> (unique ObjectIds below the
  counter, unique user names), in every state reachable under any interleaving (C8);
  since two signups of one name can both pass the \<open>findOne\<close> check, the uniqueness
  of names rests on the unique index. The task services refine operations on the
  finite map \<open>todo_map\<close>, each on the task the request's id names (C9--C11), touch
  only the caller's tasks (C1, C2) and round-trip the toggle (C3); their lost update
  under interleaving (C4), the update that skips validation (C13) and the forgeable
  token under the fallback secret (C14) are findings proved as theorems. Signup and
  login: uniqueness (C5), token round trip (C6), the 72-byte password limit (C7),
  signup of short passwords (C15). The browser's task list stays equal to the
  server's under any sequence of page actions answered one at a time (C16). The chat
  controller (C17) and its template behaviour on braces (C18, C19, C25); the list's
  sort is the library's stable sort by the intended key (C20) unless an urgency is
  outside the enumeration (C21); the counters (C22) and the chat window (C23). Start-up
  ignores a \<open>JWT_SECRET\<close> written only in \<open>.env\<close>, so forged tokens are then
  accepted (C24). The forms: the create form stores exactly one task (C26) but
  reports success also when the server refuses it, as for a token that no longer
  verifies (C27); page actions the forms can send keep every
  stored task valid (C28); the signup page reports every refusal as a taken name
  (C29); logout keeps the previous user's list on screen (C30). Every request the
  frontend sends reaches, through CORS, \<open>express.json\<close> and the route tables, the
  controller meant for it with the same fields (C31). Without \<open>MONGO_DB\<close> the started
  process serves nothing and can only exit with status 1 (C32). ObjectIds: the id
  string the list answers names its task back to delete and toggle (C33), and a
  malformed id is a cast error of delete and toggle, exactly (C34). The whole dashboard keeps the browser's list in step with the
  server under any sequence of clicks and inputs, with no hypothesis on the events,
  since its cards only name shown tasks (C35); its cards agree with its counters
  (C36); a submit of the create dialog closes and resets it whatever the server
  answers (C37). The chat window: every question is answered exactly once or is in flight, by rule
  induction on \<open>chat_reach\<close> (C38); overlapping sends lose context, clear the
  indicator early and can show the answers in reverse order (C39). End to end, a
  signup on the signup page reaches a dashboard that, once the \<open>[user]\<close> effect of
  TodoContext has fetched, is in step with the server, and that shows the previous
  list until then (C40).

  \<^bold>\<open>Parameters.\<close> The date parser (\<open>new Date\<close> as a cast), the clock, the bcrypt salt,
  \<open>process.env.JWT_SECRET\<close>, the keys known to clients, the language model and the JSON
  encoding are parameters of the environment (\<open>server_env\<close>) or of the operations;
  every theorem holds for all of them. The picked day is the calendar's \<open>Date\<close> and
  \<open>toISOString\<close> is the parameter \<open>toIso\<close>. The one bound is the ObjectId counter:
  ids are 24 hex digits, so C16, C33 and C35 assume the counter stays below
  \<open>16 ^ 24\<close> (each step creates at most one ObjectId). The counter stands for the
  driver's ObjectId generator, whose ids are unique by construction.

  \<^bold>\<open>Not modelled.\<close> Interleavings inside the create half of a signup (its
  \<open>loginService\<close> after \<open>User.create\<close> runs in the same step; no operation
  removes or renames users, so its lookup finds the new user in every interleaving);
  console output of start-up; requests that arrive while the
  connection is pending (Mongoose buffers their store calls; the model serves only
  once connected); the Mistral API behind its configuration (a parameter); the output
  of \<open>morgan\<close>; body fields holding JSON values other than strings where the controllers
  expect strings (read as absent), and the body size limit of \<open>express.json\<close>;
  timestamps of the schemas; rendering of the components beyond what each page shows (layout, icons, markdown); \<open>LoginPage\<close>, which
  \<open>pages/Index.tsx\<close> imports but the repository does not hold; the 12-byte string
  form of ObjectIds that some Mongoose versions also accept (the repository pins no
  version).
\<close>

section \<open>A concrete database\<close>

text \<open>
  One user \<open>alice\<close> with password \<open>secret1\<close> and one task of hers, ``Buy milk'',
  due 2025-01-10, under the ObjectId whose string form is \<open>ex_sid\<close>. The date parser
  knows that one date.
\<close>

definition ex_pd :: date_parser where
  "ex_pd s = (if s = ''2025-01-10'' then Some 1736467200000 else None)"

definition ex_sid :: string where
  "ex_sid = ''000000000000000000000001''"

definition ex_todo :: todo_doc where
  "ex_todo = \<lparr>todo_id = 1, title = ''Buy milk'', description = [], urgency = ''normal'',
     dueDate = 1736467200000, completed = False, owner = ''alice''\<rparr>"

definition ex_alice :: user_doc where
  "ex_alice = \<lparr>user_id = 0, user_name = ''alice'', password = generatePassword ''secret1'' 7,
     fullname = ''Alice''\<rparr>"

definition ex_db :: db where
  "ex_db = \<lparr>users = [ex_alice], todos = [ex_todo], next_oid = 2\<rparr>"

abbreviation "ex_t1 \<equiv> ex_todo\<lparr>completed := True\<rparr>"

abbreviation "ex_db1 \<equiv> ex_db\<lparr>todos := [ex_t1]\<rparr>"

abbreviation "ex_t2 \<equiv> ex_todo\<lparr>title := ''Buy bread'', description := ''two'', urgency := ''important''\<rparr>"

abbreviation "ex_t3 \<equiv> \<lparr>todo_id = 2, title = ''Call bob'', description = [], urgency = ''normal'',
     dueDate = 1736467200000, completed = False, owner = ''alice''\<rparr>"

definition ex_env :: server_env where
  "ex_env = \<lparr>parse_date = ex_pd, secret_var = None, adv_keys = [dev_secret],
     chat_model = (\<lambda>_. Some ''Start with Buy milk.''), chat_stringify = (\<lambda>_. ''[]'')\<rparr>"

definition ex_alice_db :: db where
  "ex_alice_db = \<lparr>users = [\<lparr>user_id = 0, user_name = ''alice'', password = generatePassword ''secret1'' 3,
     fullname = ''Alice''\<rparr>], todos = [], next_oid = 1\<rparr>"

definition ex_alice_token :: token where
  "ex_alice_token = jwt_sign 0 ''alice'' 5 (jwt_secret None)"

text \<open>Alice's browser, signed in with that token and showing her task, and a sequence
  of page actions: toggle the task, add one, reload the list.\<close>

definition ex_cl :: client where
  "ex_cl = \<lparr>user = Some \<lparr>info_id = 0, info_username = ''alice'', info_fullname = ''Alice'',
     auth_token = ex_alice_token\<rparr>, stored_token = Some ex_alice_token, client_todos = [ex_todo]\<rparr>"

definition ex_actions :: "ui_action list" where
  "ex_actions = [UiToggle ex_sid, UiAdd ''Call bob'' [] ''normal'' ''2025-01-10'', UiFetch]"

text \<open>Chat requests: a plain question, one with an unclosed brace, and one naming the
  template variable.\<close>

definition ex_msg :: "string \<Rightarrow> json" where
  "ex_msg t = JObj [(''isHuman'', JBool True), (''text'', JStr t)]"

definition ex_chat :: "string \<Rightarrow> chat_body" where
  "ex_chat t = \<lparr>body_todoList = Some (JArr []), body_chats = Some (JArr [ex_msg t])\<rparr>"

text \<open>Alice's chat window after an answer that opened a brace, with a new question
  typed.\<close>

definition ex_ui :: chat_ui where
  "ex_ui = \<lparr>ui_messages = [(chat_welcome, True), (''Try {'', True)], ui_input = '' hello ''\<rparr>"

text \<open>The create form filled in for ``Call bob'' on the known day; a signup with a
  full name of spaces.\<close>

definition ex_form :: todo_form where
  "ex_form = \<lparr>form_title = '' Call bob '', form_description = [], form_urgency = ''normal'',
     form_dueDate = Some 1736467200000\<rparr>"

definition ex_signup_form :: signup_form where
  "ex_signup_form = \<lparr>su_fullName = ''   '', su_username = ''carol'', su_password = ''secret1''\<rparr>"

definition ex_relogin :: auth_user where
  "ex_relogin = \<lparr>info_id = 0, info_username = ''alice'', info_fullname = ''Alice'',
     auth_token = jwt_sign 0 ''alice'' 9 (jwt_secret None)\<rparr>"

text \<open>A session on Alice's dashboard: tick her task, create ``Call bob'', open the
  edit dialog of the first card and make it important, then ask the assistant.\<close>

definition ex_events :: "dash_event list" where
  "ex_events = [DCard 0 CardCheck, DAddTask, DFormInput (InTitle ''Call bob''),
     DFormInput (InDueDate (Some 1736467200000)), DFormSubmit, DCard 0 CardEdit,
     DEditInput (InUrgency ItemImportant), DEditSubmit, DChatOpen, DChatInput ''What first?'', DChatSend]"

definition ex_iso :: "int \<Rightarrow> string" where
  "ex_iso d = ''2025-01-10''"

text \<open>Alice's chat window with a question typed, and the two halves of sending it,
  then a second question sent before the first answer arrives.\<close>

definition ex_cs :: chat_session where
  "ex_cs = chat_input ''What first?'' chat_session_init"

definition ex_cs2 :: chat_session where
  "ex_cs2 = chat_send ex_cl (\<lambda>_. JNull) (chat_input ''And then?'' (chat_send ex_cl (\<lambda>_. JNull) ex_cs))"

text \<open>Carol signs up on the page of a browser where Alice has just logged out.\<close>

definition ex_carol_form :: signup_form where
  "ex_carol_form = \<lparr>su_fullName = ''Carol'', su_username = ''carol'', su_password = ''secret1''\<rparr>"

lemmas ex_eval = ex_pd_def ex_sid_def ex_todo_def ex_alice_def ex_db_def
  cast_oid_def hex_val_def hex_step_def hex_digit_val_def

lemma ex_db_wf: "db_wf ex_db"
  by (simp add: ex_eval db_wf_def all_ids_def)

lemma ex_sid_cast: "cast_oid ex_sid = Some (todo_id ex_todo)"
  by (simp add: ex_eval)

section \<open>Witnesses\<close>

theorem todo_isolation_witness:
  "db_wf ex_db \<and> ex_todo \<in> set (todos ex_db) \<and> owner ex_todo \<noteq> ''bob''
   \<and> cast_oid ex_sid = Some (todo_id ex_todo)
   \<and> deleteTodoService ex_db ''bob'' ex_sid = Inl ETodoNotFound
   \<and> toggleCompletion ex_db ''bob'' ex_sid = Inl ETodoNotFound
   \<and> updateTodoService ex_pd ex_db ''bob'' ex_sid ''Buy bread'' ''2025-01-10'' ''normal'' None
       = Inl ETodoNotFound"
proof -
  have h2: "ex_todo \<in> set (todos ex_db)" and h3: "owner ex_todo \<noteq> ''bob''"
    by (simp_all add: ex_eval)
  note r = todo_isolation [OF ex_db_wf h2 h3 ex_sid_cast,
      where pd = ex_pd and dd = "''2025-01-10''" and ti = "''Buy bread''" and ur = "''normal''"
      and de = None]
  show ?thesis using ex_db_wf h2 h3 ex_sid_cast r by (simp add: ex_pd_def)
qed

lemmas ex_todo_eval = ex_eval toggleCompletion_def toggle_read_def todo_findOne_def todo_match_def
  toggle_write_def todo_save_def todo_valid_def urgency_values_def

lemma ex_toggle1: "toggleCompletion ex_db ''alice'' ex_sid = Inr (ex_t1, ex_db1)"
  by (simp add: ex_todo_eval)

theorem toggle_involution_witness:
  "db_wf ex_db \<and> toggleCompletion ex_db ''alice'' ex_sid = Inr (ex_t1, ex_db1)
   \<and> toggleCompletion ex_db1 ''alice'' ex_sid = Inr (ex_todo, ex_db)"
proof -
  note r = toggle_involution [OF ex_db_wf ex_toggle1]
  have "ex_t1\<lparr>completed := \<not> completed ex_t1\<rparr> = ex_todo" by (simp add: ex_todo_def)
  with r ex_db_wf ex_toggle1 show ?thesis by simp
qed

theorem toggle_lost_update_witness:
  "toggle_read ex_db ''alice'' ex_sid = Inr ex_t1 \<and> toggle_write ex_db ex_t1 = Inr (ex_t1, ex_db1)
   \<and> toggle_write ex_db1 ex_t1 = Inr (ex_t1, ex_db1)"
proof -
  have h1: "toggle_read ex_db ''alice'' ex_sid = Inr ex_t1" by (simp add: ex_todo_eval)
  have h3: "toggle_write ex_db ex_t1 = Inr (ex_t1, ex_db1)" by (simp add: ex_todo_eval)
  have h4: "toggle_write ex_db1 ex_t1 = Inr (ex_t1, ex_db1)" by (simp add: ex_todo_eval)
  note r = toggle_lost_update [OF h1 h1 h3 h4]
  with h1 h3 h4 show ?thesis by simp
qed

lemma ex_signup_bob:
  "signupService None ex_db 3 5 '' Bob '' ''Bob B'' ''x'' =
     Inr (\<lparr>info_id = 2, info_username = ''bob'', info_fullname = ''Bob B'',
           auth_token = jwt_sign 2 ''bob'' 5 (jwt_secret None)\<rparr>,
          ex_db\<lparr>users := [ex_alice, \<lparr>user_id = 2, user_name = ''bob'',
             password = generatePassword ''x'' 3, fullname = ''Bob B''\<rparr>], next_oid := 3\<rparr>)"
  by code_simp

theorem signup_twice_witness:
  "\<exists>r s'. signupService None ex_db 3 5 '' Bob '' ''Bob B'' ''x'' = Inr (r, s')
     \<and> cast_username ''BOB'' = cast_username '' Bob ''
     \<and> signupService None s' 4 6 ''BOB'' ''Robert'' ''y'' = Inl EUsernameTaken"
proof -
  have h2: "cast_username ''BOB'' = cast_username '' Bob ''" by code_simp
  show ?thesis using signup_twice [OF ex_signup_bob h2] ex_signup_bob h2 by blast
qed

theorem signup_succeeds_witness:
  "user_findOne ex_db '' Bob '' = None \<and> cast_username '' Bob '' \<noteq> [] \<and> js_trim ''Bob B'' \<noteq> []
   \<and> (\<exists>s'. signupService None ex_db 3 5 '' Bob '' ''Bob B'' ''x'' =
        Inr (\<lparr>info_id = 2, info_username = ''bob'', info_fullname = ''Bob B'',
              auth_token = jwt_sign 2 ''bob'' 5 (jwt_secret None)\<rparr>, s'))"
proof -
  have h1: "user_findOne ex_db '' Bob '' = None" by code_simp
  have h2: "cast_username '' Bob '' \<noteq> []" by code_simp
  have h3: "js_trim ''Bob B'' \<noteq> []" by code_simp
  have e1: "cast_username '' Bob '' = ''bob''" by code_simp
  have e2: "js_trim ''Bob B'' = ''Bob B''" by code_simp
  have e3: "next_oid ex_db = 2" by (simp add: ex_db_def)
  note e = e1 e2 e3
  note r = signup_succeeds [OF h1 h2 h3, where env = None and salt = 3 and now = 5 and pw = "''x''"]
  with h1 h2 h3 e show ?thesis by simp
qed

lemma ex_login_alice:
  "loginService None ex_db 9 ''Alice'' ''secret1'' =
     Inr \<lparr>info_id = 0, info_username = ''alice'', info_fullname = ''Alice'',
          auth_token = jwt_sign 0 ''alice'' 9 (jwt_secret None)\<rparr>"
  by code_simp

theorem login_token_roundtrip_witness:
  "loginService None ex_db 9 ''Alice'' ''secret1'' =
     Inr \<lparr>info_id = 0, info_username = ''alice'', info_fullname = ''Alice'',
          auth_token = jwt_sign 0 ''alice'' 9 (jwt_secret None)\<rparr>
   \<and> decode_token (Some (jwt_sign 0 ''alice'' 9 (jwt_secret None))) (jwt_secret None) =
       Inr \<lparr>claim_id = 0, claim_username = ''alice'', claim_iat = 9\<rparr>
   \<and> getUserService ex_db ''alice'' = Inr \<lparr>info_id = 0, info_username = ''alice'', info_fullname = ''Alice''\<rparr>"
  using login_token_roundtrip [OF ex_login_alice] ex_login_alice by simp

theorem signup_then_login_witness:
  "\<exists>r s'. signupService None ex_db 3 5 '' Bob '' ''Bob B'' ''x'' = Inr (r, s')
     \<and> cast_username ''bob'' = cast_username '' Bob ''
     \<and> loginService None s' 7 ''bob'' ''wrong'' = Inl EInvalidPassword"
proof -
  have h2: "cast_username ''bob'' = cast_username '' Bob ''" by code_simp
  have d: "take bcrypt_max_len ''wrong'' \<noteq> take bcrypt_max_len ''x''" by (simp add: bcrypt_max_len_def)
  show ?thesis
    using signup_then_login [OF ex_signup_bob h2, where env' = None and now' = 7 and pw' = "''wrong''"]
      ex_signup_bob h2 d by auto
qed

lemma ex_update:
  "updateTodoService ex_pd ex_db ''alice'' ex_sid '' Buy bread'' ''2025-01-10'' ''important'' (Some ''two '')
     = Inr (ex_t2, ex_db\<lparr>todos := [ex_t2]\<rparr>)"
  by code_simp

theorem updateTodoService_refines_witness:
  "db_wf ex_db \<and> updateTodoService ex_pd ex_db ''alice'' ex_sid '' Buy bread'' ''2025-01-10''
      ''important'' (Some ''two '') = Inr (ex_t2, ex_db\<lparr>todos := [ex_t2]\<rparr>)
   \<and> todo_map ex_db 1 = Some ex_todo \<and> todo_map (ex_db\<lparr>todos := [ex_t2]\<rparr>) = (todo_map ex_db)(1 \<mapsto> ex_t2)"
proof -
  note r = updateTodoService_refines [OF ex_db_wf ex_update]
  have i: "todo_id ex_t2 = 1" by (simp add: ex_todo_def)
  have m: "todo_map ex_db 1 = Some ex_todo" by (simp add: todo_map_def ex_eval)
  from r i have "todo_map (ex_db\<lparr>todos := [ex_t2]\<rparr>) = (todo_map ex_db)(1 \<mapsto> ex_t2)" by auto
  with ex_db_wf ex_update m show ?thesis by simp
qed

lemma ex_delete: "deleteTodoService ex_db ''alice'' ex_sid = Inr (ex_todo, ex_db\<lparr>todos := []\<rparr>)"
  by code_simp

theorem deleteTodoService_refines_witness:
  "db_wf ex_db \<and> deleteTodoService ex_db ''alice'' ex_sid = Inr (ex_todo, ex_db\<lparr>todos := []\<rparr>)
   \<and> todo_map (ex_db\<lparr>todos := []\<rparr>) = (todo_map ex_db)(1 := None)"
proof -
  note r = deleteTodoService_refines [OF ex_db_wf ex_delete]
  have "todo_id ex_todo = 1" by (simp add: ex_todo_def)
  with r ex_db_wf ex_delete show ?thesis by auto
qed

theorem toggleCompletion_refines_witness:
  "db_wf ex_db \<and> toggleCompletion ex_db ''alice'' ex_sid = Inr (ex_t1, ex_db1)
   \<and> todo_map ex_db1 = (todo_map ex_db)(1 \<mapsto> ex_t1)"
proof -
  note r = toggleCompletion_refines [OF ex_db_wf ex_toggle1]
  have "todo_id ex_t1 = 1" by (simp add: ex_todo_def)
  with r ex_db_wf ex_toggle1 show ?thesis by auto
qed

lemma ex_create:
  "createTodoService ex_pd ex_db ''alice'' ''Call bob  '' ''2025-01-10'' ''normal'' None
     = Inr (ex_t3, ex_db\<lparr>todos := [ex_todo, ex_t3], next_oid := 3\<rparr>)"
  by code_simp

theorem createTodoService_functional_witness:
  "db_wf ex_db \<and> createTodoService ex_pd ex_db ''alice'' ''Call bob  '' ''2025-01-10'' ''normal'' None
     = Inr (ex_t3, ex_db\<lparr>todos := [ex_todo, ex_t3], next_oid := 3\<rparr>)
   \<and> todo_map ex_db 2 = None"
proof -
  note r = createTodoService_functional [OF ex_db_wf ex_create]
  with ex_db_wf ex_create show ?thesis by simp
qed

theorem update_skips_validation_witness:
  "db_wf ex_db \<and> ex_todo \<in> set (todos ex_db) \<and> owner ex_todo = ''alice''
   \<and> cast_oid ex_sid = Some (todo_id ex_todo) \<and> ex_pd ''2025-01-10'' = Some 1736467200000
   \<and> ''urgent'' \<notin> set urgency_values
   \<and> createTodoService ex_pd ex_db ''alice'' ''Buy milk'' ''2025-01-10'' ''urgent'' None = Inl EValidation
   \<and> (\<exists>t' s'. updateTodoService ex_pd ex_db ''alice'' ex_sid ''Buy milk'' ''2025-01-10'' ''urgent'' None
          = Inr (t', s') \<and> \<not> todo_valid t' \<and> toggleCompletion s' ''alice'' ex_sid = Inl EValidation)"
proof -
  have h2: "ex_todo \<in> set (todos ex_db)" and h3: "owner ex_todo = ''alice''"
    and h5: "ex_pd ''2025-01-10'' = Some 1736467200000"
    and h6: "''urgent'' \<notin> set urgency_values"
    by (simp_all add: ex_eval urgency_values_def)
  note r = update_skips_validation [where pd = ex_pd and dd = "''2025-01-10''" and ti = "''Buy milk''"
      and de = None, OF ex_db_wf h2 h3 ex_sid_cast h5 h6]
  with ex_db_wf h2 h3 ex_sid_cast h5 h6 show ?thesis by blast
qed

lemma ex_signup_first:
  "signup_complete ex_env 5 empty_db \<lparr>body_username = Some ''Alice'', body_password = Some ''secret1'',
     body_fullname = Some ''Alice''\<rparr> 3 =
   (RAuth (AuthData \<lparr>info_id = 0, info_username = ''alice'', info_fullname = ''Alice'',
        auth_token = ex_alice_token\<rparr>), ex_alice_db)"
  by code_simp

lemma ex_signup_second:
  "signup_complete ex_env 6 ex_alice_db \<lparr>body_username = Some ''Alice'', body_password = Some ''secret1'',
     body_fullname = Some ''Alice''\<rparr> 4 = (RAuth (AuthError EDuplicateKey), ex_alice_db)"
  by code_simp

text \<open>Two signups of \<open>Alice\<close> both pass the check on the empty store; the first
  create succeeds, the second is refused by the unique index.\<close>

lemma ex_reachable_race:
  "reachable ex_env (init_server\<lparr>store := ex_alice_db, issued := [ex_alice_token]\<rparr>)"
proof -
  let ?b = "\<lparr>body_username = Some ''Alice'', body_password = Some ''secret1'', body_fullname = Some ''Alice''\<rparr>"
  have ok: "truthy (body_username ?b)" "truthy (body_password ?b)" "truthy (body_fullname ?b)"
    and none: "user_findOne (store init_server) (field_str (body_username ?b)) = None"
    by (simp_all add: truthy_def user_findOne_def init_server_def empty_db_def)
  have s1: "server_step ex_env init_server (init_server\<lparr>signups := [(?b, 3)]\<rparr>)"
    using server_step.signup_begin [OF ok none, where salt = 3] by (simp add: init_server_def)
  have s2: "server_step ex_env (init_server\<lparr>signups := [(?b, 3)]\<rparr>) (init_server\<lparr>signups := [(?b, 3), (?b, 4)]\<rparr>)"
    using server_step.signup_begin [OF ok, where S = "init_server\<lparr>signups := [(?b, 3)]\<rparr>" and salt = 4 and E = ex_env]
      none by (simp add: init_server_def)
  have s3: "server_step ex_env (init_server\<lparr>signups := [(?b, 3), (?b, 4)]\<rparr>)
      (init_server\<lparr>store := ex_alice_db, issued := [ex_alice_token], signups := [(?b, 4)]\<rparr>)"
    using server_step.signup_end [where S = "init_server\<lparr>signups := [(?b, 3), (?b, 4)]\<rparr>" and b = ?b
        and salt = 3 and now = 5 and E = ex_env] ex_signup_first by (simp add: init_server_def)
  have s4: "server_step ex_env (init_server\<lparr>store := ex_alice_db, issued := [ex_alice_token], signups := [(?b, 4)]\<rparr>)
      (init_server\<lparr>store := ex_alice_db, issued := [ex_alice_token]\<rparr>)"
    using server_step.signup_end [where S = "init_server\<lparr>store := ex_alice_db, issued := [ex_alice_token],
        signups := [(?b, 4)]\<rparr>" and b = ?b and salt = 4 and now = 6 and E = ex_env] ex_signup_second
    by (simp add: init_server_def)
  show ?thesis
    by (rule reachable.step [OF reachable.step [OF reachable.step [OF reachable.step [OF reachable.init s1] s2] s3] s4])
qed

theorem reachable_db_wf_witness:
  "reachable ex_env (init_server\<lparr>store := ex_alice_db, issued := [ex_alice_token]\<rparr>)
   \<and> db_wf ex_alice_db"
  using reachable_db_wf [OF ex_reachable_race] ex_reachable_race by simp

lemma ex_app_my_todos:
  "app ex_env 7 ex_db (TodoReq (MyTodos (Some ex_alice_token))) = (RTodo (TodosData [ex_todo]), ex_db)"
  by code_simp

theorem my_todos_scoped_witness:
  "app ex_env 7 ex_db (TodoReq (MyTodos (Some ex_alice_token))) = (RTodo (TodosData [ex_todo]), ex_db)
   \<and> decode_token (Some ex_alice_token) (server_secret ex_env) =
       Inr \<lparr>claim_id = 0, claim_username = ''alice'', claim_iat = 5\<rparr>
   \<and> [ex_todo] = filter (\<lambda>t. owner t = ''alice'') (todos ex_db)"
proof -
  note r = my_todos_scoped [OF ex_app_my_todos]
  have d: "decode_token (Some ex_alice_token) (server_secret ex_env) =
       Inr \<lparr>claim_id = 0, claim_username = ''alice'', claim_iat = 5\<rparr>"
    by code_simp
  with r ex_app_my_todos show ?thesis by auto
qed

theorem forged_token_accepted_witness:
  "secret_var ex_env = None \<and> dev_secret \<in> set (adv_keys ex_env)
   \<and> client_header ex_env (init_server\<lparr>store := ex_db\<rparr>)
       (Some (JWT \<lparr>claim_id = 42, claim_username = ''alice'', claim_iat = 0\<rparr>
                  (Hmac dev_secret \<lparr>claim_id = 42, claim_username = ''alice'', claim_iat = 0\<rparr>)))
   \<and> app ex_env 7 ex_db (TodoReq (MyTodos (Some (JWT \<lparr>claim_id = 42, claim_username = ''alice'', claim_iat = 0\<rparr>
                  (Hmac dev_secret \<lparr>claim_id = 42, claim_username = ''alice'', claim_iat = 0\<rparr>)))))
       = (RTodo (TodosData [ex_todo]), ex_db)"
proof -
  have h1: "secret_var ex_env = None" and h2: "dev_secret \<in> set (adv_keys ex_env)"
    by (simp_all add: ex_env_def)
  have h3: "claim_username \<lparr>claim_id = 42, claim_username = ''alice'', claim_iat = 0\<rparr> \<noteq> []" by simp
  have g: "getUserTodos ex_db ''alice'' = [ex_todo]"
    by (simp add: getUserTodos_def todo_find_def ex_db_def ex_todo_def)
  note r = forged_token_accepted [OF h1 h2 h3, where S = "init_server\<lparr>store := ex_db\<rparr>" and now = 7]
  with h1 h2 g show ?thesis by simp
qed

theorem ui_run_synced_witness:
  "db_wf ex_db \<and> next_oid ex_db + length ex_actions \<le> 16 ^ 24 \<and> client_synced ex_env ex_db ex_cl
   \<and> ui_run_ok ex_env 5 ex_db ex_cl ex_actions
   \<and> client_synced ex_env (snd (ui_run ex_env 5 ex_db ex_cl ex_actions))
         (fst (ui_run ex_env 5 ex_db ex_cl ex_actions))
   \<and> db_wf (snd (ui_run ex_env 5 ex_db ex_cl ex_actions))"
proof -
  have h2: "next_oid ex_db + length ex_actions \<le> 16 ^ 24" by (simp add: ex_db_def ex_actions_def)
  have h3: "client_synced ex_env ex_db ex_cl" by code_simp
  have o: "oid_hex 1 = ex_sid" unfolding ex_sid_def by code_simp
  have i: "ui_id_ok ex_cl (UiToggle ex_sid)" using o by (simp add: ex_cl_def ex_todo_def)
  have h4: "ui_run_ok ex_env 5 ex_db ex_cl ex_actions"
    using i by (simp add: ex_actions_def prod.case_eq_if)
  note r = ui_run_synced [OF ex_db_wf h2 h3 h4 surjective_pairing]
  with ex_db_wf h2 h3 h4 show ?thesis by simp
qed

lemma ex_msg_entry: "all_some (map chat_entry [ex_msg t]) = Some [(RHuman, t)]"
  by (simp add: ex_msg_def json_get_def)

theorem chat_plain_reply_witness:
  "all_some (map chat_entry [ex_msg ''What first?'']) = Some [(RHuman, ''What first?'')]
   \<and> list_all (\<lambda>(r, t). list_all no_brace t) [(RHuman, ''What first?'')]
   \<and> chatbotMessagesProcessing (chat_model ex_env) (chat_stringify ex_env) (ex_chat ''What first?'') =
       ChatData ''Start with Buy milk.''"
proof -
  have h2: "list_all (\<lambda>(r, t). list_all no_brace t) [(RHuman, ''What first?'')]"
    by (simp add: no_brace_def)
  note r = chat_plain_reply [OF ex_msg_entry h2, where model = "chat_model ex_env"
      and sf = "chat_stringify ex_env" and ts = "[]"]
  with h2 ex_msg_entry [of "''What first?''"] show ?thesis by (simp add: ex_chat_def ex_env_def)
qed

theorem chat_unclosed_brace_witness:
  "all_some (map chat_entry [ex_msg ''help {'']) = Some [(RHuman, ''help {'')]
   \<and> (RHuman, ''help '' @ CHR ''{'' # []) \<in> set [(RHuman, ''help {'')]
   \<and> list_all no_brace ''help '' \<and> list_all no_brace []
   \<and> chatbotMessagesProcessing (chat_model ex_env) (chat_stringify ex_env) (ex_chat ''help {'') =
       ChatError EInternal"
proof -
  have h2: "(RHuman, ''help '' @ CHR ''{'' # []) \<in> set [(RHuman, ''help {'')]" by simp
  have h3: "list_all no_brace ''help ''" and h4: "list_all no_brace []" by (simp_all add: no_brace_def)
  note r = chat_unclosed_brace [OF ex_msg_entry h2 h3 h4, where model = "chat_model ex_env"
      and sf = "chat_stringify ex_env" and ts = "[]"]
  with h2 h3 h4 ex_msg_entry [of "''help {''"] show ?thesis by (simp add: ex_chat_def)
qed

theorem chat_template_injection_witness:
  "all_some (map chat_entry [ex_msg ''{todoListJsonString}'']) = Some ([] @ (RHuman, ''{todoListJsonString}'') # [])
   \<and> list_all (\<lambda>(r, t). list_all no_brace t) ([] @ [])
   \<and> chatbotMessagesProcessing (\<lambda>ms. Some (snd (last ms))) (\<lambda>_. ''[]'') (ex_chat ''{todoListJsonString}'') =
       ChatData ''[]''"
proof -
  have h1: "all_some (map chat_entry [ex_msg ''{todoListJsonString}'']) =
      Some ([] @ (RHuman, ''{todoListJsonString}'') # [])"
    using ex_msg_entry [of "''{todoListJsonString}''"] by simp
  have h2: "list_all (\<lambda>(r, t). list_all no_brace t) ([] @ [])" by simp
  note r = chat_template_injection [OF h1 h2, where model = "\<lambda>ms. Some (snd (last ms))"
      and sf = "\<lambda>_. ''[]''" and ts = "[]"]
  with h1 h2 show ?thesis by (simp add: ex_chat_def)
qed

theorem sortedTodos_sort_key_witness:
  "list_all (\<lambda>t. urgency t \<in> set urgency_values) [ex_t1, ex_t3]
   \<and> sortedTodos [ex_t1, ex_t3] = sort_key todo_key [ex_t1, ex_t3]"
proof -
  have h: "list_all (\<lambda>t. urgency t \<in> set urgency_values) [ex_t1, ex_t3]"
    by (simp add: ex_todo_def urgency_values_def)
  show ?thesis using h sortedTodos_sort_key [OF h] by simp
qed

theorem sort_comparator_inconsistent_witness:
  "urgency (ex_todo\<lparr>urgency := ''urgent''\<rparr>) \<notin> set urgency_values
   \<and> todo_compare ex_todo (ex_todo\<lparr>dueDate := 1736553600000\<rparr>) < 0
   \<and> todo_compare ex_todo (ex_todo\<lparr>urgency := ''urgent''\<rparr>) = 0
   \<and> todo_compare (ex_todo\<lparr>urgency := ''urgent''\<rparr>) (ex_todo\<lparr>dueDate := 1736553600000\<rparr>) = 0"
proof -
  have h1: "urgency (ex_todo\<lparr>urgency := ''urgent''\<rparr>) \<notin> set urgency_values"
    by (simp add: urgency_values_def)
  have h4: "todo_compare ex_todo (ex_todo\<lparr>dueDate := 1736553600000\<rparr>) < 0"
    by (simp add: todo_compare_def ex_todo_def priority_order_def)
  note r = sort_comparator_inconsistent [OF h1 _ _ h4]
  with h1 h4 show ?thesis by simp
qed

theorem handleSendMessage_appends_witness:
  "js_trim (ui_input ex_ui) \<noteq> []
   \<and> (\<exists>reply. fst (handleSendMessage ex_env 7 ex_db ex_cl (\<lambda>_. JNull) ex_ui) =
        ex_ui\<lparr>ui_messages := ui_messages ex_ui @ [(''hello'', False), (reply, True)], ui_input := []\<rparr>)
   \<and> js_trim (ui_input (ex_ui\<lparr>ui_input := '' ''\<rparr>)) = []
   \<and> fst (handleSendMessage ex_env 7 ex_db ex_cl (\<lambda>_. JNull) (ex_ui\<lparr>ui_input := '' ''\<rparr>)) =
        ex_ui\<lparr>ui_input := '' ''\<rparr>"
proof -
  have t1: "js_trim (ui_input ex_ui) = ''hello''" by (simp add: ex_ui_def) code_simp
  have t2: "js_trim (ui_input (ex_ui\<lparr>ui_input := '' ''\<rparr>)) = []" by code_simp
  note r1 = handleSendMessage_appends [of ex_env 7 ex_db ex_cl "\<lambda>_. JNull" ex_ui]
  note r2 = handleSendMessage_appends [of ex_env 7 ex_db ex_cl "\<lambda>_. JNull" "ex_ui\<lparr>ui_input := '' ''\<rparr>"]
  show ?thesis using r1 r2 t1 t2 by simp
qed

theorem chat_stuck_on_brace_witness:
  "user ex_cl = Some \<lparr>info_id = 0, info_username = ''alice'', info_fullname = ''Alice'',
       auth_token = ex_alice_token\<rparr>
   \<and> decode_token (Some ex_alice_token) (server_secret ex_env) =
       Inr \<lparr>claim_id = 0, claim_username = ''alice'', claim_iat = 5\<rparr>
   \<and> js_trim (ui_input ex_ui) \<noteq> []
   \<and> (''Try '' @ CHR ''{'' # [], True) \<in> set (drop (length (ui_messages ex_ui) - 4) (ui_messages ex_ui))
   \<and> list_all no_brace ''Try '' \<and> list_all no_brace []
   \<and> fst (handleSendMessage ex_env 7 ex_db ex_cl (\<lambda>_. JNull) ex_ui) =
       ex_ui\<lparr>ui_messages := ui_messages ex_ui @ [(''hello'', False), (''Sorry, cannot process that.'', True)],
             ui_input := []\<rparr>"
proof -
  have h1: "user ex_cl = Some \<lparr>info_id = 0, info_username = ''alice'', info_fullname = ''Alice'',
       auth_token = ex_alice_token\<rparr>" by (simp add: ex_cl_def)
  have h2: "decode_token (Some ex_alice_token) (server_secret ex_env) =
       Inr \<lparr>claim_id = 0, claim_username = ''alice'', claim_iat = 5\<rparr>" by code_simp
  have t: "js_trim (ui_input ex_ui) = ''hello''" by (simp add: ex_ui_def) code_simp
  then have h3: "js_trim (ui_input ex_ui) \<noteq> []" by simp
  have h4: "(''Try '' @ CHR ''{'' # [], True) \<in> set (drop (length (ui_messages ex_ui) - 4) (ui_messages ex_ui))"
    by (simp add: ex_ui_def)
  have h5: "list_all no_brace ''Try ''" and h6: "list_all no_brace []" by (simp_all add: no_brace_def)
  have h2': "decode_token (Some (auth_token \<lparr>info_id = 0, info_username = ''alice'',
       info_fullname = ''Alice'', auth_token = ex_alice_token\<rparr>)) (server_secret ex_env) =
       Inr \<lparr>claim_id = 0, claim_username = ''alice'', claim_iat = 5\<rparr>" using h2 by simp
  note r = chat_stuck_on_brace [OF h1 h2' h3 h4 h5 h6, where now = 7 and s = ex_db and tj = "\<lambda>_. JNull"]
  with h1 h2 h3 h4 h5 h6 t show ?thesis by simp
qed

lemma ex_cl_token:
  "decode_token (bearer ex_cl) (server_secret ex_env) =
     Inr \<lparr>claim_id = 0, claim_username = ''alice'', claim_iat = 5\<rparr>"
  by code_simp

theorem todoForm_creates_witness:
  "decode_token (bearer ex_cl) (server_secret ex_env) = Inr \<lparr>claim_id = 0, claim_username = ''alice'', claim_iat = 5\<rparr>
   \<and> js_trim (form_title ex_form) \<noteq> []
   \<and> form_urgency ex_form \<in> set urgency_values
   \<and> parse_date ex_env (ex_iso 1736467200000) = Some 1736467200000
   \<and> todoForm_submit ex_env 7 ex_iso ex_db ex_cl ex_form =
       ((Toast ''Task Created'' ''Your task has been added successfully'' False, todo_form_init, True),
        ex_cl\<lparr>client_todos := client_todos ex_cl @ [ex_t3]\<rparr>,
        ex_db\<lparr>todos := todos ex_db @ [ex_t3], next_oid := Suc (next_oid ex_db)\<rparr>)"
proof -
  have h3: "js_trim (form_title ex_form) \<noteq> []" by (simp add: ex_form_def) code_simp
  have e: "js_trim (form_title ex_form) = ''Call bob''" by (simp add: ex_form_def) code_simp
  have h4: "form_urgency ex_form \<in> set urgency_values"
    by (simp add: ex_form_def urgency_values_def)
  have h5: "form_dueDate ex_form = Some 1736467200000" by (simp add: ex_form_def)
  have h6: "ex_iso 1736467200000 \<noteq> []" by (simp add: ex_iso_def)
  have h7: "parse_date ex_env (ex_iso 1736467200000) = Some 1736467200000"
    by (simp add: ex_env_def ex_pd_def ex_iso_def)
  note r = todoForm_creates [where toIso = ex_iso, OF ex_cl_token _ h3 h4 h5 h6 h7, where now = 7 and s = ex_db]
  have n: "next_oid ex_db = 2" by (simp add: ex_db_def)
  show ?thesis using r ex_cl_token h3 h4 h7 e n by (simp add: ex_form_def Let_def)
qed

text \<open>The server restarted with another secret: the token Alice's browser stored no
  longer verifies.\<close>

theorem todoForm_toast_unconditional_witness:
  "user ex_cl \<noteq> None
   \<and> decode_token (bearer ex_cl) (server_secret (ex_env\<lparr>secret_var := Some ''rotated''\<rparr>)) = Inl EUnauthorized
   \<and> js_trim (form_title ex_form) \<noteq> [] \<and> form_dueDate ex_form = Some 1736467200000
   \<and> todoForm_submit (ex_env\<lparr>secret_var := Some ''rotated''\<rparr>) 7 ex_iso ex_db ex_cl ex_form =
       ((Toast ''Task Created'' ''Your task has been added successfully'' False, todo_form_init, True), ex_cl, ex_db)"
proof -
  have h0: "user ex_cl \<noteq> None" by (simp add: ex_cl_def)
  have h1: "decode_token (bearer ex_cl) (server_secret (ex_env\<lparr>secret_var := Some ''rotated''\<rparr>)) = Inl EUnauthorized"
    by (simp add: ex_cl_def bearer_def ex_alice_token_def server_secret_def jwt_secret_def dev_secret_def
        decode_token_def jwt_sign_def Let_def)
  have h2: "js_trim (form_title ex_form) \<noteq> []" by (simp add: ex_form_def) code_simp
  have h3: "form_dueDate ex_form = Some 1736467200000" by (simp add: ex_form_def)
  show ?thesis using todoForm_toast_unconditional [OF h0 h1 h2 h3] h0 h1 h2 h3 by simp
qed

theorem forms_keep_tasks_valid_witness:
  "list_all todo_valid (todos ex_db) \<and> list_all ui_form_ok ex_actions
   \<and> list_all todo_valid (todos (snd (ui_run ex_env 5 ex_db ex_cl ex_actions)))"
proof -
  have h1: "list_all todo_valid (todos ex_db)"
    by (simp add: ex_db_def ex_todo_def todo_valid_def urgency_values_def)
  have h2: "list_all ui_form_ok ex_actions" by (simp add: ex_actions_def)
  show ?thesis using forms_keep_tasks_valid [OF h1 h2 surjective_pairing] h1 h2 by simp
qed

lemma ex_signup_spaces: "signupService None ex_db 3 5 ''carol'' ''   '' ''secret1'' = Inl EValidation"
  by code_simp

theorem signupPage_one_message_witness:
  "su_fullName ex_signup_form \<noteq> [] \<and> su_username ex_signup_form \<noteq> []
   \<and> 6 \<le> length (su_password ex_signup_form)
   \<and> signupService (secret_var ex_env) ex_db 3 5 (su_username ex_signup_form) (su_fullName ex_signup_form)
       (su_password ex_signup_form) = Inl EValidation
   \<and> signupPage_submit ex_env 5 3 ex_db ex_cl ex_signup_form =
       (Toast ''Signup Failed'' ''Username already exists'' True, ex_cl, ex_db)"
proof -
  have h: "su_fullName ex_signup_form \<noteq> []" "su_username ex_signup_form \<noteq> []"
    "6 \<le> length (su_password ex_signup_form)" by (simp_all add: ex_signup_form_def)
  have h4: "signupService (secret_var ex_env) ex_db 3 5 (su_username ex_signup_form) (su_fullName ex_signup_form)
       (su_password ex_signup_form) = Inl EValidation"
    using ex_signup_spaces by (simp add: ex_signup_form_def ex_env_def)
  show ?thesis using signupPage_one_message [OF h h4] h h4 by simp
qed

theorem relogin_shows_previous_tasks_witness:
  "login_client ex_env 9 ex_db (fst (handleLogout ex_cl \<lparr>show_menu = True\<rparr>)) ''Alice'' ''secret1'' =
     ((ex_cl\<lparr>user := Some ex_relogin, stored_token := Some (auth_token ex_relogin)\<rparr>, True), ex_db)
   \<and> index_page ModeLogin (ex_cl\<lparr>user := Some ex_relogin, stored_token := Some (auth_token ex_relogin)\<rparr>) =
       DashboardPage [ex_todo]"
proof -
  have h: "login_client ex_env 9 ex_db (fst (handleLogout ex_cl \<lparr>show_menu = True\<rparr>)) ''Alice'' ''secret1'' =
     ((ex_cl\<lparr>user := Some ex_relogin, stored_token := Some (auth_token ex_relogin)\<rparr>, True), ex_db)"
    using ex_login_alice
    by (simp add: login_client_def app_def authRouter_def login_def field_str_def ex_env_def
        handleLogout_def logout_client_def ex_relogin_def)
  have c: "client_todos ex_cl = [ex_todo]" by (simp add: ex_cl_def)
  show ?thesis using relogin_shows_previous_tasks [OF h, where m = ModeLogin] h c by simp
qed

theorem dashboard_keeps_synced_witness:
  "db_wf ex_db \<and> next_oid ex_db + length ex_events \<le> 16 ^ 24 \<and> client_synced ex_env ex_db ex_cl
   \<and> dash_inv ex_cl dash_init
   \<and> client_synced ex_env (snd (snd (dashboard_run ex_env 5 ex_iso (\<lambda>_. JNull) ex_db ex_cl dash_init ex_events)))
         (fst (snd (dashboard_run ex_env 5 ex_iso (\<lambda>_. JNull) ex_db ex_cl dash_init ex_events)))
   \<and> db_wf (snd (snd (dashboard_run ex_env 5 ex_iso (\<lambda>_. JNull) ex_db ex_cl dash_init ex_events)))"
proof -
  have h2: "next_oid ex_db + length ex_events \<le> 16 ^ 24" by (simp add: ex_db_def ex_events_def)
  have h3: "client_synced ex_env ex_db ex_cl" by code_simp
  have h4: "dash_inv ex_cl dash_init" by (simp add: dash_inv_def dash_init_def)
  have run: "dashboard_run ex_env 5 ex_iso (\<lambda>_. JNull) ex_db ex_cl dash_init ex_events =
      (fst (dashboard_run ex_env 5 ex_iso (\<lambda>_. JNull) ex_db ex_cl dash_init ex_events),
       fst (snd (dashboard_run ex_env 5 ex_iso (\<lambda>_. JNull) ex_db ex_cl dash_init ex_events)),
       snd (snd (dashboard_run ex_env 5 ex_iso (\<lambda>_. JNull) ex_db ex_cl dash_init ex_events)))"
    by simp
  show ?thesis using dashboard_keeps_synced [OF ex_db_wf h2 h3 h4 run] ex_db_wf h2 h3 h4 by simp
qed

theorem todoList_cards_counters_witness:
  "[ex_todo] \<noteq> [] \<and>
   (\<exists>cs. todoList_render 1736467200001 [ex_todo] None = TaskCards cs None
      \<and> map card_key cs = map (\<lambda>t. oid_hex (todo_id t)) (sortedTodos [ex_todo])
      \<and> length (filter card_expired cs) = overdueTasks 1736467200001 [ex_todo]
      \<and> length (filter card_completed cs) = completedTasks [ex_todo]
      \<and> length (filter (\<lambda>c. \<not> card_completed c) cs) = pendingTasks [ex_todo])"
  using todoList_cards_counters [of "[ex_todo]" 1736467200001 None] by simp

lemma ex_cl_user: "user ex_cl = Some (the (user ex_cl))"
  by (simp add: ex_cl_def)

theorem chat_reach_answers_witness:
  "chat_reach (chat_send ex_cl (\<lambda>_. JNull) ex_cs)
   \<and> questions (ui_messages (cs_ui (chat_send ex_cl (\<lambda>_. JNull) ex_cs))) + 1
       = answers (ui_messages (cs_ui (chat_send ex_cl (\<lambda>_. JNull) ex_cs)))
         + length (cs_pending (chat_send ex_cl (\<lambda>_. JNull) ex_cs))"
proof -
  have r: "chat_reach (chat_send ex_cl (\<lambda>_. JNull) ex_cs)"
    unfolding ex_cs_def by (intro chat_reach.send chat_reach.input chat_reach.init)
  show ?thesis using chat_reach_answers [OF r] r by blast
qed

theorem chat_answers_out_of_order_witness:
  "cs_pending ex_cs = [] \<and> user ex_cl = Some (the (user ex_cl))
   \<and> js_trim ''What first?'' \<noteq> [] \<and> js_trim ''And then?'' \<noteq> []
   \<and> \<not> cs_loading (fst (chat_arrive ex_env 5 ex_db 1 ex_cs2))
   \<and> cs_pending (fst (chat_arrive ex_env 5 ex_db 1 ex_cs2)) \<noteq> []"
proof -
  have h1: "cs_pending chat_session_init = []" by (simp add: chat_session_init_def)
  have h3: "js_trim ''What first?'' \<noteq> []" by code_simp
  have h4: "js_trim ''And then?'' \<noteq> []" by code_simp
  have e: "ex_cs = chat_input ''What first?'' chat_session_init" by (simp add: ex_cs_def)
  have h1': "cs_pending ex_cs = []" using h1 by (simp add: e chat_input_def)
  note t = chat_answers_out_of_order [OF h1 ex_cl_user h3 h4,
      where tj = "\<lambda>_. JNull" and E = ex_env and now = 5 and s = ex_db,
      OF ex_cs2_def [unfolded e, symmetric] surjective_pairing surjective_pairing]
  show ?thesis using t h1' ex_cl_user h3 h4 by blast
qed

theorem signup_page_to_dashboard_witness:
  "user_findOne ex_db (su_username ex_carol_form) = None \<and> cast_username (su_username ex_carol_form) \<noteq> []
   \<and> js_trim (su_fullName ex_carol_form) \<noteq> [] \<and> 6 \<le> length (su_password ex_carol_form)
   \<and> index_page ModeSignup (fst (snd (signupPage_submit ex_env 5 3 ex_db (logout_client ex_cl) ex_carol_form)))
       = DashboardPage [ex_todo]
   \<and> client_synced ex_env
       (snd (fetchTodos ex_env 5 (snd (snd (signupPage_submit ex_env 5 3 ex_db (logout_client ex_cl) ex_carol_form)))
          (fst (snd (signupPage_submit ex_env 5 3 ex_db (logout_client ex_cl) ex_carol_form)))))
       (fst (fetchTodos ex_env 5 (snd (snd (signupPage_submit ex_env 5 3 ex_db (logout_client ex_cl) ex_carol_form)))
          (fst (snd (signupPage_submit ex_env 5 3 ex_db (logout_client ex_cl) ex_carol_form)))))"
proof -
  have h1: "user_findOne ex_db (su_username ex_carol_form) = None"
    by (simp add: ex_carol_form_def ex_db_def ex_alice_def user_findOne_def) code_simp
  have h2: "cast_username (su_username ex_carol_form) \<noteq> []"
    by (simp add: ex_carol_form_def) code_simp
  have h3: "js_trim (su_fullName ex_carol_form) \<noteq> []"
    by (simp add: ex_carol_form_def) code_simp
  have h4: "6 \<le> length (su_password ex_carol_form)" by (simp add: ex_carol_form_def)
  have c: "client_todos (logout_client ex_cl) = [ex_todo]" by (simp add: logout_client_def ex_cl_def)
  have sub: "signupPage_submit ex_env 5 3 ex_db (logout_client ex_cl) ex_carol_form =
      (fst (signupPage_submit ex_env 5 3 ex_db (logout_client ex_cl) ex_carol_form),
       fst (snd (signupPage_submit ex_env 5 3 ex_db (logout_client ex_cl) ex_carol_form)),
       snd (snd (signupPage_submit ex_env 5 3 ex_db (logout_client ex_cl) ex_carol_form)))"
    by simp
  note t = signup_page_to_dashboard [OF h1 h2 h3 h4 sub surjective_pairing, where md = ModeSignup]
  show ?thesis using t h1 h2 h3 h4 c by simp
qed


text \<open>Start-up with \<open>JWT_SECRET\<close> written in \<open>.env\<close> only: a token signed with the
  literal reads Alice's tasks.\<close>

theorem index_boot_forged_read_witness:
  "(Map.empty :: env) ''JWT_SECRET'' = None
   \<and> app (boot_server_env (\<lambda>_ _. None) ex_pd [] (\<lambda>_. [])
          (snd (index_boot [''JWT_SECRET'' \<mapsto> ''s3cret''] Map.empty))) 7 ex_db
        (TodoReq (MyTodos (Some (jwt_sign 0 ''alice'' 9 dev_secret)))) =
     (RTodo (getTodos ex_db \<lparr>claim_id = 0, claim_username = ''alice'', claim_iat = 9\<rparr>), ex_db)"
  using index_boot_forged_read [where pe = Map.empty and f = "[''JWT_SECRET'' \<mapsto> ''s3cret'']"
      and mistral = "\<lambda>_ _. None" and dp = ex_pd and ks = "[]" and sf = "\<lambda>_. []" and now = 7
      and s = ex_db and i = 0 and u = "''alice''" and t = 9]
  by simp



theorem list_ids_roundtrip_witness:
  "db_wf ex_db \<and> next_oid ex_db \<le> 16 ^ 24 \<and> ex_todo \<in> set (getUserTodos ex_db ''alice'')
   \<and> deleteTodoService ex_db ''alice'' (oid_hex (todo_id ex_todo)) =
       Inr (ex_todo, ex_db\<lparr>todos := delete_first (todo_match (todo_id ex_todo) ''alice'') (todos ex_db)\<rparr>)"
proof -
  have h2: "next_oid ex_db \<le> 16 ^ 24" by (simp add: ex_db_def)
  have h3: "ex_todo \<in> set (getUserTodos ex_db ''alice'')"
    by (simp add: getUserTodos_def todo_find_def ex_db_def ex_todo_def)
  show ?thesis using list_ids_roundtrip [OF ex_db_wf h2 h3] ex_db_wf h2 h3 by simp
qed

text \<open>The create dialog open on the filled form: submit, then \<open>Add Task\<close> again.\<close>

theorem dialog_after_create_witness:
  "dash_showForm (dash_init\<lparr>dash_showForm := True, dash_form := ex_form\<rparr>)
   \<and> dash_editing (dash_init\<lparr>dash_showForm := True, dash_form := ex_form\<rparr>) = None
   \<and> js_trim (form_title (dash_form (dash_init\<lparr>dash_showForm := True, dash_form := ex_form\<rparr>))) \<noteq> []
   \<and> form_dueDate (dash_form (dash_init\<lparr>dash_showForm := True, dash_form := ex_form\<rparr>)) = Some 1736467200000
   \<and> fst (dashboard_dialogs (\<lambda>_. ''January 10th, 2025'') ex_cl
        (fst (dashboard_step ex_env 7 ex_iso (\<lambda>_. JNull) ex_db ex_cl
           (dash_init\<lparr>dash_showForm := True, dash_form := ex_form\<rparr>) DFormSubmit))) = None"
proof -
  let ?d = "dash_init\<lparr>dash_showForm := True, dash_form := ex_form\<rparr>"
  have h1: "dash_showForm ?d" and h2: "dash_editing ?d = None" by (simp_all add: dash_init_def)
  have h3: "js_trim (form_title (dash_form ?d)) \<noteq> []" by (simp add: ex_form_def) code_simp
  have h4: "form_dueDate (dash_form ?d) = Some 1736467200000" by (simp add: ex_form_def)
  have e: "dashboard_step ex_env 7 ex_iso (\<lambda>_. JNull) ex_db ex_cl ?d DFormSubmit =
      (fst (dashboard_step ex_env 7 ex_iso (\<lambda>_. JNull) ex_db ex_cl ?d DFormSubmit),
       fst (snd (dashboard_step ex_env 7 ex_iso (\<lambda>_. JNull) ex_db ex_cl ?d DFormSubmit)),
       snd (snd (dashboard_step ex_env 7 ex_iso (\<lambda>_. JNull) ex_db ex_cl ?d DFormSubmit)))" by simp
  note r = dialog_after_create [OF h1 h2 h3 h4 e, where ppp = "\<lambda>_. ''January 10th, 2025''"]
  have "fst (dashboard_dialogs (\<lambda>_. ''January 10th, 2025'') (fst (snd (dashboard_step ex_env 7 ex_iso (\<lambda>_. JNull) ex_db ex_cl ?d DFormSubmit)))
      (fst (dashboard_step ex_env 7 ex_iso (\<lambda>_. JNull) ex_db ex_cl ?d DFormSubmit))) = None"
    using r by blast
  then have "fst (dashboard_dialogs (\<lambda>_. ''January 10th, 2025'') ex_cl
      (fst (dashboard_step ex_env 7 ex_iso (\<lambda>_. JNull) ex_db ex_cl ?d DFormSubmit))) = None"
    by (simp add: dashboard_dialogs_def)
  with h1 h2 h3 h4 show ?thesis by simp
qed
end
